theory Spec2Isabelle
  imports Complex_Main "HOL-Library.Sublist" "HOL-Library.Log_Nat"
begin

section \<open>JavaScript numbers\<close>

text \<open>
  The program computes with JavaScript \<open>number\<close>s.  A finite number is modelled by a
  real (the sign of zero is not modelled); the three non-finite values are kept,
  because the program divides by quantities that can be zero (an image dimension, a
  rectangle's area, a template's aspect ratio) and compares the outcome afterwards:
  \<open>n / 0\<close> is \<open>Infinity\<close>, \<open>0 / 0\<close> is \<open>NaN\<close>, and every comparison with \<open>NaN\<close> is
  false.  The operations below are the exact ones; the rounding of a result to
  binary64 is a separate step (\<open>fl\<close>, next section).
\<close>

datatype jsnum = NaN | NInf | Fin real | PInf

fun js_neg :: "jsnum \<Rightarrow> jsnum" where
  "js_neg NaN = NaN"
| "js_neg NInf = PInf"
| "js_neg PInf = NInf"
| "js_neg (Fin a) = Fin (- a)"

fun js_add :: "jsnum \<Rightarrow> jsnum \<Rightarrow> jsnum" where
  "js_add NaN _ = NaN"
| "js_add _ NaN = NaN"
| "js_add (Fin a) (Fin b) = Fin (a + b)"
| "js_add PInf NInf = NaN"
| "js_add NInf PInf = NaN"
| "js_add PInf _ = PInf"
| "js_add NInf _ = NInf"
| "js_add (Fin a) b = b"

definition js_sub :: "jsnum \<Rightarrow> jsnum \<Rightarrow> jsnum" where
  "js_sub a b = js_add a (js_neg b)"

text \<open>The sign of a non-NaN number: \<open>-1\<close>, \<open>0\<close> or \<open>1\<close>.\<close>

fun js_sign :: "jsnum \<Rightarrow> int" where
  "js_sign NaN = 0"
| "js_sign NInf = - 1"
| "js_sign PInf = 1"
| "js_sign (Fin a) = (if a < 0 then - 1 else if a = 0 then 0 else 1)"

definition js_inf :: "int \<Rightarrow> jsnum" where
  "js_inf s = (if s < 0 then NInf else if s = 0 then NaN else PInf)"

fun js_mul :: "jsnum \<Rightarrow> jsnum \<Rightarrow> jsnum" where
  "js_mul NaN _ = NaN"
| "js_mul _ NaN = NaN"
| "js_mul (Fin a) (Fin b) = Fin (a * b)"
| "js_mul a b = js_inf (js_sign a * js_sign b)"

text \<open>
  Division: a finite number over zero is an infinity of the dividend's sign, \<open>0 / 0\<close>
  and \<open>Infinity / Infinity\<close> are \<open>NaN\<close>, a finite number over an infinity is \<open>0\<close>.
\<close>

fun js_div :: "jsnum \<Rightarrow> jsnum \<Rightarrow> jsnum" where
  "js_div NaN _ = NaN"
| "js_div _ NaN = NaN"
| "js_div (Fin a) (Fin b) = (if b = 0 then js_inf (js_sign (Fin a)) else Fin (a / b))"
| "js_div (Fin a) _ = Fin 0"
| "js_div a (Fin b) = js_inf (js_sign a * (if b < 0 then - 1 else 1))"
| "js_div _ _ = NaN"

text \<open>The comparisons \<open><\<close>, \<open>>\<close>, \<open><=\<close>, \<open>>=\<close>: false as soon as one side is \<open>NaN\<close>.\<close>

fun js_lt :: "jsnum \<Rightarrow> jsnum \<Rightarrow> bool" where
  "js_lt NaN _ = False"
| "js_lt _ NaN = False"
| "js_lt (Fin a) (Fin b) = (a < b)"
| "js_lt _ NInf = False"
| "js_lt NInf _ = True"
| "js_lt PInf _ = False"
| "js_lt (Fin a) PInf = True"

definition js_gt :: "jsnum \<Rightarrow> jsnum \<Rightarrow> bool" where
  "js_gt a b = js_lt b a"

definition js_le :: "jsnum \<Rightarrow> jsnum \<Rightarrow> bool" where
  "js_le a b = (a \<noteq> NaN \<and> b \<noteq> NaN \<and> \<not> js_lt b a)"

definition js_ge :: "jsnum \<Rightarrow> jsnum \<Rightarrow> bool" where
  "js_ge a b = js_le b a"

text \<open>\<open>Math.max\<close> and \<open>Math.min\<close> of two arguments: \<open>NaN\<close> if either is.\<close>

definition js_max :: "jsnum \<Rightarrow> jsnum \<Rightarrow> jsnum" where
  "js_max a b = (if a = NaN \<or> b = NaN then NaN else if js_lt a b then b else a)"

definition js_min :: "jsnum \<Rightarrow> jsnum \<Rightarrow> jsnum" where
  "js_min a b = (if a = NaN \<or> b = NaN then NaN else if js_lt b a then b else a)"

fun js_floor :: "jsnum \<Rightarrow> jsnum" where
  "js_floor (Fin a) = Fin (of_int \<lfloor>a\<rfloor>)"
| "js_floor a = a"

text \<open>\<open>Math.round\<close> rounds halves up: \<open>Math.round(2.5) = 3\<close>, \<open>Math.round(-2.5) = -2\<close>.\<close>

fun js_round :: "jsnum \<Rightarrow> jsnum" where
  "js_round (Fin a) = Fin (of_int \<lfloor>a + 1 / 2\<rfloor>)"
| "js_round a = a"

fun js_abs :: "jsnum \<Rightarrow> jsnum" where
  "js_abs (Fin a) = Fin \<bar>a\<bar>"
| "js_abs NInf = PInf"
| "js_abs a = a"

text \<open>
  The remainder operator \<open>%\<close> on finite numbers with a non-zero divisor: the result
  has the sign of the dividend (the quotient is truncated towards zero).
\<close>

definition js_rem :: "real \<Rightarrow> real \<Rightarrow> real" where
  "js_rem a b = a - b * of_int (if a / b < 0 then \<lceil>a / b\<rceil> else \<lfloor>a / b\<rfloor>)"

section \<open>Rounding to binary64\<close>

text \<open>
  A \<open>number\<close> is a binary64 value: every arithmetic operation returns the exact result
  rounded to the nearest number with a 53-bit significand, ties to the even
  significand, and a decimal literal denotes the binary64 value nearest to it.

  \<open>pow2 k\<close> is \<open>2^k\<close> for an integer \<open>k\<close>.  \<open>exponent x\<close> is the \<open>e\<close> with
  \<open>2^e \<le> |x| < 2^(e+1)\<close>, computed from the bit length of \<open>\<lfloor>|x|\<rfloor>\<close> when \<open>1 \<le> |x|\<close> and
  of \<open>\<lceil>1/|x|\<rceil> - 1\<close> otherwise.
\<close>

definition pow2 :: "int \<Rightarrow> real" where
  "pow2 k = (if 0 \<le> k then 2 ^ nat k else 1 / 2 ^ nat (- k))"

definition exponent :: "real \<Rightarrow> int" where
  "exponent x =
    (if 1 \<le> \<bar>x\<bar> then bitlen \<lfloor>\<bar>x\<bar>\<rfloor> - 1 else - bitlen (\<lceil>1 / \<bar>x\<bar>\<rceil> - 1))"

text \<open>The nearest integer, a tie going to the even one.\<close>

definition roundEven :: "real \<Rightarrow> int" where
  "roundEven x =
    (let n = \<lfloor>x\<rfloor>;
         r = x - of_int n
     in if r < 1 / 2 then n
        else if 1 / 2 < r then n + 1
        else if even n then n else n + 1)"

text \<open>
  Rounding with an unbounded exponent range above: the spacing of the binary64 values
  around \<open>x\<close> is \<open>2^(e - 52)\<close>, where \<open>e\<close> is the exponent of \<open>x\<close>, and not less than \<open>-1022\<close>
  (below \<open>2^(-1022)\<close> the values are evenly spaced).
\<close>

definition round53 :: "real \<Rightarrow> real" where
  "round53 x =
    (if x = 0 then 0
     else (let q = pow2 (max (exponent x) (- 1022) - 52)
           in of_int (roundEven (x / q)) * q))"

text \<open>The binary64 value of a real result: a rounded magnitude of \<open>2^1024\<close> overflows.\<close>

definition binary64 :: "real \<Rightarrow> jsnum" where
  "binary64 x =
    (let y = round53 x
     in if pow2 1024 \<le> y then PInf
        else if y \<le> - pow2 1024 then NInf
        else Fin y)"

text \<open>
  \<open>fl\<close> rounds the result of an operation.  It leaves a binary64 value as it is, so it
  is also applied to a number that the program reads (a field of a profile): that
  number is a binary64 value in the program.

  Rounding is applied where the program truncates a computed value to an integer,
  compares a computed difference with a threshold that it can reach, or accumulates a
  sum: in \<open>projectTemplate\<close>, in \<open>deviations\<close>, in \<open>progressAt\<close> and in the cursor of
  the scan loop.  The remaining computations are kept exact.  Image dimensions,
  rectangle coordinates and pixel counts are integers that binary64 holds exactly.
\<close>

fun fl :: "jsnum \<Rightarrow> jsnum" where
  "fl (Fin x) = binary64 x"
| "fl a = a"

section \<open>Color Range Model: \<open>getHsvRange\<close>\<close>

text \<open>
  \<open>HSVRange\<close>: two arrays \<open>[h, s, v, alpha]\<close>.  A tolerance is an object with the
  three fields \<open>h\<close>, \<open>s\<close>, \<open>v\<close>.  The RGB sample is the array \<open>[r, g, b]\<close>, read at
  indices 0, 1 and 2; it is modelled as a triple.
\<close>

record HSVRange =
  lower :: "real list"
  upper :: "real list"

record hsv_tolerance =
  tol_h :: real
  tol_s :: real
  tol_v :: real

type_synonym rgb = "real \<times> real \<times> real"

definition default_tolerance :: hsv_tolerance where
  "default_tolerance = \<lparr>tol_h = 10, tol_s = 40, tol_v = 40\<rparr>"

text \<open>The hue in degrees, before the OpenCV rescaling (\<open>h\<close> in the source).\<close>

definition hue_degrees :: "real \<Rightarrow> real \<Rightarrow> real \<Rightarrow> real" where
  "hue_degrees r g b =
    (let mx = max (max r g) b;
         mn = min (min r g) b;
         delta = mx - mn;
         h = (if delta = 0 then 0
              else if mx = r then 60 * js_rem ((g - b) / delta) 6
              else if mx = g then 60 * ((b - r) / delta + 2)
              else if mx = b then 60 * ((r - g) / delta + 4)
              else 0)
     in if h < 0 then h + 360 else h)"

definition getHsvRange :: "rgb \<Rightarrow> hsv_tolerance \<Rightarrow> HSVRange" where
  "getHsvRange rgb tolerance =
    (let r = fst rgb / 255;
         g = fst (snd rgb) / 255;
         b = snd (snd rgb) / 255;
         mx = max (max r g) b;
         mn = min (min r g) b;
         delta = mx - mn;
         h = hue_degrees r g b;
         s = (if mx = 0 then 0 else delta / mx);
         v = mx;
         cvH = h / 2;
         cvS = s * 255;
         cvV = v * 255
     in \<lparr>lower = [max 0 (cvH - tol_h tolerance),
                  max 0 (cvS - tol_s tolerance),
                  max 0 (cvV - tol_v tolerance),
                  0],
         upper = [min 180 (cvH + tol_h tolerance),
                  min 255 (cvS + tol_s tolerance),
                  min 255 (cvV + tol_v tolerance),
                  255]\<rparr>)"

section \<open>The image-processing collaborator\<close>

text \<open>
  The pixel primitives come from the global \<open>cv\<close> (OpenCV.js), which is not part of
  the repository: it is a parameter of the model.  \<open>typeof cv === 'undefined'\<close> is
  the value \<open>None\<close>; otherwise \<open>cv\<close> is a record of the operations the program
  calls, each one returning either the thrown value or its result.  The types
  \<open>'i\<close>, \<open>'m\<close> and \<open>'c\<close> are the image elements, the \<open>cv.Mat\<close> buffers and
  the contours.

  Consecutive collaborator calls that sit in the same \<open>try\<close> block and only feed one
  another are one operation of the record:
  \<^item> \<open>cv_toHsv\<close>: \<open>new cv.Mat()\<close> and the two \<open>cv.cvtColor\<close> calls;
  \<^item> \<open>cv_segment\<close>: the two bound buffers, \<open>cv.inRange\<close>, \<open>new cv.MatVector()\<close>
    and \<open>cv.findContours\<close> (in debug mode also the pixel count of the mask, whose
    value is not used); the result lists the contours in the order
    \<open>contours.get(0), contours.get(1), ...\<close>;
  \<^item> \<open>cv_countInRange\<close>: the two bound buffers, \<open>cv.inRange\<close> and
    \<open>cv.countNonZero\<close> on a region;
  \<^item> \<open>cv_meanHue\<close>: \<open>cv.split\<close>, the saturation threshold and \<open>cv.mean\<close>.
  \<^item> \<open>cv_imread\<close>: \<open>cv.imread\<close> and the empty buffers constructed right after it.
  The queries on a contour that was already extracted (\<open>cv.contourArea\<close>,
  \<open>cv.boundingRect\<close>) and the construction of a buffer are taken not to throw: in a
  grouped operation it is the pixel operation that may throw.  What \<open>delete()\<close> does
  is modelled below, with the buffer handles.  Areas and means are finite numbers.  A
  frame that is not a readable buffer shows as the first collaborator call on it
  throwing.
\<close>

datatype js_error = JsError string

record rect =
  rect_x :: int
  rect_y :: int
  rect_width :: int
  rect_height :: int

record ('i, 'm, 'c) cvlib =
  cv_imread :: "'i \<Rightarrow> js_error + 'm"
  mat_cols :: "'m \<Rightarrow> int"
  mat_rows :: "'m \<Rightarrow> int"
  cv_toHsv :: "'m \<Rightarrow> js_error + 'm"
  cv_segment :: "'m \<Rightarrow> HSVRange \<Rightarrow> js_error + 'c list"
  cv_contourArea :: "'c \<Rightarrow> real"
  cv_boundingRect :: "'c \<Rightarrow> rect"
  mat_roi :: "'m \<Rightarrow> rect \<Rightarrow> js_error + 'm"
  cv_countInRange :: "'m \<Rightarrow> HSVRange \<Rightarrow> js_error + nat"
  cv_meanHue :: "'m \<Rightarrow> js_error + real"

text \<open>
  Console output: the method, the message and the value logged with it.  Debug lines
  carry the numbers they print (the source formats them with \<open>toFixed(2)\<close>).
\<close>

datatype console =
    ConsoleError string js_error
  | ConsoleWarn string "js_error option"
  | ConsoleLog string "jsnum list"

section \<open>Detection profiles\<close>

text \<open>The fixed-color profile (\<open>MENU_DARK\<close>, \<open>MENU_LIGHT\<close>, \<open>TEXT_WHITE\<close>).\<close>

record triad_bounds =
  dark :: HSVRange
  light :: HSVRange
  white :: HSVRange

record normalized_box =
  nb_x :: jsnum
  nb_y :: jsnum
  nb_w :: jsnum
  nb_h :: jsnum

record spatial_template =
  normalizedBox :: normalized_box
  aspectRatio :: jsnum

record VisionProfile =
  bounds :: triad_bounds
  spatial :: spatial_template

text \<open>The dominant-hue profile.\<close>

record geometry =
  g_aspectRatio :: jsnum
  g_coverageRatio :: jsnum
  g_width :: jsnum
  g_height :: jsnum

record HueProfile =
  hsvBounds :: HSVRange
  geometry :: geometry

definition MENU_DARK :: rgb where
  "MENU_DARK = (14, 4, 49)"

definition MENU_LIGHT :: rgb where
  "MENU_LIGHT = (50, 4, 139)"

definition TEXT_WHITE :: rgb where
  "TEXT_WHITE = (255, 255, 255)"

definition whiteBounds :: HSVRange where
  "whiteBounds = \<lparr>lower = [0, 0, 180, 0], upper = [180, 60, 255, 255]\<rparr>"

section \<open>Profile Builder: \<open>calibrateReference\<close>\<close>

text \<open>
  The loop that keeps the contour of largest area: \<open>maxArea\<close> starts at 0 and
  \<open>bestRect\<close> at \<open>null\<close>; a contour replaces the pair only when its area is strictly
  larger.
\<close>

fun largestContour ::
  "('i, 'm, 'c) cvlib \<Rightarrow> 'c list \<Rightarrow> real \<times> rect option \<Rightarrow> real \<times> rect option" where
  "largestContour lib [] acc = acc"
| "largestContour lib (cnt # cs) (maxArea, bestRect) =
    (let area = cv_contourArea lib cnt
     in if area > maxArea
        then largestContour lib cs (area, Some (cv_boundingRect lib cnt))
        else largestContour lib cs (maxArea, bestRect))"

definition zeroSpatial :: spatial_template where
  "zeroSpatial =
    \<lparr>normalizedBox = \<lparr>nb_x = Fin 0, nb_y = Fin 0, nb_w = Fin 0, nb_h = Fin 0\<rparr>,
     aspectRatio = Fin 0\<rparr>"

definition spatialOf :: "rect \<Rightarrow> int \<Rightarrow> int \<Rightarrow> spatial_template" where
  "spatialOf bestRect srcCols srcRows =
    \<lparr>normalizedBox =
       \<lparr>nb_x = js_div (Fin (of_int (rect_x bestRect))) (Fin (of_int srcCols)),
        nb_y = js_div (Fin (of_int (rect_y bestRect))) (Fin (of_int srcRows)),
        nb_w = js_div (Fin (of_int (rect_width bestRect))) (Fin (of_int srcCols)),
        nb_h = js_div (Fin (of_int (rect_height bestRect))) (Fin (of_int srcRows))\<rparr>,
     aspectRatio =
       js_div (Fin (of_int (rect_width bestRect))) (Fin (of_int (rect_height bestRect)))\<rparr>"

text \<open>
  The body of the \<open>try\<close> block of the fixed-color variant: the thrown value, or the
  console output and the spatial template it leaves in \<open>spatial\<close>.
\<close>

definition calibrateTry ::
  "('i, 'm, 'c) cvlib \<Rightarrow> 'm \<Rightarrow> HSVRange \<Rightarrow> js_error + (console list \<times> spatial_template)" where
  "calibrateTry lib src darkBounds =
    (case cv_toHsv lib src of
       Inl e \<Rightarrow> Inl e
     | Inr hsv \<Rightarrow>
        (case cv_segment lib hsv darkBounds of
           Inl e \<Rightarrow> Inl e
         | Inr contours \<Rightarrow>
            (case largestContour lib contours (0, None) of
               (maxArea, Some bestRect) \<Rightarrow>
                 if maxArea > 100
                 then Inr ([], spatialOf bestRect (mat_cols lib src) (mat_rows lib src))
                 else Inr ([ConsoleWarn ''Calibration: Could not detect Menu Background.'' None],
                           zeroSpatial)
             | (maxArea, None) \<Rightarrow>
                 Inr ([ConsoleWarn ''Calibration: Could not detect Menu Background.'' None],
                      zeroSpatial))))"

text \<open>
  \<open>calibrateReference\<close>, fixed-color variant.  \<open>cv.imread\<close> is called before the
  \<open>try\<close> block, so what it throws reaches the caller; what the block throws is
  logged and the template stays at its initial value.
\<close>

definition calibrateReference ::
  "('i, 'm, 'c) cvlib option \<Rightarrow> 'i \<Rightarrow> console list \<times> (js_error + VisionProfile)" where
  "calibrateReference cv img =
    (case cv of
       None \<Rightarrow> ([], Inl (JsError ''OpenCV is not loaded yet.''))
     | Some lib \<Rightarrow>
        (let darkBounds = getHsvRange MENU_DARK \<lparr>tol_h = 10, tol_s = 50, tol_v = 50\<rparr>;
             lightBounds = getHsvRange MENU_LIGHT \<lparr>tol_h = 10, tol_s = 50, tol_v = 50\<rparr>
         in case cv_imread lib img of
              Inl e \<Rightarrow> ([], Inl e)
            | Inr src \<Rightarrow>
               (let (logs, template) =
                      (case calibrateTry lib src darkBounds of
                         Inl e \<Rightarrow> ([ConsoleError ''Calibration Error:'' e], zeroSpatial)
                       | Inr r \<Rightarrow> r)
                in (logs,
                    Inr \<lparr>bounds = \<lparr>dark = darkBounds, light = lightBounds, white = whiteBounds\<rparr>,
                         spatial = template\<rparr>))))"

text \<open>
  \<open>calibrateReference\<close>, dominant-hue variant.  It has no \<open>try\<close> block: whatever a
  collaborator call throws reaches the caller.  The region of interest is the centre
  half of the image.
\<close>

definition centreRoi :: "int \<Rightarrow> int \<Rightarrow> rect" where
  "centreRoi hsvCols hsvRows =
    \<lparr>rect_x = \<lfloor>real_of_int hsvCols * 0.25\<rfloor>,
     rect_y = \<lfloor>real_of_int hsvRows * 0.25\<rfloor>,
     rect_width = \<lfloor>real_of_int hsvCols * 0.5\<rfloor>,
     rect_height = \<lfloor>real_of_int hsvRows * 0.5\<rfloor>\<rparr>"

definition zeroGeometry :: geometry where
  "zeroGeometry =
    \<lparr>g_aspectRatio = Fin 0, g_coverageRatio = Fin 0, g_width = Fin 0, g_height = Fin 0\<rparr>"

definition calibrateReference_hue ::
  "('i, 'm, 'c) cvlib option \<Rightarrow> 'i \<Rightarrow> console list \<times> (js_error + HueProfile)" where
  "calibrateReference_hue cv img =
    (case cv of
       None \<Rightarrow> ([], Inl (JsError ''OpenCV is not loaded yet. Please wait for initialization.''))
     | Some lib \<Rightarrow>
        (case cv_imread lib img of
           Inl e \<Rightarrow> ([], Inl e)
         | Inr src \<Rightarrow>
        (case cv_toHsv lib src of
           Inl e \<Rightarrow> ([], Inl e)
         | Inr hsv \<Rightarrow>
        (case mat_roi lib hsv (centreRoi (mat_cols lib hsv) (mat_rows lib hsv)) of
           Inl e \<Rightarrow> ([], Inl e)
         | Inr roi \<Rightarrow>
        (case cv_meanHue lib roi of
           Inl e \<Rightarrow> ([], Inl e)
         | Inr dominantHue \<Rightarrow>
        (let hueDelta = 10;
             hMin = max 0 (dominantHue - hueDelta);
             hMax = min 180 (dominantHue + hueDelta);
             lowerBound = [hMin, 50, 50, 0];
             upperBound = [hMax, 255, 255, 255]
         in case cv_segment lib hsv \<lparr>lower = lowerBound, upper = upperBound\<rparr> of
              Inl e \<Rightarrow> ([], Inl e)
            | Inr contours \<Rightarrow>
               (let totalArea = mat_cols lib src * mat_rows lib src;
                    (logs, geo) =
                      (case largestContour lib contours (0, None) of
                         (maxArea, Some bestRect) \<Rightarrow>
                           if maxArea > 0
                           then ([],
                             \<lparr>g_aspectRatio =
                                js_div (Fin (of_int (rect_width bestRect)))
                                       (Fin (of_int (rect_height bestRect))),
                              g_coverageRatio = js_div (Fin maxArea) (Fin (of_int totalArea)),
                              g_width = Fin (of_int (rect_width bestRect)),
                              g_height = Fin (of_int (rect_height bestRect))\<rparr>)
                           else ([ConsoleWarn
                             ''Calibration: Could not isolate target object in reference image.''
                             None], zeroGeometry)
                       | (maxArea, None) \<Rightarrow>
                           ([ConsoleWarn
                             ''Calibration: Could not isolate target object in reference image.''
                             None], zeroGeometry))
                in (logs,
                    Inr \<lparr>hsvBounds = \<lparr>lower = lowerBound, upper = upperBound\<rparr>,
                         geometry = geo\<rparr>))))))))"

section \<open>Buffer handles\<close>

text \<open>
  The collaborator's buffers are not garbage collected; the program releases each one
  with \<open>delete()\<close>.  A variable that holds a buffer is \<open>null\<close>, refers to a live
  buffer, or still refers to a buffer that has been deleted.  \<open>delete()\<close> releases a
  live buffer; called on a buffer that was already deleted, the binding layer throws a
  \<open>BindingError\<close>; called through \<open>null\<close> it is a \<open>TypeError\<close>.

  The variables tracked are those of the candidate loop of \<open>scanFrame\<close> (in the
  dominant-hue version \<open>roiWhite\<close> is \<open>Roi\<close>, and only the white ones are used).
  The variables of the outer block (\<open>hsv\<close>, the segmentation's mask and bounds,
  \<open>contours\<close>, \<open>hierarchy\<close>) are deleted in \<open>finally\<close> only, once each and before
  the inner ones, so those deletes succeed and are left out.
\<close>

datatype handle = Null | Live | Deleted

datatype mat_var = Roi | MaskLight | MaskWhite | LowL | HighL | LowW | HighW

type_synonym mats = "mat_var \<Rightarrow> handle"

definition noMats :: mats where
  "noMats = (\<lambda>v. Null)"

definition bindingError :: js_error where
  "bindingError = JsError ''BindingError: Mat instance already deleted''"

definition nullError :: js_error where
  "nullError = JsError ''TypeError: Cannot read properties of null''"

text \<open>\<open>x.delete()\<close>\<close>

definition deleteMat :: "mat_var \<Rightarrow> mats \<Rightarrow> js_error + mats" where
  "deleteMat v m =
    (case m v of
       Live \<Rightarrow> Inr (m(v := Deleted))
     | Deleted \<Rightarrow> Inl bindingError
     | Null \<Rightarrow> Inl nullError)"

text \<open>\<open>x = null\<close>\<close>

definition setNull :: "mat_var \<Rightarrow> mats \<Rightarrow> js_error + mats" where
  "setNull v m = Inr (m(v := Null))"

text \<open>\<open>if (x) x.delete()\<close>\<close>

definition deleteIfSet :: "mat_var \<Rightarrow> mats \<Rightarrow> js_error + mats" where
  "deleteIfSet v m = (if m v = Null then Inr m else deleteMat v m)"

text \<open>\<open>x.delete(); x = null\<close>\<close>

definition release :: "mat_var \<Rightarrow> mats \<Rightarrow> js_error + mats" where
  "release v m = (case deleteMat v m of Inl e \<Rightarrow> Inl e | Inr m' \<Rightarrow> setNull v m')"

text \<open>\<open>if (x) { x.delete(); x = null; }\<close>\<close>

definition releaseIfSet :: "mat_var \<Rightarrow> mats \<Rightarrow> js_error + mats" where
  "releaseIfSet v m = (if m v = Null then Inr m else release v m)"

text \<open>The variables \<open>vs\<close> are assigned freshly constructed buffers.\<close>

definition assigned :: "mat_var list \<Rightarrow> mats \<Rightarrow> mats" where
  "assigned vs m = (\<lambda>v. if v \<in> set vs then Live else m v)"

text \<open>
  A sequence of statements on the handles: the handles when the sequence ends or
  throws, and what it threw.
\<close>

fun runSteps :: "(mats \<Rightarrow> js_error + mats) list \<Rightarrow> mats \<Rightarrow> mats \<times> js_error option" where
  "runSteps [] m = (m, None)"
| "runSteps (step # steps) m =
    (case step m of
       Inl e \<Rightarrow> (m, Some e)
     | Inr m' \<Rightarrow> runSteps steps m')"

text \<open>
  The match branch of the overlap and of the deviation version: seven deletes, of
  which only three variables are set to \<open>null\<close> before \<open>break\<close>.
\<close>

definition matchCleanup :: "(mats \<Rightarrow> js_error + mats) list" where
  "matchCleanup =
    [deleteMat MaskLight, deleteMat MaskWhite,
     deleteMat LowL, deleteMat HighL,
     deleteMat LowW, deleteMat HighW,
     deleteMat Roi,
     setNull MaskLight, setNull MaskWhite, setNull Roi]"

text \<open>The cleanup of a candidate that did not match: overlap version, deviation version.\<close>

definition rejectCleanup_iou :: "(mats \<Rightarrow> js_error + mats) list" where
  "rejectCleanup_iou =
    map releaseIfSet [MaskLight, MaskWhite, LowL, HighL, LowW, HighW, Roi]"

definition rejectCleanup_dev :: "(mats \<Rightarrow> js_error + mats) list" where
  "rejectCleanup_dev =
    map release [MaskLight, MaskWhite, LowL, HighL, LowW, HighW, Roi]"

text \<open>The inner part of the \<open>finally\<close> block of the overlap and of the deviation version.\<close>

definition finallyInner :: "(mats \<Rightarrow> js_error + mats) list" where
  "finallyInner =
    map deleteIfSet [Roi, MaskLight, MaskWhite, LowL, HighL, LowW, HighW]"

text \<open>
  The dominant-hue version: the cleanup that follows the density computation, the
  cleanup of its inner \<open>catch\<close>, and the inner part of its \<open>finally\<close> block.
\<close>

definition cleanup_hue :: "(mats \<Rightarrow> js_error + mats) list" where
  "cleanup_hue = map release [MaskWhite, LowW, HighW, Roi]"

definition catchCleanup_hue :: "(mats \<Rightarrow> js_error + mats) list" where
  "catchCleanup_hue = map releaseIfSet [MaskWhite, LowW, HighW, Roi]"

definition finallyInner_hue :: "(mats \<Rightarrow> js_error + mats) list" where
  "finallyInner_hue = map deleteIfSet [Roi, MaskWhite, LowW, HighW]"

text \<open>
  The end of \<open>scanFrame\<close>: the \<open>finally\<close> block runs on the handles the \<open>try\<close>
  statement left; what it throws leaves the function in place of the \<open>return\<close>.
\<close>

definition finallyThen ::
  "(mats \<Rightarrow> js_error + mats) list \<Rightarrow> mats \<Rightarrow> console list \<Rightarrow> bool
    \<Rightarrow> console list \<times> (js_error + bool)" where
  "finallyThen steps m logs detected =
    (case snd (runSteps steps m) of
       Some e \<Rightarrow> (logs, Inl e)
     | None \<Rightarrow> (logs, Inr detected))"

section \<open>Frame Scanner: \<open>scanFrame\<close>\<close>

text \<open>
  The repository holds three versions of \<open>scanFrame\<close>: the overlap version (spatial
  lock by Intersection over Union, then the triad check), the deviation version
  (spatial lock by per-axis deviation, then the triad check) and the dominant-hue
  version (area and aspect-ratio filter, then a white-density check).

  Each returns the console output and either the thrown value or the boolean.
\<close>

text \<open>A plain object \<open>{x, y, width, height}\<close> of numbers.\<close>

record numrect =
  n_x :: jsnum
  n_y :: jsnum
  n_width :: jsnum
  n_height :: jsnum

definition rectNum :: "rect \<Rightarrow> numrect" where
  "rectNum r =
    \<lparr>n_x = Fin (of_int (rect_x r)), n_y = Fin (of_int (rect_y r)),
     n_width = Fin (of_int (rect_width r)), n_height = Fin (of_int (rect_height r))\<rparr>"

definition calculateIoU :: "numrect \<Rightarrow> numrect \<Rightarrow> jsnum" where
  "calculateIoU rectA rectB =
    (let xA = js_max (n_x rectA) (n_x rectB);
         yA = js_max (n_y rectA) (n_y rectB);
         xB = js_min (js_add (n_x rectA) (n_width rectA)) (js_add (n_x rectB) (n_width rectB));
         yB = js_min (js_add (n_y rectA) (n_height rectA)) (js_add (n_y rectB) (n_height rectB));
         interW = js_max (Fin 0) (js_sub xB xA);
         interH = js_max (Fin 0) (js_sub yB yA)
     in if js_le interW (Fin 0) \<or> js_le interH (Fin 0) then Fin 0
        else (let interArea = js_mul interW interH;
                  areaA = js_mul (n_width rectA) (n_height rectA);
                  areaB = js_mul (n_width rectB) (n_height rectB);
                  unionArea = js_sub (js_add areaA areaB) interArea
              in if js_gt unionArea (Fin 0) then js_div interArea unionArea else Fin 0))"

text \<open>Step 1 of the overlap version: the template projected onto the frame.\<close>

definition projectTemplate :: "normalized_box \<Rightarrow> int \<Rightarrow> int \<Rightarrow> numrect" where
  "projectTemplate nb fw fh =
    \<lparr>n_x = js_floor (fl (js_mul (fl (nb_x nb)) (Fin (of_int fw)))),
     n_y = js_floor (fl (js_mul (fl (nb_y nb)) (Fin (of_int fh)))),
     n_width = js_floor (fl (js_mul (fl (nb_w nb)) (Fin (of_int fw)))),
     n_height = js_floor (fl (js_mul (fl (nb_h nb)) (Fin (of_int fh))))\<rparr>"

text \<open>
  The spatial lock of the overlap version: \<open>if (iou < 0.3) continue\<close>, so a candidate
  passes when the comparison \<open>iou < 0.3\<close> is false.
\<close>

definition overlapLock :: "numrect \<Rightarrow> rect \<Rightarrow> bool" where
  "overlapLock expectedRect r = (\<not> js_lt (calculateIoU (rectNum r) expectedRect) (Fin 0.3))"

text \<open>The four deviations \<open>xDiff, yDiff, wDiff, hDiff\<close> of the deviation version.\<close>

definition deviations :: "normalized_box \<Rightarrow> int \<Rightarrow> int \<Rightarrow> rect \<Rightarrow> jsnum list" where
  "deviations target srcCols srcRows r =
    (let normX = fl (js_div (Fin (of_int (rect_x r))) (Fin (of_int srcCols)));
         normY = fl (js_div (Fin (of_int (rect_y r))) (Fin (of_int srcRows)));
         normW = fl (js_div (Fin (of_int (rect_width r))) (Fin (of_int srcCols)));
         normH = fl (js_div (Fin (of_int (rect_height r))) (Fin (of_int srcRows)))
     in [js_abs (fl (js_sub normX (fl (nb_x target)))),
         js_abs (fl (js_sub normY (fl (nb_y target)))),
         js_abs (fl (js_sub normW (fl (nb_w target)))),
         js_abs (fl (js_sub normH (fl (nb_h target))))])"

text \<open>
  The spatial lock of the deviation version:
  \<open>if (xDiff > 0.15 || yDiff > 0.15 || wDiff > 0.15 || hDiff > 0.15) continue\<close>.
  The literal is the binary64 value nearest to \<open>0.15\<close>.
\<close>

definition deviationLock :: "jsnum list \<Rightarrow> bool" where
  "deviationLock ds = (\<not> list_ex (\<lambda>d. js_gt d (binary64 0.15)) ds)"

text \<open>
  The triad check up to the two ratios (the body of the inner \<open>try\<close> of the overlap
  and the deviation versions): the thrown value, or \<open>(lightRatio, whiteRatio)\<close>.
\<close>

definition triadRatios ::
  "('i, 'm, 'c) cvlib \<Rightarrow> 'm \<Rightarrow> VisionProfile \<Rightarrow> rect \<Rightarrow> js_error + (jsnum \<times> jsnum)" where
  "triadRatios lib hsv profile r =
    (case mat_roi lib hsv r of
       Inl e \<Rightarrow> Inl e
     | Inr roi \<Rightarrow>
        (let area = rect_width r * rect_height r
         in case cv_countInRange lib roi (light (bounds profile)) of
              Inl e \<Rightarrow> Inl e
            | Inr lightCount \<Rightarrow>
               (case cv_countInRange lib roi (white (bounds profile)) of
                  Inl e \<Rightarrow> Inl e
                | Inr whiteCount \<Rightarrow>
                    Inr (js_div (Fin (real lightCount)) (Fin (of_int area)),
                         js_div (Fin (real whiteCount)) (Fin (of_int area))))))"

text \<open>\<open>if (lightRatio > 0.01 && whiteRatio > 0.01)\<close>\<close>

definition triadRule :: "jsnum \<times> jsnum \<Rightarrow> bool" where
  "triadRule ratios = (js_gt (fst ratios) (Fin 0.01) \<and> js_gt (snd ratios) (Fin 0.01))"

definition withLogs :: "console list \<Rightarrow> console list \<times> 'a \<Rightarrow> console list \<times> 'a" where
  "withLogs logs r = (logs @ fst r, snd r)"

text \<open>
  The candidate loop of the overlap version.  \<open>continue\<close> and the end of an iteration
  are the recursive call, \<open>break\<close> returns.  The result is the console output and
  the final value of \<open>detected\<close>.
\<close>

fun scanLoop_iou ::
  "('i, 'm, 'c) cvlib \<Rightarrow> 'm \<Rightarrow> VisionProfile \<Rightarrow> numrect \<Rightarrow> bool \<Rightarrow> 'c list
    \<Rightarrow> console list \<times> bool" where
  "scanLoop_iou lib hsv profile expectedRect debugMode [] = ([], False)"
| "scanLoop_iou lib hsv profile expectedRect debugMode (contour # rest) =
    (let r = cv_boundingRect lib contour;
         iou = calculateIoU (rectNum r) expectedRect
     in if \<not> overlapLock expectedRect r
        then scanLoop_iou lib hsv profile expectedRect debugMode rest
        else
          (let spatialLog =
                 (if debugMode
                  then [ConsoleLog ''[Detection] Spatial Match!''
                          [iou, Fin (of_int (rect_x r)), Fin (of_int (rect_y r))]]
                  else [])
           in case triadRatios lib hsv profile r of
                Inl err \<Rightarrow>
                  withLogs (spatialLog @ [ConsoleWarn ''ROI Check Error'' (Some err)])
                    (scanLoop_iou lib hsv profile expectedRect debugMode rest)
              | Inr ratios \<Rightarrow>
                  (let triadLog =
                         (if debugMode
                          then [ConsoleLog ''[Detection] Triad Density''
                                  [js_mul (fst ratios) (Fin 100), js_mul (snd ratios) (Fin 100)]]
                          else [])
                   in if triadRule ratios
                      then (spatialLog @ triadLog, True)
                      else withLogs (spatialLog @ triadLog)
                             (scanLoop_iou lib hsv profile expectedRect debugMode rest))))"

text \<open>
  The handles along the candidate loop of the overlap version: the same iterations as
  \<open>scanLoop_iou\<close>, followed for what they assign and delete.  \<open>roi\<close> is assigned when
  \<open>hsv.roi\<close> returns; the bounds and the mask of a range are assigned before its pixels
  are counted.  The inner \<open>catch\<close> only logs, so after a throw the handles stay as
  they are.  The cleanup at the end of an iteration runs on the seven buffers that the
  iteration has just assigned, so none of its deletes throws; what is followed is its
  effect on the handles.
\<close>

fun matsLoop_iou ::
  "('i, 'm, 'c) cvlib \<Rightarrow> 'm \<Rightarrow> VisionProfile \<Rightarrow> numrect \<Rightarrow> 'c list \<Rightarrow> mats \<Rightarrow> mats" where
  "matsLoop_iou lib hsv profile expectedRect [] m = m"
| "matsLoop_iou lib hsv profile expectedRect (contour # rest) m =
    (let r = cv_boundingRect lib contour
     in if \<not> overlapLock expectedRect r
        then matsLoop_iou lib hsv profile expectedRect rest m
        else
          (case mat_roi lib hsv r of
             Inl e \<Rightarrow> matsLoop_iou lib hsv profile expectedRect rest m
           | Inr roi \<Rightarrow>
              (let m1 = assigned [Roi, LowL, HighL, MaskLight] m
               in case cv_countInRange lib roi (light (bounds profile)) of
                    Inl e \<Rightarrow> matsLoop_iou lib hsv profile expectedRect rest m1
                  | Inr lightCount \<Rightarrow>
                     (let m2 = assigned [LowW, HighW, MaskWhite] m1
                      in case cv_countInRange lib roi (white (bounds profile)) of
                           Inl e \<Rightarrow> matsLoop_iou lib hsv profile expectedRect rest m2
                         | Inr whiteCount \<Rightarrow>
                            if triadRule
                                 (js_div (Fin (real lightCount))
                                    (Fin (of_int (rect_width r * rect_height r))),
                                  js_div (Fin (real whiteCount))
                                    (Fin (of_int (rect_width r * rect_height r))))
                            then fst (runSteps matchCleanup m2)
                            else matsLoop_iou lib hsv profile expectedRect rest
                                   (fst (runSteps rejectCleanup_iou m2))))))"

text \<open>
  The body of the outer \<open>try\<close> of the overlap version: the console output, what it
  threw or the value of \<open>detected\<close>, and the handles of the inner variables.
\<close>

definition scanTry_iou ::
  "('i, 'm, 'c) cvlib \<Rightarrow> 'm \<Rightarrow> VisionProfile \<Rightarrow> bool
    \<Rightarrow> console list \<times> (js_error + bool) \<times> mats" where
  "scanTry_iou lib srcFrame profile debugMode =
    (let fw = mat_cols lib srcFrame;
         fh = mat_rows lib srcFrame;
         expectedRect = projectTemplate (normalizedBox (spatial profile)) fw fh
     in case cv_toHsv lib srcFrame of
          Inl e \<Rightarrow> ([], Inl e, noMats)
        | Inr hsv \<Rightarrow>
           (case cv_segment lib hsv (dark (bounds profile)) of
              Inl e \<Rightarrow> ([], Inl e, noMats)
            | Inr contours \<Rightarrow>
               (let res = scanLoop_iou lib hsv profile expectedRect debugMode contours
                in (fst res, Inr (snd res),
                    matsLoop_iou lib hsv profile expectedRect contours noMats))))"

text \<open>
  \<open>scanFrame\<close>, overlap version.  Without \<open>cv\<close> it returns \<open>false\<close> at once.  The
  \<open>catch\<close> of the outer \<open>try\<close> logs what was thrown; \<open>detected\<close> is still \<open>false\<close>
  then, since the throwing steps precede the loop.  Then the \<open>finally\<close> block runs.
\<close>

definition scanFrame ::
  "('i, 'm, 'c) cvlib option \<Rightarrow> 'm \<Rightarrow> VisionProfile \<Rightarrow> bool \<Rightarrow> console list \<times> (js_error + bool)" where
  "scanFrame cv srcFrame profile debugMode =
    (case cv of
       None \<Rightarrow> ([], Inr False)
     | Some lib \<Rightarrow>
        (case scanTry_iou lib srcFrame profile debugMode of
           (logs, Inl err, m) \<Rightarrow>
             finallyThen finallyInner m (logs @ [ConsoleError ''scanFrame Error'' err]) False
         | (logs, Inr detected, m) \<Rightarrow>
             finallyThen finallyInner m logs detected))"

text \<open>The deviation version: the same structure, without debug output.\<close>

fun scanLoop_dev ::
  "('i, 'm, 'c) cvlib \<Rightarrow> int \<Rightarrow> int \<Rightarrow> 'm \<Rightarrow> VisionProfile \<Rightarrow> 'c list \<Rightarrow> console list \<times> bool" where
  "scanLoop_dev lib srcCols srcRows hsv profile [] = ([], False)"
| "scanLoop_dev lib srcCols srcRows hsv profile (contour # rest) =
    (let r = cv_boundingRect lib contour
     in if \<not> deviationLock (deviations (normalizedBox (spatial profile)) srcCols srcRows r)
        then scanLoop_dev lib srcCols srcRows hsv profile rest
        else
          (case triadRatios lib hsv profile r of
             Inl err \<Rightarrow>
               withLogs [ConsoleWarn ''ROI Check Error'' (Some err)]
                 (scanLoop_dev lib srcCols srcRows hsv profile rest)
           | Inr ratios \<Rightarrow>
               if triadRule ratios then ([], True)
               else scanLoop_dev lib srcCols srcRows hsv profile rest))"

fun matsLoop_dev ::
  "('i, 'm, 'c) cvlib \<Rightarrow> int \<Rightarrow> int \<Rightarrow> 'm \<Rightarrow> VisionProfile \<Rightarrow> 'c list \<Rightarrow> mats \<Rightarrow> mats" where
  "matsLoop_dev lib srcCols srcRows hsv profile [] m = m"
| "matsLoop_dev lib srcCols srcRows hsv profile (contour # rest) m =
    (let r = cv_boundingRect lib contour
     in if \<not> deviationLock (deviations (normalizedBox (spatial profile)) srcCols srcRows r)
        then matsLoop_dev lib srcCols srcRows hsv profile rest m
        else
          (case mat_roi lib hsv r of
             Inl e \<Rightarrow> matsLoop_dev lib srcCols srcRows hsv profile rest m
           | Inr roi \<Rightarrow>
              (let m1 = assigned [Roi, LowL, HighL, MaskLight] m
               in case cv_countInRange lib roi (light (bounds profile)) of
                    Inl e \<Rightarrow> matsLoop_dev lib srcCols srcRows hsv profile rest m1
                  | Inr lightCount \<Rightarrow>
                     (let m2 = assigned [LowW, HighW, MaskWhite] m1
                      in case cv_countInRange lib roi (white (bounds profile)) of
                           Inl e \<Rightarrow> matsLoop_dev lib srcCols srcRows hsv profile rest m2
                         | Inr whiteCount \<Rightarrow>
                            if triadRule
                                 (js_div (Fin (real lightCount))
                                    (Fin (of_int (rect_width r * rect_height r))),
                                  js_div (Fin (real whiteCount))
                                    (Fin (of_int (rect_width r * rect_height r))))
                            then fst (runSteps matchCleanup m2)
                            else matsLoop_dev lib srcCols srcRows hsv profile rest
                                   (fst (runSteps rejectCleanup_dev m2))))))"

definition scanTry_dev ::
  "('i, 'm, 'c) cvlib \<Rightarrow> 'm \<Rightarrow> VisionProfile \<Rightarrow> console list \<times> (js_error + bool) \<times> mats" where
  "scanTry_dev lib srcFrame profile =
    (case cv_toHsv lib srcFrame of
       Inl e \<Rightarrow> ([], Inl e, noMats)
     | Inr hsv \<Rightarrow>
        (case cv_segment lib hsv (dark (bounds profile)) of
           Inl e \<Rightarrow> ([], Inl e, noMats)
         | Inr contours \<Rightarrow>
            (let res = scanLoop_dev lib (mat_cols lib srcFrame) (mat_rows lib srcFrame)
                         hsv profile contours
             in (fst res, Inr (snd res),
                 matsLoop_dev lib (mat_cols lib srcFrame) (mat_rows lib srcFrame)
                   hsv profile contours noMats))))"

definition scanFrame_dev ::
  "('i, 'm, 'c) cvlib option \<Rightarrow> 'm \<Rightarrow> VisionProfile \<Rightarrow> console list \<times> (js_error + bool)" where
  "scanFrame_dev cv srcFrame profile =
    (case cv of
       None \<Rightarrow> ([], Inr False)
     | Some lib \<Rightarrow>
        (case scanTry_dev lib srcFrame profile of
           (logs, Inl err, m) \<Rightarrow>
             finallyThen finallyInner m (logs @ [ConsoleError ''scanFrame Error'' err]) False
         | (logs, Inr detected, m) \<Rightarrow>
             finallyThen finallyInner m logs detected))"

text \<open>
  The dominant-hue version.  Its content check has one hard-coded white range, the
  threshold \<open>config.matchingThreshold\<close> (0.05 when the caller passes no
  configuration) and the contour's area as denominator.
\<close>

record ScanConfig =
  matchingThreshold :: real

definition defaultScanConfig :: ScanConfig where
  "defaultScanConfig = \<lparr>matchingThreshold = 0.05\<rparr>"

definition whiteDensity ::
  "('i, 'm, 'c) cvlib \<Rightarrow> 'm \<Rightarrow> rect \<Rightarrow> real \<Rightarrow> js_error + jsnum" where
  "whiteDensity lib hsv r area =
    (case mat_roi lib hsv r of
       Inl e \<Rightarrow> Inl e
     | Inr roiWhite \<Rightarrow>
        (case cv_countInRange lib roiWhite
                \<lparr>lower = [0, 0, 180, 0], upper = [180, 60, 255, 255]\<rparr> of
           Inl e \<Rightarrow> Inl e
         | Inr whitePixels \<Rightarrow> Inr (js_div (Fin (real whitePixels)) (Fin area))))"

text \<open>The geometric filter: the area check, then the aspect-ratio check.\<close>

definition geometricFilter :: "HueProfile \<Rightarrow> jsnum \<Rightarrow> real \<Rightarrow> rect \<Rightarrow> bool" where
  "geometricFilter profile minArea area r =
    (if js_lt (Fin area) minArea then False
     else
       (let currentAspectRatio =
              js_div (Fin (of_int (rect_width r))) (Fin (of_int (rect_height r)));
            targetAspectRatio = g_aspectRatio (geometry profile);
            deviation =
              js_div (js_abs (js_sub currentAspectRatio targetAspectRatio)) targetAspectRatio
        in \<not> js_gt deviation (Fin 0.3)))"

fun scanLoop_hue ::
  "('i, 'm, 'c) cvlib \<Rightarrow> 'm \<Rightarrow> HueProfile \<Rightarrow> ScanConfig \<Rightarrow> jsnum \<Rightarrow> 'c list
    \<Rightarrow> console list \<times> bool" where
  "scanLoop_hue lib hsv profile config minArea [] = ([], False)"
| "scanLoop_hue lib hsv profile config minArea (contour # rest) =
    (let area = cv_contourArea lib contour;
         r = cv_boundingRect lib contour
     in if \<not> geometricFilter profile minArea area r
        then scanLoop_hue lib hsv profile config minArea rest
        else
          (case whiteDensity lib hsv r area of
             Inl e \<Rightarrow>
               withLogs [ConsoleWarn ''Error during ROI check'' (Some e)]
                 (scanLoop_hue lib hsv profile config minArea rest)
           | Inr density \<Rightarrow>
               if js_gt density (Fin (matchingThreshold config)) then ([], True)
               else scanLoop_hue lib hsv profile config minArea rest))"

text \<open>
  The handles along the candidate loop of the dominant-hue version.  Here every path
  through an iteration releases what it assigned and sets it to \<open>null\<close>: the cleanup
  comes before the threshold test, and the inner \<open>catch\<close> cleans up as well.  Again
  the cleanups run on buffers that are live or on variables that are \<open>null\<close>, and
  do not throw.
\<close>

fun matsLoop_hue ::
  "('i, 'm, 'c) cvlib \<Rightarrow> 'm \<Rightarrow> HueProfile \<Rightarrow> ScanConfig \<Rightarrow> jsnum \<Rightarrow> 'c list \<Rightarrow> mats \<Rightarrow> mats" where
  "matsLoop_hue lib hsv profile config minArea [] m = m"
| "matsLoop_hue lib hsv profile config minArea (contour # rest) m =
    (let area = cv_contourArea lib contour;
         r = cv_boundingRect lib contour
     in if \<not> geometricFilter profile minArea area r
        then matsLoop_hue lib hsv profile config minArea rest m
        else
          (case mat_roi lib hsv r of
             Inl e \<Rightarrow>
               matsLoop_hue lib hsv profile config minArea rest
                 (fst (runSteps catchCleanup_hue m))
           | Inr roiWhite \<Rightarrow>
              (let m1 = assigned [Roi, LowW, HighW, MaskWhite] m
               in case cv_countInRange lib roiWhite
                         \<lparr>lower = [0, 0, 180, 0], upper = [180, 60, 255, 255]\<rparr> of
                    Inl e \<Rightarrow>
                      matsLoop_hue lib hsv profile config minArea rest
                        (fst (runSteps catchCleanup_hue m1))
                  | Inr whitePixels \<Rightarrow>
                     (let m2 = fst (runSteps cleanup_hue m1)
                      in if js_gt (js_div (Fin (real whitePixels)) (Fin area))
                                  (Fin (matchingThreshold config))
                         then m2
                         else matsLoop_hue lib hsv profile config minArea rest m2))))"

definition scanTry_hue ::
  "('i, 'm, 'c) cvlib \<Rightarrow> 'm \<Rightarrow> HueProfile \<Rightarrow> ScanConfig
    \<Rightarrow> console list \<times> (js_error + bool) \<times> mats" where
  "scanTry_hue lib srcFrame profile config =
    (case cv_toHsv lib srcFrame of
       Inl e \<Rightarrow> ([], Inl e, noMats)
     | Inr hsv \<Rightarrow>
        (case cv_segment lib hsv (hsvBounds profile) of
           Inl e \<Rightarrow> ([], Inl e, noMats)
         | Inr contours \<Rightarrow>
            (let frameArea = mat_cols lib srcFrame * mat_rows lib srcFrame;
                 expectedArea = js_mul (Fin (of_int frameArea)) (g_coverageRatio (geometry profile));
                 minArea = js_mul expectedArea (Fin 0.5);
                 res = scanLoop_hue lib hsv profile config minArea contours
             in (fst res, Inr (snd res),
                 matsLoop_hue lib hsv profile config minArea contours noMats))))"

definition scanFrame_hue ::
  "('i, 'm, 'c) cvlib option \<Rightarrow> 'm \<Rightarrow> HueProfile \<Rightarrow> ScanConfig
    \<Rightarrow> console list \<times> (js_error + bool)" where
  "scanFrame_hue cv srcFrame profile config =
    (case cv of
       None \<Rightarrow> ([], Inr False)
     | Some lib \<Rightarrow>
        (case scanTry_hue lib srcFrame profile config of
           (logs, Inl err, m) \<Rightarrow>
             finallyThen finallyInner_hue m (logs @ [ConsoleError ''scanFrame Error:'' err]) False
         | (logs, Inr detected, m) \<Rightarrow>
             finallyThen finallyInner_hue m logs detected))"

section \<open>Scan Orchestrator: \<open>processVideo\<close>\<close>

record DetectionEvent =
  timestamp :: real
  confidence :: real

datatype status = idle | initializing | calibrating | processing | completed | error

record VisionState =
  isProcessing :: bool
  progress :: jsnum
  status :: status
  detections :: "DetectionEvent list"

text \<open>
  A session is the current React state together with the list of the states that the
  \<open>setState\<close> calls have produced so far, oldest first.  \<open>setState(f)\<close> applies \<open>f\<close>
  to the current state and records the outcome.
\<close>

type_synonym session = "VisionState \<times> VisionState list"

definition setState :: "(VisionState \<Rightarrow> VisionState) \<Rightarrow> session \<Rightarrow> session" where
  "setState f ses = (f (fst ses), snd ses @ [f (fst ses)])"

text \<open>
  What the host environment delivers to one call of \<open>processVideo\<close>: the collaborator,
  the outcome of each \<open>await\<close>, and the value of \<open>signal.aborted\<close> when the function
  resumes after it (the flag can only change while the function is suspended).  The
  loop's iterations are numbered from 0; \<open>frameAt k\<close> is the outcome of drawing the
  frame, reading its pixels and wrapping them in a \<open>cv.Mat\<close> in iteration \<open>k\<close>.
\<close>

record ('i, 'm, 'c) scan_env =
  env_cv :: "('i, 'm, 'c) cvlib option"
  imageLoaded :: "js_error + 'i"
  abortedAfterImage :: bool
  canvasContext :: bool
  videoLoaded :: "js_error + unit"
  abortedAfterVideo :: bool
  duration :: jsnum
  abortedAfterSeek :: "nat \<Rightarrow> bool"
  frameAt :: "nat \<Rightarrow> js_error + 'm"
  abortedAfterYield :: "nat \<Rightarrow> bool"

definition interval :: real where
  "interval = 0.5"

text \<open>\<open>Math.min(100, Math.round((currentTime / duration) * 100))\<close>\<close>

definition progressAt :: "real \<Rightarrow> jsnum \<Rightarrow> jsnum" where
  "progressAt currentTime dur =
    js_min (Fin 100)
      (js_round (fl (js_mul (fl (js_div (Fin currentTime) dur)) (Fin 100))))"

text \<open>
  The scan loop.  Its state is the iteration number, \<open>currentTime\<close>, the value of
  \<open>signal.aborted\<close>, \<open>newDetections\<close> and the session.  It returns how it was left:
  the value thrown inside it (if any), the value of \<open>signal.aborted\<close> at that moment,
  \<open>newDetections\<close> and the session.  \<open>currentTime += interval\<close> rounds the sum to
  binary64 (the sum is below the overflow threshold, \<open>currentTime\<close> being below the
  duration).  The loop need not end, for an infinite duration or once the rounded sum
  no longer exceeds \<open>currentTime\<close>: the model's value is then \<open>None\<close>.
\<close>

partial_function (option) scanLoop ::
  "('i, 'm, 'c) scan_env \<Rightarrow> VisionProfile \<Rightarrow> nat \<Rightarrow> real \<Rightarrow> bool \<Rightarrow> DetectionEvent list
    \<Rightarrow> session \<Rightarrow> (js_error option \<times> bool \<times> DetectionEvent list \<times> session) option" where
  "scanLoop env profile k currentTime aborted newDetections ses =
    (if js_lt (Fin currentTime) (duration env) then
       (if aborted then Some (None, True, newDetections, ses)
        else if abortedAfterSeek env k then Some (None, True, newDetections, ses)
        else
          (case frameAt env k of
             Inl e \<Rightarrow> Some (Some e, False, newDetections, ses)
           | Inr mat \<Rightarrow>
              (case snd (scanFrame (env_cv env) mat profile True) of
                 Inl e \<Rightarrow> Some (Some e, False, newDetections, ses)
               | Inr isDetected \<Rightarrow>
                  scanLoop env profile (Suc k) (round53 (currentTime + interval))
                    (abortedAfterYield env k)
                    (if isDetected
                     then newDetections @ [\<lparr>timestamp = currentTime, confidence = 1\<rparr>]
                     else newDetections)
                    (setState (\<lambda>prev. prev\<lparr>progress := progressAt currentTime (duration env)\<rparr>)
                      (if isDetected
                       then setState (\<lambda>prev. prev\<lparr>detections :=
                              newDetections @ [\<lparr>timestamp = currentTime, confidence = 1\<rparr>]\<rparr>) ses
                       else ses)))))
     else Some (None, aborted, newDetections, ses))"

declare scanLoop.simps [code]

text \<open>The \<open>catch\<close> block of \<open>processVideo\<close>.\<close>

definition catchError :: "bool \<Rightarrow> session \<Rightarrow> session" where
  "catchError aborted ses =
    (if \<not> aborted then setState (\<lambda>prev. prev\<lparr>status := error, isProcessing := False\<rparr>) ses
     else ses)"

text \<open>
  What follows the loop: the \<open>catch\<close> block when the loop threw, otherwise the
  transition to \<open>completed\<close> unless the signal is aborted.
\<close>

definition finishScan :: "js_error option \<times> bool \<times> DetectionEvent list \<times> session \<Rightarrow> session" where
  "finishScan r =
    (case r of
       (Some e, aborted, newDetections, ses) \<Rightarrow> catchError aborted ses
     | (None, aborted, newDetections, ses) \<Rightarrow>
         if \<not> aborted
         then setState (\<lambda>prev. prev\<lparr>status := completed, progress := Fin 100,
                                     isProcessing := False\<rparr>) ses
         else ses)"

definition resetState :: VisionState where
  "resetState = \<lparr>isProcessing = True, progress = Fin 0, status = initializing, detections = []\<rparr>"

text \<open>
  \<open>processVideo\<close>, started in state \<open>prev\<close>.  The result is the session when the
  function has run to its end (\<open>None\<close> if it never does).  The canvas sizing has no
  effect on the state and is part of \<open>frameAt\<close>; aborting the previous call's
  controller is an event of that call's environment.
\<close>

definition processVideo :: "('i, 'm, 'c) scan_env \<Rightarrow> VisionState \<Rightarrow> session option" where
  "processVideo env prev =
    (case env_cv env of
       None \<Rightarrow> Some (setState (\<lambda>prev. prev\<lparr>status := error\<rparr>) (prev, []))
     | Some lib \<Rightarrow>
        (let ses1 = setState (\<lambda>prev. prev\<lparr>status := calibrating\<rparr>)
                      (setState (\<lambda>prev. resetState) (prev, []))
         in case imageLoaded env of
              Inl e \<Rightarrow> Some (catchError (abortedAfterImage env) ses1)
            | Inr referenceImage \<Rightarrow>
               if abortedAfterImage env then Some ses1
               else
                 (case snd (calibrateReference (env_cv env) referenceImage) of
                    Inl e \<Rightarrow> Some (catchError False ses1)
                  | Inr profile \<Rightarrow>
                     (let ses2 = setState (\<lambda>prev. prev\<lparr>status := processing\<rparr>) ses1
                      in if \<not> canvasContext env then Some (catchError False ses2)
                         else
                           (case videoLoaded env of
                              Inl e \<Rightarrow> Some (catchError (abortedAfterVideo env) ses2)
                            | Inr u \<Rightarrow>
                               if abortedAfterVideo env then Some ses2
                               else map_option finishScan
                                      (scanLoop env profile 0 0 False [] ses2))))))"

text \<open>
  The worker-based version of the hook drives the same timeline by events.
  \<open>processNextFrame\<close> either completes the session or asks the video to seek (the
  second component is the requested position).  \<open>onWorkerMessage\<close> handles a
  \<open>FRAME_RESULT\<close> message with payload \<open>{detected, timestamp, confidence}\<close>: it
  updates the state, advances \<open>currentTime\<close> and calls \<open>processNextFrame\<close>.
\<close>

definition processNextFrame :: "real \<Rightarrow> jsnum \<Rightarrow> session \<Rightarrow> session \<times> real option" where
  "processNextFrame currentTime dur ses =
    (if js_ge (Fin currentTime) dur
     then (setState (\<lambda>prev. prev\<lparr>isProcessing := False, status := completed,
                                  progress := Fin 100\<rparr>) ses, None)
     else (ses, Some currentTime))"

definition onWorkerMessage ::
  "bool \<times> real \<times> real \<Rightarrow> real \<Rightarrow> jsnum \<Rightarrow> session \<Rightarrow> real \<times> session \<times> real option" where
  "onWorkerMessage payload currentTime dur ses =
    (case payload of
       (detected, ts, conf) \<Rightarrow>
         (let ses1 = (if detected
                      then setState (\<lambda>prev. prev\<lparr>detections :=
                             detections prev @ [\<lparr>timestamp = ts, confidence = conf\<rparr>]\<rparr>) ses
                      else ses);
              ses2 = setState (\<lambda>prev. prev\<lparr>progress := progressAt ts dur\<rparr>) ses1
          in (round53 (currentTime + interval),
              processNextFrame (round53 (currentTime + interval)) dur ses2)))"

section \<open>Properties stated by the specification\<close>

text \<open>The Color Range invariant: lower \<open>\<le>\<close> upper on every channel.\<close>

definition orderedRange :: "HSVRange \<Rightarrow> bool" where
  "orderedRange rg = list_all2 (\<le>) (lower rg) (upper rg)"

text \<open>A bound array within the legal range: hue in [0,180], saturation and value in [0,255].\<close>

definition legalHsv :: "real list \<Rightarrow> bool" where
  "legalHsv v =
    (length v = 4 \<and> 0 \<le> v ! 0 \<and> v ! 0 \<le> 180 \<and> 0 \<le> v ! 1 \<and> v ! 1 \<le> 255
      \<and> 0 \<le> v ! 2 \<and> v ! 2 \<le> 255)"

text \<open>
  The candidates of a frame: the converted frame and the contours, in the order the
  extraction yields them; \<open>None\<close> when a step of the extraction throws.
\<close>

definition extracted ::
  "('i, 'm, 'c) cvlib \<Rightarrow> 'm \<Rightarrow> HSVRange \<Rightarrow> ('m \<times> 'c list) option" where
  "extracted lib srcFrame rg =
    (case cv_toHsv lib srcFrame of
       Inl e \<Rightarrow> None
     | Inr hsv \<Rightarrow>
        (case cv_segment lib hsv rg of
           Inl e \<Rightarrow> None
         | Inr contours \<Rightarrow> Some (hsv, contours)))"

text \<open>No variable refers to a buffer that has been deleted.\<close>

definition clean :: "mats \<Rightarrow> bool" where
  "clean m =
    list_all (\<lambda>v. m v \<noteq> Deleted) [Roi, MaskLight, MaskWhite, LowL, HighL, LowW, HighW]"

text \<open>
  The handles after the match branch: the four bounds still refer to their deleted
  buffers.
\<close>

definition afterMatch :: mats where
  "afterMatch =
    (\<lambda>v. if v = LowL \<or> v = HighL \<or> v = LowW \<or> v = HighW then Deleted else Null)"

text \<open>
  Content verification of one region: the triad check ran to its end and both ratios
  passed the rule.
\<close>

definition contentVerified :: "('i, 'm, 'c) cvlib \<Rightarrow> 'm \<Rightarrow> VisionProfile \<Rightarrow> rect \<Rightarrow> bool" where
  "contentVerified lib hsv profile r =
    (case triadRatios lib hsv profile r of
       Inl e \<Rightarrow> False
     | Inr ratios \<Rightarrow> triadRule ratios)"

text \<open>A candidate passes both the spatial filter and the content verification.\<close>

definition passes_iou ::
  "('i, 'm, 'c) cvlib \<Rightarrow> 'm \<Rightarrow> VisionProfile \<Rightarrow> numrect \<Rightarrow> 'c \<Rightarrow> bool" where
  "passes_iou lib hsv profile expectedRect c =
    (overlapLock expectedRect (cv_boundingRect lib c)
      \<and> contentVerified lib hsv profile (cv_boundingRect lib c))"

definition passes_dev ::
  "('i, 'm, 'c) cvlib \<Rightarrow> int \<Rightarrow> int \<Rightarrow> 'm \<Rightarrow> VisionProfile \<Rightarrow> 'c \<Rightarrow> bool" where
  "passes_dev lib srcCols srcRows hsv profile c =
    (deviationLock
        (deviations (normalizedBox (spatial profile)) srcCols srcRows (cv_boundingRect lib c))
      \<and> contentVerified lib hsv profile (cv_boundingRect lib c))"

text \<open>
  The fraction of the pixels of a region (its bounding box) that a count makes up, as
  a real number; meaningful for a box of positive area.
\<close>

definition fraction :: "nat \<Rightarrow> rect \<Rightarrow> real" where
  "fraction n r = real n / real_of_int (rect_width r * rect_height r)"

text \<open>The number of pixels of a region that lie in a range, when the count succeeds.\<close>

definition matching :: "('i, 'm, 'c) cvlib \<Rightarrow> 'm \<Rightarrow> rect \<Rightarrow> HSVRange \<Rightarrow> nat option" where
  "matching lib hsv r rg =
    (case mat_roi lib hsv r of
       Inl e \<Rightarrow> None
     | Inr roi \<Rightarrow> (case cv_countInRange lib roi rg of Inl e \<Rightarrow> None | Inr n \<Rightarrow> Some n))"

text \<open>Event lists in strictly increasing timestamp order.\<close>

definition increasing :: "DetectionEvent list \<Rightarrow> bool" where
  "increasing es = sorted_wrt (<) (map timestamp es)"

text \<open>
  A trace of states in which the event list only grows at its end: each state's
  events are an initial segment of the next state's.
\<close>

definition appendOnly :: "VisionState list \<Rightarrow> bool" where
  "appendOnly tr = successively (\<lambda>s s'. prefix (detections s) (detections s')) tr"

text \<open>
  Some collaborator call of the dominant-hue calibration throws (that version has no
  \<open>try\<close> block).
\<close>

definition hueCallThrows :: "('i, 'm, 'c) cvlib \<Rightarrow> 'i \<Rightarrow> bool" where
  "hueCallThrows lib img =
    (case cv_imread lib img of
       Inl e \<Rightarrow> True
     | Inr src \<Rightarrow>
    (case cv_toHsv lib src of
       Inl e \<Rightarrow> True
     | Inr hsv \<Rightarrow>
    (case mat_roi lib hsv (centreRoi (mat_cols lib hsv) (mat_rows lib hsv)) of
       Inl e \<Rightarrow> True
     | Inr roi \<Rightarrow>
    (case cv_meanHue lib roi of
       Inl e \<Rightarrow> True
     | Inr h \<Rightarrow>
    (case cv_segment lib hsv
            \<lparr>lower = [max 0 (h - 10), 50, 50, 0], upper = [min 180 (h + 10), 255, 255, 255]\<rparr> of
       Inl e \<Rightarrow> True
     | Inr cs \<Rightarrow> False)))))"

text \<open>The bounds of the fixed-color profile.\<close>

definition fixedBounds :: triad_bounds where
  "fixedBounds =
    \<lparr>dark = getHsvRange MENU_DARK \<lparr>tol_h = 10, tol_s = 50, tol_v = 50\<rparr>,
     light = getHsvRange MENU_LIGHT \<lparr>tol_h = 10, tol_s = 50, tol_v = 50\<rparr>,
     white = whiteBounds\<rparr>"

text \<open>
  The condition a session satisfies at the head of the scan loop: the state holds
  exactly the events collected in \<open>newDetections\<close>, they are in increasing order and
  earlier than \<open>currentTime\<close>, the current state is the last one recorded, and the
  recorded states are append-only with ordered events.
\<close>

definition sessionOk :: "real \<Rightarrow> DetectionEvent list \<Rightarrow> session \<Rightarrow> bool" where
  "sessionOk currentTime newDetections ses =
    (detections (fst ses) = newDetections
      \<and> increasing newDetections
      \<and> list_all (\<lambda>e. timestamp e < currentTime) newDetections
      \<and> snd ses \<noteq> []
      \<and> last (snd ses) = fst ses
      \<and> appendOnly (snd ses)
      \<and> list_all (\<lambda>s. increasing (detections s)) (snd ses))"

text \<open>
  A session that continues another one without touching the events or the status:
  the recorded states are kept, and every state recorded since has the same events.
\<close>

definition continues :: "session \<Rightarrow> session \<Rightarrow> bool" where
  "continues ses ses' =
    (detections (fst ses') = detections (fst ses)
      \<and> status (fst ses') = status (fst ses)
      \<and> prefix (snd ses) (snd ses')
      \<and> list_all (\<lambda>s. detections s = detections (fst ses)) (drop (length (snd ses)) (snd ses'))
      \<and> (snd ses' = snd ses \<and> fst ses' = fst ses
           \<or> snd ses' \<noteq> [] \<and> last (snd ses') = fst ses'))"


text \<open>
  A run that nothing disturbs: the collaborator is there, the reference image loads and
  can be read, the canvas context and the video are available, the duration is a
  finite number, no cancellation is ever requested and every frame can be grabbed.
\<close>

definition undisturbed :: "('i, 'm, 'c) scan_env \<Rightarrow> ('i, 'm, 'c) cvlib \<Rightarrow> real \<Rightarrow> bool" where
  "undisturbed env lib dur =
    (env_cv env = Some lib
      \<and> (\<exists>img src. imageLoaded env = Inr img \<and> cv_imread lib img = Inr src)
      \<and> \<not> abortedAfterImage env
      \<and> canvasContext env
      \<and> videoLoaded env = Inr ()
      \<and> \<not> abortedAfterVideo env
      \<and> duration env = Fin dur
      \<and> (\<forall>k. \<not> abortedAfterSeek env k \<and> \<not> abortedAfterYield env k
               \<and> (\<exists>m. frameAt env k = Inr m)))"

text \<open>
  A video entirely lacking the target color: in no frame does the extraction with the
  dark range yield a contour.
\<close>

definition colorless :: "('i, 'm, 'c) scan_env \<Rightarrow> ('i, 'm, 'c) cvlib \<Rightarrow> bool" where
  "colorless env lib =
    (\<forall>k m hsv cs. frameAt env k = Inr m \<and> extracted lib m (dark fixedBounds) = Some (hsv, cs)
        \<longrightarrow> cs = [])"

section \<open>A synthetic collaborator\<close>

text \<open>
  A small concrete collaborator on which the definitions can be evaluated.  A picture
  is its size and the list of its colored regions; every region is reported as a
  contour by the segmentation, with its bounding box, its area and the number of its
  pixels in the light and in the white range.
\<close>

record blob =
  blob_rect :: rect
  blob_area :: real
  blob_light :: nat
  blob_white :: nat

record picture =
  pic_cols :: int
  pic_rows :: int
  pic_blobs :: "blob list"

definition stubCv :: "(picture, picture, blob) cvlib" where
  "stubCv =
    \<lparr>cv_imread = Inr,
     mat_cols = pic_cols,
     mat_rows = pic_rows,
     cv_toHsv = Inr,
     cv_segment = (\<lambda>m rg. Inr (pic_blobs m)),
     cv_contourArea = blob_area,
     cv_boundingRect = blob_rect,
     mat_roi = (\<lambda>m r. Inr (m\<lparr>pic_blobs := filter (\<lambda>b. blob_rect b = r) (pic_blobs m)\<rparr>)),
     cv_countInRange = (\<lambda>m rg. Inr (sum_list (map (if rg = whiteBounds then blob_white
                                                       else blob_light) (pic_blobs m)))),
     cv_meanHue = (\<lambda>m. Inr 140)\<rparr>"

text \<open>A collaborator whose color conversion throws on every frame.\<close>

definition brokenCv :: "(picture, picture, blob) cvlib" where
  "brokenCv = stubCv\<lparr>cv_toHsv := (\<lambda>m. Inl (JsError ''bad frame''))\<rparr>"

definition mkRect :: "int \<Rightarrow> int \<Rightarrow> int \<Rightarrow> int \<Rightarrow> rect" where
  "mkRect a b w h = \<lparr>rect_x = a, rect_y = b, rect_width = w, rect_height = h\<rparr>"

definition blankPicture :: picture where
  "blankPicture = \<lparr>pic_cols = 100, pic_rows = 100, pic_blobs = []\<rparr>"

text \<open>A 100 x 100 picture with one region at (10,10) of size 30 x 20.\<close>

definition menuBlob :: blob where
  "menuBlob = \<lparr>blob_rect = mkRect 10 10 30 20, blob_area = 600, blob_light = 60, blob_white = 30\<rparr>"

definition menuPicture :: picture where
  "menuPicture = \<lparr>pic_cols = 100, pic_rows = 100, pic_blobs = [menuBlob]\<rparr>"

text \<open>
  The profile of \<open>menuPicture\<close>: the region's box (0.1, 0.1, 0.3, 0.2) in normalized
  units, aspect ratio 1.5.
\<close>

definition menuProfile :: VisionProfile where
  "menuProfile =
    \<lparr>bounds = fixedBounds,
     spatial = \<lparr>normalizedBox = \<lparr>nb_x = Fin (1 / 10), nb_y = Fin (1 / 10),
                                  nb_w = Fin (3 / 10), nb_h = Fin (1 / 5)\<rparr>,
                aspectRatio = Fin (3 / 2)\<rparr>\<rparr>"

text \<open>A region in the menu's place with neither light nor white pixels.\<close>

definition dimBlob :: blob where
  "dimBlob = \<lparr>blob_rect = mkRect 12 10 30 20, blob_area = 600, blob_light = 0, blob_white = 0\<rparr>"

text \<open>A region far from the menu's place.\<close>

definition farBlob :: blob where
  "farBlob = \<lparr>blob_rect = mkRect 70 70 30 20, blob_area = 600, blob_light = 60, blob_white = 30\<rparr>"

definition crowdedPicture :: picture where
  "crowdedPicture = \<lparr>pic_cols = 100, pic_rows = 100, pic_blobs = [farBlob, dimBlob, menuBlob, farBlob]\<rparr>"

text \<open>
  A region of the menu's shape and size in which 18 of the 600 pixels are white (3
  percent), and the dominant-hue profile of a reference picture with that region.
\<close>

definition sparseBlob :: blob where
  "sparseBlob = \<lparr>blob_rect = mkRect 10 10 30 20, blob_area = 600, blob_light = 0, blob_white = 18\<rparr>"

definition sparsePicture :: picture where
  "sparsePicture = \<lparr>pic_cols = 100, pic_rows = 100, pic_blobs = [sparseBlob]\<rparr>"

definition sparseHueProfile :: HueProfile where
  "sparseHueProfile =
    \<lparr>hsvBounds = \<lparr>lower = [130, 50, 50, 0], upper = [150, 255, 255, 255]\<rparr>,
     geometry = \<lparr>g_aspectRatio = Fin (3 / 2), g_coverageRatio = Fin (3 / 50),
                 g_width = Fin 30, g_height = Fin 20\<rparr>\<rparr>"

text \<open>
  A 100 x 100 picture with one region at (45,45) of size 45 x 45 that holds light and
  white pixels, and a profile whose box is (0.3, 0.3, 0.3, 0.3): the region of a
  reference picture at (30,30) of size 30 x 30.  Every axis of the candidate is off by
  15 hundredths of the frame.
\<close>

definition edgeBlob :: blob where
  "edgeBlob = \<lparr>blob_rect = mkRect 45 45 45 45, blob_area = 2025, blob_light = 200, blob_white = 100\<rparr>"

definition edgePicture :: picture where
  "edgePicture = \<lparr>pic_cols = 100, pic_rows = 100, pic_blobs = [edgeBlob]\<rparr>"

definition edgeProfile :: VisionProfile where
  "edgeProfile =
    \<lparr>bounds = fixedBounds,
     spatial = \<lparr>normalizedBox = \<lparr>nb_x = Fin (3 / 10), nb_y = Fin (3 / 10),
                                  nb_w = Fin (3 / 10), nb_h = Fin (3 / 10)\<rparr>,
                aspectRatio = Fin 1\<rparr>\<rparr>"

text \<open>
  The same with the box (0.1, 0.1, 0.1, 0.1) and the region at (25,25) of size 25 x 25.
\<close>

definition rimBlob :: blob where
  "rimBlob = \<lparr>blob_rect = mkRect 25 25 25 25, blob_area = 625, blob_light = 60, blob_white = 30\<rparr>"

definition rimPicture :: picture where
  "rimPicture = \<lparr>pic_cols = 100, pic_rows = 100, pic_blobs = [rimBlob]\<rparr>"

definition rimProfile :: VisionProfile where
  "rimProfile =
    \<lparr>bounds = fixedBounds,
     spatial = \<lparr>normalizedBox = \<lparr>nb_x = Fin (1 / 10), nb_y = Fin (1 / 10),
                                  nb_w = Fin (1 / 10), nb_h = Fin (1 / 10)\<rparr>,
                aspectRatio = Fin 1\<rparr>\<rparr>"

text \<open>A picture whose only region is far from the menu's place.\<close>

definition farPicture :: picture where
  "farPicture = \<lparr>pic_cols = 100, pic_rows = 100, pic_blobs = [farBlob]\<rparr>"

text \<open>A collaborator that cannot crop the region of \<open>dimBlob\<close>.\<close>

definition cropFailCv :: "(picture, picture, blob) cvlib" where
  "cropFailCv =
    stubCv\<lparr>mat_roi := (\<lambda>m r. if r = mkRect 12 10 30 20 then Inl (JsError ''bad crop'')
                                else mat_roi stubCv m r)\<rparr>"

text \<open>The state the hook starts in.\<close>

definition idleState :: VisionState where
  "idleState = \<lparr>isProcessing = False, progress = Fin 0, status = idle, detections = []\<rparr>"

text \<open>
  A two-second video (samples at 0, 0.5, 1 and 1.5 seconds) whose second sample shows
  the menu, scanned with \<open>menuPicture\<close> as reference.
\<close>

definition menuVideo :: "(picture, picture, blob) scan_env" where
  "menuVideo =
    \<lparr>env_cv = Some stubCv,
     imageLoaded = Inr menuPicture,
     abortedAfterImage = False,
     canvasContext = True,
     videoLoaded = Inr (),
     abortedAfterVideo = False,
     duration = Fin 2,
     abortedAfterSeek = (\<lambda>k. False),
     frameAt = (\<lambda>k. Inr (if k = Suc 0 then menuPicture else blankPicture)),
     abortedAfterYield = (\<lambda>k. False)\<rparr>"

text \<open>The same scan of a video without any colored region.\<close>

definition blankVideo :: "(picture, picture, blob) scan_env" where
  "blankVideo = menuVideo\<lparr>frameAt := (\<lambda>k. Inr blankPicture)\<rparr>"

text \<open>The scan of \<open>blankVideo\<close>, cancelled while the third sample is being sought.\<close>

definition cancelledVideo :: "(picture, picture, blob) scan_env" where
  "cancelledVideo = blankVideo\<lparr>abortedAfterSeek := (\<lambda>k. k = Suc (Suc 0))\<rparr>"

section \<open>Rounding\<close>

text \<open>
  \<open>exponent\<close> is the binary exponent, the rounding error is at most half the spacing,
  and the rounding agrees with well-known binary64 values.
\<close>

lemma pow2_nonneg: "0 \<le> k \<Longrightarrow> pow2 k = 2 ^ nat k"
  by (simp add: pow2_def)

lemma pow2_neg: "k < 0 \<Longrightarrow> pow2 k = 1 / 2 ^ nat (- k)"
  by (simp add: pow2_def)

lemma exponent_bounds:
  assumes "x \<noteq> 0"
  shows "pow2 (exponent x) \<le> \<bar>x\<bar> \<and> \<bar>x\<bar> < pow2 (exponent x + 1)"
proof (cases "1 \<le> \<bar>x\<bar>")
  case True
  define n where "n = \<lfloor>\<bar>x\<bar>\<rfloor>"
  have n: "0 < n" using True by (simp add: n_def)
  have e: "exponent x = bitlen n - 1" using True by (simp add: exponent_def n_def)
  have b: "1 \<le> bitlen n" using n by (simp add: bitlen_alt_def)
  from bitlen_bounds[OF n] have lo: "2 ^ nat (bitlen n - 1) \<le> n" and hi: "n < 2 ^ nat (bitlen n)"
    by simp_all
  have "real_of_int (2 ^ nat (bitlen n - 1)) \<le> real_of_int n" using lo by linarith
  also have "\<dots> \<le> \<bar>x\<bar>" by (simp add: n_def)
  finally have L: "pow2 (exponent x) \<le> \<bar>x\<bar>" using b by (simp add: e pow2_def)
  from hi have "n + 1 \<le> 2 ^ nat (bitlen n)" by simp
  then have "real_of_int (n + 1) \<le> real_of_int (2 ^ nat (bitlen n))" by linarith
  moreover have "\<bar>x\<bar> < real_of_int (n + 1)" unfolding n_def by linarith
  ultimately have "\<bar>x\<bar> < 2 ^ nat (bitlen n)" by simp
  then have H: "\<bar>x\<bar> < pow2 (exponent x + 1)" using b by (simp add: e pow2_def)
  from L H show ?thesis ..
next
  case False
  define y where "y = 1 / \<bar>x\<bar>"
  define m where "m = \<lceil>y\<rceil> - 1"
  have xpos: "0 < \<bar>x\<bar>" using assms by simp
  have y1: "1 < y" using False xpos by (simp add: y_def)
  have m: "0 < m" using y1 by (simp add: m_def)
  have e: "exponent x = - bitlen m" using False by (simp add: exponent_def y_def m_def)
  have b: "1 \<le> bitlen m" using m by (simp add: bitlen_alt_def)
  from bitlen_bounds[OF m] have lo: "2 ^ nat (bitlen m - 1) \<le> m" and hi: "m < 2 ^ nat (bitlen m)"
    by simp_all
  have "y \<le> real_of_int (m + 1)" unfolding m_def by simp
  also have "\<dots> \<le> real_of_int (2 ^ nat (bitlen m))" using hi by linarith
  finally have "y \<le> 2 ^ nat (bitlen m)" by simp
  then have "1 / 2 ^ nat (bitlen m) \<le> \<bar>x\<bar>"
    using xpos by (simp add: y_def field_simps)
  then have L: "pow2 (exponent x) \<le> \<bar>x\<bar>" using b by (simp add: e pow2_def)
  have "real_of_int (2 ^ nat (bitlen m - 1)) \<le> real_of_int m" using lo by linarith
  also have "\<dots> < y" unfolding m_def by linarith
  finally have yl: "2 ^ nat (bitlen m - 1) < y" by simp
  then have xl: "\<bar>x\<bar> < 1 / 2 ^ nat (bitlen m - 1)"
    using xpos by (simp add: y_def field_simps)
  have H: "\<bar>x\<bar> < pow2 (exponent x + 1)"
  proof (cases "bitlen m = 1")
    case True
    then show ?thesis using False by (simp add: e pow2_def)
  next
    case F: False
    with b have "1 < bitlen m" by simp
    then have "pow2 (exponent x + 1) = 1 / 2 ^ nat (bitlen m - 1)" by (simp add: e pow2_def)
    then show ?thesis using xl by simp
  qed
  from L H show ?thesis ..
qed

lemma roundEven_int [simp]: "roundEven (of_int n) = n"
  by (simp add: roundEven_def)

lemma roundEven_near: "\<bar>of_int (roundEven x) - x\<bar> \<le> 1 / 2"
  by (simp add: roundEven_def Let_def)


lemma pow2_pos: "0 < pow2 k"
  by (simp add: pow2_def)

lemma round53_error:
  "\<bar>round53 x - x\<bar> \<le> pow2 (max (exponent x) (- 1022) - 52) / 2"
proof (cases "x = 0")
  case True
  then show ?thesis using pow2_pos[of "max (exponent 0) (- 1022) - 52"] by (simp add: round53_def)
next
  case False
  define q where "q = pow2 (max (exponent x) (- 1022) - 52)"
  have q: "0 < q" unfolding q_def by (rule pow2_pos)
  have "round53 x - x = (of_int (roundEven (x / q)) - x / q) * q"
    using False q by (simp add: round53_def q_def[symmetric] Let_def field_simps)
  then have "\<bar>round53 x - x\<bar> = \<bar>of_int (roundEven (x / q)) - x / q\<bar> * q"
    using q by (simp add: abs_mult)
  also have "\<dots> \<le> (1 / 2) * q"
    using roundEven_near[of "x / q"] q by (intro mult_right_mono) simp_all
  finally show ?thesis by (simp add: q_def)
qed

lemmas fl_defs = binary64_def round53_def exponent_def roundEven_def pow2_def compute_bitlen

lemma binary64_examples:
  "binary64 1 = Fin 1"
  "binary64 (1 / 10) = Fin (3602879701896397 / 2 ^ 55)"
  "binary64 (3 / 10) = Fin (5404319552844595 / 2 ^ 54)"
  "fl (js_add (binary64 (1 / 10)) (binary64 (2 / 10))) = Fin (5404319552844596 / 2 ^ 54)"
  "binary64 (2 ^ 53 + 1) = Fin (2 ^ 53)"
  "binary64 (2 ^ 53 + 3) = Fin (2 ^ 53 + 4)"
  "binary64 (2 ^ 1024) = PInf"
  "binary64 (1 / 2 ^ 1075) = Fin 0"
  "js_floor (fl (js_mul (binary64 (29 / 100)) (Fin 100))) = Fin 28"
  by (simp_all add: fl_defs)

lemma pow2_powr: "pow2 k = 2 powr (of_int k)"
proof (cases "0 \<le> k")
  case True
  then have "(2::real) powr (of_int k) = 2 powr (real (nat k))" by simp
  also have "\<dots> = 2 ^ nat k" by (rule powr_realpow) simp
  finally show ?thesis using True by (simp add: pow2_def)
next
  case False
  then have "(2::real) powr (of_int k) = 2 powr (- real (nat (- k)))" by simp
  also have "\<dots> = 1 / 2 powr (real (nat (- k)))" by (simp add: powr_minus divide_simps)
  also have "2 powr (real (nat (- k))) = (2::real) ^ nat (- k)" by (rule powr_realpow) simp
  finally show ?thesis using False by (simp add: pow2_def)
qed

lemma pow2_less_iff: "pow2 a < pow2 b \<longleftrightarrow> a < b"
  by (simp add: pow2_powr)

lemma pow2_le_iff: "pow2 a \<le> pow2 b \<longleftrightarrow> a \<le> b"
  by (simp add: pow2_powr)

lemma pow2_add: "pow2 (a + b) = pow2 a * pow2 b"
  by (simp add: pow2_powr powr_add)

text \<open>A multiple of one half up to \<open>2^52\<close> is a binary64 value.\<close>

lemma round53_half:
  assumes "n \<le> 2 ^ 53"
  shows "round53 (real n / 2) = real n / 2"
proof (cases "n = 0")
  case True
  then show ?thesis by (simp add: round53_def)
next
  case False
  define x where "x = real n / 2"
  define e where "e = exponent x"
  have x0: "x \<noteq> 0" and xpos: "0 < x" using False by (simp_all add: x_def)
  have lo: "1 / 2 \<le> x" using False by (simp add: x_def)
  have "real n \<le> 2 ^ 53" using assms by (metis of_nat_le_iff of_nat_numeral of_nat_power)
  then have hi: "x \<le> 2 ^ 52" by (simp add: x_def)
  from exponent_bounds[OF x0] xpos have B: "pow2 e \<le> x" "x < pow2 (e + 1)"
    by (simp_all add: e_def)
  have "pow2 (- 1) = 1 / 2" by (simp add: pow2_def)
  with lo B(2) have "pow2 (- 1) < pow2 (e + 1)" by simp
  then have e1: "- 1 \<le> e" by (simp add: pow2_less_iff)
  have "pow2 52 = 2 ^ 52" by (simp add: pow2_def)
  with hi B(1) have "pow2 e \<le> pow2 52" by simp
  then have e2: "e \<le> 52" by (simp add: pow2_le_iff)
  define q where "q = pow2 (e - 52)"
  have q: "0 < q" unfolding q_def by (rule pow2_pos)
  have m: "max e (- 1022) = e" using e1 by simp
  have R: "round53 x = of_int (roundEven (x / q)) * q"
    using x0 by (simp add: round53_def e_def[symmetric] m q_def Let_def)
  have "\<exists>i. x / q = of_int i"
  proof (cases "e = 52")
    case True
    with B(1) have "2 ^ 52 \<le> x" by (simp add: pow2_def)
    with hi have "x = 2 ^ 52" by simp
    moreover have "q = 1" using True by (simp add: q_def pow2_def)
    ultimately have "x / q = of_int (2 ^ 52)" by simp
    then show ?thesis by blast
  next
    case False
    with e2 have e3: "e \<le> 51" by simp
    have "pow2 (51 - e) * pow2 (e - 52) = pow2 (- 1)"
      using pow2_add[of "51 - e" "e - 52"] by simp
    then have "pow2 (51 - e) * q = 1 / 2" by (simp add: q_def pow2_def)
    then have "x / q = real n * pow2 (51 - e)"
      using q by (simp add: x_def field_simps)
    also have "pow2 (51 - e) = 2 ^ nat (51 - e)" using e3 by (simp add: pow2_def)
    finally have "x / q = of_int (int n * 2 ^ nat (51 - e))" by simp
    then show ?thesis by blast
  qed
  then obtain i where i: "x / q = of_int i" by blast
  then have "round53 x = of_int i * q" by (simp add: R)
  also have "\<dots> = x" using i q by (simp add: field_simps)
  finally show ?thesis by (simp add: x_def)
qed

text \<open>At \<open>2^52\<close> adding one half changes nothing any more.\<close>

lemma round53_stuck: "round53 (2 ^ 52 + 1 / 2) = 2 ^ 52"
  by (simp add: round53_def exponent_def roundEven_def pow2_def compute_bitlen)

lemma binary64_zero [simp]: "binary64 0 = Fin 0"
  by (simp add: binary64_def round53_def pow2_def)

section \<open>Color ranges stay ordered and legal\<close>

lemma js_rem_small: "\<bar>a\<bar> \<le> 1 \<Longrightarrow> js_rem a 6 = a"
proof -
  assume h: "\<bar>a\<bar> \<le> 1"
  have "\<lfloor>a / 6\<rfloor> = 0" if "0 \<le> a" using that h by (simp add: floor_eq_iff)
  moreover have "\<lceil>a / 6\<rceil> = 0" if "a < 0" using that h by (simp add: ceiling_eq_iff)
  ultimately show ?thesis by (auto simp: js_rem_def not_less)
qed

lemma ratio_bounds: "0 < d \<Longrightarrow> \<bar>a\<bar> \<le> d \<Longrightarrow> - 1 \<le> a / d \<and> a / d \<le> (1::real)"
  by (simp add: field_simps abs_le_iff)

lemma hue_branches:
  fixes x y z :: real and c1 c2 c3 :: bool
  assumes "- 1 \<le> x \<and> x \<le> 1" "- 1 \<le> y \<and> y \<le> 1" "- 1 \<le> z \<and> z \<le> 1"
  defines "h \<equiv> (if c1 then 60 * x else if c2 then 60 * (y + 2)
                  else if c3 then 60 * (z + 4) else 0)"
  shows "0 \<le> (if h < 0 then h + 360 else h) \<and> (if h < 0 then h + 360 else h) \<le> 360"
  using assms(1-3) unfolding h_def by auto

lemma hue_degrees_range:
  assumes "0 \<le> r" "0 \<le> g" "0 \<le> b"
  shows "0 \<le> hue_degrees r g b \<and> hue_degrees r g b \<le> 360"
proof -
  define mx where "mx = max (max r g) b"
  define mn where "mn = min (min r g) b"
  define d where "d = mx - mn"
  have d0: "0 \<le> d" unfolding d_def mx_def mn_def by auto
  have gb: "\<bar>g - b\<bar> \<le> d" and br: "\<bar>b - r\<bar> \<le> d" and rg: "\<bar>r - g\<bar> \<le> d"
    unfolding d_def mx_def mn_def by auto
  show ?thesis
  proof (cases "d = 0")
    case True
    then show ?thesis unfolding hue_degrees_def Let_def d_def mx_def mn_def by simp
  next
    case False
    with d0 have dp: "0 < d" by simp
    note A = ratio_bounds[OF dp gb] ratio_bounds[OF dp br] ratio_bounds[OF dp rg]
    have R: "js_rem ((g - b) / d) 6 = (g - b) / d"
    proof (rule js_rem_small)
      show "\<bar>(g - b) / d\<bar> \<le> 1" using A(1) by linarith
    qed
    have E: "hue_degrees r g b =
      (let h = (if mx = r then 60 * ((g - b) / d) else if mx = g then 60 * ((b - r) / d + 2)
                  else if mx = b then 60 * ((r - g) / d + 4) else 0)
       in if h < 0 then h + 360 else h)"
      unfolding hue_degrees_def Let_def d_def[symmetric] mx_def[symmetric] mn_def[symmetric]
      using False R by simp
    show ?thesis unfolding E Let_def by (rule hue_branches[OF A])
  qed
qed

text \<open>
  Claim C6.  For an RGB sample (each channel between 0 and 255) and a tolerance that is
  non-negative on each channel, the range that \<open>getHsvRange\<close> returns has lower \<open>\<le>\<close>
  upper on every channel, its hue bounds lie in [0,180] and its saturation and value
  bounds lie in [0,255].
\<close>

theorem getHsvRange_ordered_and_legal:
  assumes rgb: "0 \<le> r" "r \<le> 255" "0 \<le> g" "g \<le> 255" "0 \<le> b" "b \<le> 255"
    and tol: "0 \<le> tol_h t" "0 \<le> tol_s t" "0 \<le> tol_v t"
  shows "orderedRange (getHsvRange (r, g, b) t)
    \<and> legalHsv (lower (getHsvRange (r, g, b) t))
    \<and> legalHsv (upper (getHsvRange (r, g, b) t))"
proof -
  define R where "R = r / 255"
  define G where "G = g / 255"
  define B where "B = b / 255"
  define mx where "mx = max (max R G) B"
  define mn where "mn = min (min R G) B"
  have RGB: "0 \<le> R" "R \<le> 1" "0 \<le> G" "G \<le> 1" "0 \<le> B" "B \<le> 1"
    using rgb by (simp_all add: R_def G_def B_def)
  have mx: "0 \<le> mx" "mx \<le> 1" and mn: "0 \<le> mn" "mn \<le> mx"
    using RGB unfolding mx_def mn_def by auto
  define s where "s = (if mx = 0 then 0 else (mx - mn) / mx)"
  have s: "0 \<le> s" "s \<le> 1" using mx mn unfolding s_def by (auto simp: field_simps)
  have h: "0 \<le> hue_degrees R G B" "hue_degrees R G B \<le> 360"
    using hue_degrees_range[of R G B] RGB by simp_all
  have E: "getHsvRange (r, g, b) t =
     \<lparr>lower = [max 0 (hue_degrees R G B / 2 - tol_h t), max 0 (s * 255 - tol_s t),
               max 0 (mx * 255 - tol_v t), 0],
      upper = [min 180 (hue_degrees R G B / 2 + tol_h t), min 255 (s * 255 + tol_s t),
               min 255 (mx * 255 + tol_v t), 255]\<rparr>"
    unfolding getHsvRange_def Let_def s_def mx_def mn_def R_def G_def B_def by simp
  show ?thesis unfolding E orderedRange_def legalHsv_def using h s mx tol by auto
qed

theorem getHsvRange_ordered_and_legal_witness:
  "orderedRange (getHsvRange MENU_DARK \<lparr>tol_h = 10, tol_s = 50, tol_v = 50\<rparr>)
    \<and> legalHsv (lower (getHsvRange MENU_DARK \<lparr>tol_h = 10, tol_s = 50, tol_v = 50\<rparr>))
    \<and> legalHsv (upper (getHsvRange MENU_DARK \<lparr>tol_h = 10, tol_s = 50, tol_v = 50\<rparr>))"
  using getHsvRange_ordered_and_legal
    [of 14 4 49 "\<lparr>tol_h = 10, tol_s = 50, tol_v = 50\<rparr>"]
  by (simp add: MENU_DARK_def)

section \<open>Calibration\<close>

lemma largestContour_bounded:
  "m \<le> bound \<Longrightarrow> \<forall>c\<in>set cs. cv_contourArea lib c \<le> bound
    \<Longrightarrow> fst (largestContour lib cs (m, b)) \<le> bound"
  by (induction cs arbitrary: m b) (auto simp: Let_def)

lemma calibrateTry_no_region:
  assumes "extracted lib src darkBounds = Some (hsv, cs)"
    and "\<forall>c\<in>set cs. cv_contourArea lib c \<le> 100"
  shows "calibrateTry lib src darkBounds =
    Inr ([ConsoleWarn ''Calibration: Could not detect Menu Background.'' None], zeroSpatial)"
proof -
  from assms(1) have A: "cv_toHsv lib src = Inr hsv" "cv_segment lib hsv darkBounds = Inr cs"
    by (auto simp: extracted_def split: sum.splits)
  obtain m b where L: "largestContour lib cs (0, None) = (m, b)" by (cases "largestContour lib cs (0, None)")
  have "fst (largestContour lib cs (0, None)) \<le> 100"
    by (rule largestContour_bounded) (use assms(2) in auto)
  with L have "\<not> m > 100" by simp
  then show ?thesis by (cases b) (simp_all add: calibrateTry_def A L)
qed

lemma zero_template_never_overlaps:
  assumes "0 \<le> rect_x r" "0 \<le> rect_y r"
  shows "\<not> overlapLock (projectTemplate (normalizedBox zeroSpatial) fw fh) r"
  using assms
  by (simp add: overlapLock_def projectTemplate_def zeroSpatial_def calculateIoU_def rectNum_def
      js_max_def js_min_def js_sub_def js_le_def Let_def)

lemma calibrateReference_returns:
  "cv_imread lib img = Inr src \<Longrightarrow> \<exists>logs p. calibrateReference (Some lib) img = (logs, Inr p)"
  by (simp add: calibrateReference_def Let_def split: sum.splits prod.splits)

text \<open>
  A reference picture without any colored region: the extraction yields no contour at
  all, and both versions of the calibration log a warning and return a profile.  This
  refutes claim C1 as stated (that calibration fails on such a picture).
\<close>

theorem calibrateReference_blank_returns:
  "extracted stubCv blankPicture (dark fixedBounds) = Some (blankPicture, [])
   \<and> calibrateReference (Some stubCv) blankPicture =
      ([ConsoleWarn ''Calibration: Could not detect Menu Background.'' None],
       Inr \<lparr>bounds = fixedBounds, spatial = zeroSpatial\<rparr>)
   \<and> calibrateReference_hue (Some stubCv) blankPicture =
      ([ConsoleWarn ''Calibration: Could not isolate target object in reference image.'' None],
       Inr \<lparr>hsvBounds = \<lparr>lower = [130, 50, 50, 0], upper = [150, 255, 255, 255]\<rparr>,
            geometry = zeroGeometry\<rparr>)"
  by (simp add: calibrateReference_def calibrateTry_def calibrateReference_hue_def extracted_def
      stubCv_def blankPicture_def fixedBounds_def Let_def)

text \<open>
  Claim C1, as amended.  \<open>calibrateReference\<close> fails exactly when the collaborator is
  missing or a collaborator call outside a \<open>try\<close> block throws: \<open>cv.imread\<close> in the
  fixed-color version, any collaborator call in the dominant-hue version.  In every
  other case it returns a profile; in particular a reference picture with no
  matching region of the minimum area does not make it fail.
\<close>

theorem calibrateReference_fails_iff:
  "((\<exists>e. snd (calibrateReference cv img) = Inl e)
      \<longleftrightarrow> cv = None \<or> (\<exists>lib e. cv = Some lib \<and> cv_imread lib img = Inl e))
   \<and> ((\<exists>e. snd (calibrateReference_hue cv img) = Inl e)
      \<longleftrightarrow> cv = None \<or> (\<exists>lib. cv = Some lib \<and> hueCallThrows lib img))"
proof (intro conjI)
  show "(\<exists>e. snd (calibrateReference cv img) = Inl e)
      \<longleftrightarrow> cv = None \<or> (\<exists>lib e. cv = Some lib \<and> cv_imread lib img = Inl e)"
  proof (cases cv)
    case None
    then show ?thesis by (simp add: calibrateReference_def)
  next
    case (Some lib)
    show ?thesis
    proof (cases "cv_imread lib img")
      case (Inl e)
      with Some show ?thesis by (simp add: calibrateReference_def Let_def)
    next
      case (Inr src)
      from calibrateReference_returns[OF Inr] Some Inr show ?thesis by auto
    qed
  qed
  show "(\<exists>e. snd (calibrateReference_hue cv img) = Inl e)
      \<longleftrightarrow> cv = None \<or> (\<exists>lib. cv = Some lib \<and> hueCallThrows lib img)"
  proof (cases cv)
    case None
    then show ?thesis by (simp add: calibrateReference_hue_def)
  next
    case (Some lib)
    then show ?thesis
      by (simp add: calibrateReference_hue_def hueCallThrows_def Let_def
          split: sum.splits prod.splits)
  qed
qed

theorem calibrateReference_fails_iff_witness:
  "\<not> (\<exists>e. snd (calibrateReference (Some stubCv) blankPicture) = Inl e)
   \<and> \<not> (\<exists>e. snd (calibrateReference_hue (Some stubCv) blankPicture) = Inl e)"
  using calibrateReference_fails_iff [of "Some stubCv" blankPicture]
  by (simp add: stubCv_def hueCallThrows_def)

text \<open>
  Claim C10.  With the collaborator available and the picture read, when the contour
  extraction finds no contour of sufficient area (area above 100 in the fixed-color
  version, above 0 in the dominant-hue version), \<open>calibrateReference\<close> returns
  normally, after one warning, a profile whose geometry is all zeros: normalized box
  \<open>x = y = w = h = 0\<close> with aspect ratio 0, respectively aspect ratio, coverage
  ratio, width and height 0.  \<open>scanFrame\<close> projects that template onto every frame
  as the empty rectangle at the origin.
\<close>

theorem calibrateReference_zero_geometry:
  fixes lib :: "('i, 'm, 'c) cvlib"
  assumes "cv_imread lib img = Inr src"
  shows
  "(extracted lib src (dark fixedBounds) = Some (hsv, cs)
      \<and> (\<forall>c\<in>set cs. cv_contourArea lib c \<le> 100)
     \<longrightarrow> calibrateReference (Some lib) img =
          ([ConsoleWarn ''Calibration: Could not detect Menu Background.'' None],
           Inr \<lparr>bounds = fixedBounds,
                spatial = \<lparr>normalizedBox = \<lparr>nb_x = Fin 0, nb_y = Fin 0, nb_w = Fin 0, nb_h = Fin 0\<rparr>,
                           aspectRatio = Fin 0\<rparr>\<rparr>))
   \<and> (cv_toHsv lib src = Inr hsv
      \<and> mat_roi lib hsv (centreRoi (mat_cols lib hsv) (mat_rows lib hsv)) = Inr roi
      \<and> cv_meanHue lib roi = Inr h
      \<and> cv_segment lib hsv
           \<lparr>lower = [max 0 (h - 10), 50, 50, 0], upper = [min 180 (h + 10), 255, 255, 255]\<rparr> = Inr cs
      \<and> (\<forall>c\<in>set cs. cv_contourArea lib c \<le> 0)
     \<longrightarrow> calibrateReference_hue (Some lib) img =
          ([ConsoleWarn ''Calibration: Could not isolate target object in reference image.'' None],
           Inr \<lparr>hsvBounds =
                  \<lparr>lower = [max 0 (h - 10), 50, 50, 0], upper = [min 180 (h + 10), 255, 255, 255]\<rparr>,
                geometry = \<lparr>g_aspectRatio = Fin 0, g_coverageRatio = Fin 0,
                            g_width = Fin 0, g_height = Fin 0\<rparr>\<rparr>))
   \<and> projectTemplate \<lparr>nb_x = Fin 0, nb_y = Fin 0, nb_w = Fin 0, nb_h = Fin 0\<rparr> fw fh =
       \<lparr>n_x = Fin 0, n_y = Fin 0, n_width = Fin 0, n_height = Fin 0\<rparr>"
proof (intro conjI impI)
  show "projectTemplate \<lparr>nb_x = Fin 0, nb_y = Fin 0, nb_w = Fin 0, nb_h = Fin 0\<rparr> fw fh =
       \<lparr>n_x = Fin 0, n_y = Fin 0, n_width = Fin 0, n_height = Fin 0\<rparr>"
    by (simp add: projectTemplate_def)
next
  assume H: "extracted lib src (dark fixedBounds) = Some (hsv, cs)
      \<and> (\<forall>c\<in>set cs. cv_contourArea lib c \<le> 100)"
  have D: "dark fixedBounds = getHsvRange MENU_DARK \<lparr>tol_h = 10, tol_s = 50, tol_v = 50\<rparr>"
    by (simp add: fixedBounds_def)
  from H have "calibrateTry lib src (getHsvRange MENU_DARK \<lparr>tol_h = 10, tol_s = 50, tol_v = 50\<rparr>) =
    Inr ([ConsoleWarn ''Calibration: Could not detect Menu Background.'' None], zeroSpatial)"
    unfolding D[symmetric] by (intro calibrateTry_no_region[where hsv = hsv and cs = cs]) auto
  then show "calibrateReference (Some lib) img =
          ([ConsoleWarn ''Calibration: Could not detect Menu Background.'' None],
           Inr \<lparr>bounds = fixedBounds,
                spatial = \<lparr>normalizedBox = \<lparr>nb_x = Fin 0, nb_y = Fin 0, nb_w = Fin 0, nb_h = Fin 0\<rparr>,
                           aspectRatio = Fin 0\<rparr>\<rparr>)"
    using assms by (simp add: calibrateReference_def Let_def fixedBounds_def zeroSpatial_def)
next
  assume H: "cv_toHsv lib src = Inr hsv
      \<and> mat_roi lib hsv (centreRoi (mat_cols lib hsv) (mat_rows lib hsv)) = Inr roi
      \<and> cv_meanHue lib roi = Inr h
      \<and> cv_segment lib hsv
           \<lparr>lower = [max 0 (h - 10), 50, 50, 0], upper = [min 180 (h + 10), 255, 255, 255]\<rparr> = Inr cs
      \<and> (\<forall>c\<in>set cs. cv_contourArea lib c \<le> 0)"
  obtain m b where L: "largestContour lib cs (0, None) = (m, b)"
    by (cases "largestContour lib cs (0, None)")
  have "fst (largestContour lib cs (0, None)) \<le> 0"
    by (rule largestContour_bounded) (use H in auto)
  with L have M: "\<not> m > 0" by simp
  show "calibrateReference_hue (Some lib) img =
          ([ConsoleWarn ''Calibration: Could not isolate target object in reference image.'' None],
           Inr \<lparr>hsvBounds =
                  \<lparr>lower = [max 0 (h - 10), 50, 50, 0], upper = [min 180 (h + 10), 255, 255, 255]\<rparr>,
                geometry = \<lparr>g_aspectRatio = Fin 0, g_coverageRatio = Fin 0,
                            g_width = Fin 0, g_height = Fin 0\<rparr>\<rparr>)"
    using assms H L M
    by (cases b) (simp_all add: calibrateReference_hue_def Let_def zeroGeometry_def)
qed

theorem calibrateReference_zero_geometry_witness:
  "calibrateReference (Some stubCv) blankPicture =
          ([ConsoleWarn ''Calibration: Could not detect Menu Background.'' None],
           Inr \<lparr>bounds = fixedBounds,
                spatial = \<lparr>normalizedBox = \<lparr>nb_x = Fin 0, nb_y = Fin 0, nb_w = Fin 0, nb_h = Fin 0\<rparr>,
                           aspectRatio = Fin 0\<rparr>\<rparr>)
   \<and> calibrateReference_hue (Some stubCv) blankPicture =
          ([ConsoleWarn ''Calibration: Could not isolate target object in reference image.'' None],
           Inr \<lparr>hsvBounds = \<lparr>lower = [130, 50, 50, 0], upper = [150, 255, 255, 255]\<rparr>,
                geometry = \<lparr>g_aspectRatio = Fin 0, g_coverageRatio = Fin 0,
                            g_width = Fin 0, g_height = Fin 0\<rparr>\<rparr>)
   \<and> projectTemplate \<lparr>nb_x = Fin 0, nb_y = Fin 0, nb_w = Fin 0, nb_h = Fin 0\<rparr> 640 360 =
       \<lparr>n_x = Fin 0, n_y = Fin 0, n_width = Fin 0, n_height = Fin 0\<rparr>"
  using calibrateReference_zero_geometry [of stubCv blankPicture blankPicture blankPicture "[]"
      "blankPicture\<lparr>pic_blobs := []\<rparr>" 140 640 360]
  by (simp add: stubCv_def blankPicture_def extracted_def)


section \<open>Frame scanning\<close>

lemma scanLoop_iou_detects:
  "snd (scanLoop_iou lib hsv p e d cs) = list_ex (passes_iou lib hsv p e) cs"
  by (induction cs)
    (auto simp: passes_iou_def contentVerified_def withLogs_def Let_def split: sum.splits)

lemma scanLoop_dev_detects:
  "snd (scanLoop_dev lib sc sr hsv p cs) = list_ex (passes_dev lib sc sr hsv p) cs"
  by (induction cs)
    (auto simp: passes_dev_def contentVerified_def withLogs_def Let_def split: sum.splits)

lemma scanLoop_iou_stops:
  "passes_iou lib hsv p e c \<Longrightarrow>
    scanLoop_iou lib hsv p e d (pre @ c # post) = scanLoop_iou lib hsv p e d (pre @ [c])"
  by (induction pre)
    (auto simp: passes_iou_def contentVerified_def withLogs_def Let_def split: sum.splits)

lemma scanLoop_dev_stops:
  "passes_dev lib sc sr hsv p c \<Longrightarrow>
    scanLoop_dev lib sc sr hsv p (pre @ c # post) = scanLoop_dev lib sc sr hsv p (pre @ [c])"
  by (induction pre)
    (auto simp: passes_dev_def contentVerified_def withLogs_def Let_def split: sum.splits)

subsection \<open>The buffer handles at the end of a scan\<close>

lemma assigned_all_live:
  "assigned [LowW, HighW, MaskWhite] (assigned [Roi, LowL, HighL, MaskLight] m) = (\<lambda>v. Live)"
proof
  fix v
  show "assigned [LowW, HighW, MaskWhite] (assigned [Roi, LowL, HighL, MaskLight] m) v = Live"
    by (cases v) (simp_all add: assigned_def)
qed

text \<open>The match branch runs to its end and leaves the four bounds deleted but set.\<close>

lemma matchCleanup_live: "runSteps matchCleanup (\<lambda>v. Live) = (afterMatch, None)"
proof -
  have "fst (runSteps matchCleanup (\<lambda>v. Live)) v = afterMatch v" for v
    by (cases v) (simp_all add: matchCleanup_def deleteMat_def setNull_def afterMatch_def)
  then have "fst (runSteps matchCleanup (\<lambda>v. Live)) = afterMatch" by (rule ext)
  moreover have "snd (runSteps matchCleanup (\<lambda>v. Live)) = None"
    by (simp add: matchCleanup_def deleteMat_def setNull_def)
  ultimately show ?thesis by (simp add: prod_eq_iff)
qed

lemma rejectCleanup_iou_live: "runSteps rejectCleanup_iou (\<lambda>v. Live) = (noMats, None)"
proof -
  have "fst (runSteps rejectCleanup_iou (\<lambda>v. Live)) v = noMats v" for v
    by (cases v)
      (simp_all add: rejectCleanup_iou_def releaseIfSet_def release_def deleteMat_def setNull_def
        noMats_def)
  then have "fst (runSteps rejectCleanup_iou (\<lambda>v. Live)) = noMats" by (rule ext)
  moreover have "snd (runSteps rejectCleanup_iou (\<lambda>v. Live)) = None"
    by (simp add: rejectCleanup_iou_def releaseIfSet_def release_def deleteMat_def setNull_def)
  ultimately show ?thesis by (simp add: prod_eq_iff)
qed

lemma rejectCleanup_dev_live: "runSteps rejectCleanup_dev (\<lambda>v. Live) = (noMats, None)"
proof -
  have "fst (runSteps rejectCleanup_dev (\<lambda>v. Live)) v = noMats v" for v
    by (cases v)
      (simp_all add: rejectCleanup_dev_def release_def deleteMat_def setNull_def noMats_def)
  then have "fst (runSteps rejectCleanup_dev (\<lambda>v. Live)) = noMats" by (rule ext)
  moreover have "snd (runSteps rejectCleanup_dev (\<lambda>v. Live)) = None"
    by (simp add: rejectCleanup_dev_def release_def deleteMat_def setNull_def)
  ultimately show ?thesis by (simp add: prod_eq_iff)
qed

text \<open>
  After a match the \<open>finally\<close> block skips \<open>roi\<close>, \<open>maskLight\<close> and \<open>maskWhite\<close> and
  deletes \<open>lowL\<close> a second time.
\<close>

lemma finally_afterMatch: "snd (runSteps finallyInner afterMatch) = Some bindingError"
  by (simp add: finallyInner_def deleteIfSet_def deleteMat_def afterMatch_def)

lemma deleteIfSet_clean:
  "m v \<noteq> Deleted \<Longrightarrow> \<exists>m'. deleteIfSet v m = Inr m' \<and> (\<forall>w. w \<noteq> v \<longrightarrow> m' w = m w)"
  by (cases "m v") (auto simp: deleteIfSet_def deleteMat_def)

lemma deleteIfSet_all:
  "\<lbrakk>\<forall>v\<in>set vs. m v \<noteq> Deleted; distinct vs\<rbrakk>
    \<Longrightarrow> snd (runSteps (map deleteIfSet vs) m) = None"
proof (induction vs arbitrary: m)
  case Nil
  show ?case by simp
next
  case (Cons v vs)
  from Cons.prems have "m v \<noteq> Deleted" by simp
  from deleteIfSet_clean[of m v, OF this] obtain m' where
    m': "deleteIfSet v m = Inr m'" "\<forall>w. w \<noteq> v \<longrightarrow> m' w = m w" by blast
  have "\<forall>w\<in>set vs. m' w \<noteq> Deleted" using Cons.prems m'(2) by auto
  then have "snd (runSteps (map deleteIfSet vs) m') = None"
    using Cons.IH Cons.prems by simp
  then show ?case using m'(1) by simp
qed

lemma finally_clean: "clean m \<Longrightarrow> snd (runSteps finallyInner m) = None"
  unfolding finallyInner_def by (rule deleteIfSet_all) (simp_all add: clean_def)

lemma finally_hue_clean: "clean m \<Longrightarrow> snd (runSteps finallyInner_hue m) = None"
  unfolding finallyInner_hue_def by (rule deleteIfSet_all) (simp_all add: clean_def)

lemma clean_noMats: "clean noMats"
  by (simp add: clean_def noMats_def)

lemma clean_live: "clean (\<lambda>v. Live)"
  by (simp add: clean_def)

lemma clean_assigned: "clean m \<Longrightarrow> clean (assigned vs m)"
  by (simp add: clean_def assigned_def)

lemma matsLoop_iou_detected:
  "snd (scanLoop_iou lib hsv p e d cs) \<Longrightarrow> matsLoop_iou lib hsv p e cs m = afterMatch"
  by (induction cs arbitrary: m)
    (auto simp: Let_def triadRatios_def withLogs_def assigned_all_live matchCleanup_live
       rejectCleanup_iou_live split: sum.splits if_splits)

lemma matsLoop_iou_clean:
  "\<lbrakk>\<not> snd (scanLoop_iou lib hsv p e d cs); clean m\<rbrakk>
    \<Longrightarrow> clean (matsLoop_iou lib hsv p e cs m)"
  by (induction cs arbitrary: m)
    (auto simp: Let_def triadRatios_def withLogs_def assigned_all_live matchCleanup_live
       rejectCleanup_iou_live clean_assigned clean_live clean_noMats split: sum.splits if_splits)

lemma matsLoop_dev_detected:
  "snd (scanLoop_dev lib sc sr hsv p cs) \<Longrightarrow> matsLoop_dev lib sc sr hsv p cs m = afterMatch"
  by (induction cs arbitrary: m)
    (auto simp: Let_def triadRatios_def withLogs_def assigned_all_live matchCleanup_live
       rejectCleanup_dev_live split: sum.splits if_splits)

lemma matsLoop_dev_clean:
  "\<lbrakk>\<not> snd (scanLoop_dev lib sc sr hsv p cs); clean m\<rbrakk>
    \<Longrightarrow> clean (matsLoop_dev lib sc sr hsv p cs m)"
  by (induction cs arbitrary: m)
    (auto simp: Let_def triadRatios_def withLogs_def assigned_all_live matchCleanup_live
       rejectCleanup_dev_live clean_assigned clean_live clean_noMats split: sum.splits if_splits)

lemma catchCleanup_hue_noMats: "runSteps catchCleanup_hue noMats = (noMats, None)"
  by (simp add: catchCleanup_hue_def releaseIfSet_def noMats_def)

lemma catchCleanup_hue_assigned:
  "runSteps catchCleanup_hue (assigned [Roi, LowW, HighW, MaskWhite] noMats) = (noMats, None)"
proof -
  let ?m = "assigned [Roi, LowW, HighW, MaskWhite] noMats"
  have "fst (runSteps catchCleanup_hue ?m) v = noMats v" for v
    by (cases v)
      (simp_all add: catchCleanup_hue_def releaseIfSet_def release_def deleteMat_def setNull_def
        noMats_def assigned_def)
  then have "fst (runSteps catchCleanup_hue ?m) = noMats" by (rule ext)
  moreover have "snd (runSteps catchCleanup_hue ?m) = None"
    by (simp add: catchCleanup_hue_def releaseIfSet_def release_def deleteMat_def setNull_def
        noMats_def assigned_def)
  ultimately show ?thesis by (simp add: prod_eq_iff)
qed

lemma cleanup_hue_assigned:
  "runSteps cleanup_hue (assigned [Roi, LowW, HighW, MaskWhite] noMats) = (noMats, None)"
proof -
  let ?m = "assigned [Roi, LowW, HighW, MaskWhite] noMats"
  have "fst (runSteps cleanup_hue ?m) v = noMats v" for v
    by (cases v)
      (simp_all add: cleanup_hue_def release_def deleteMat_def setNull_def
        noMats_def assigned_def)
  then have "fst (runSteps cleanup_hue ?m) = noMats" by (rule ext)
  moreover have "snd (runSteps cleanup_hue ?m) = None"
    by (simp add: cleanup_hue_def release_def deleteMat_def setNull_def noMats_def assigned_def)
  ultimately show ?thesis by (simp add: prod_eq_iff)
qed

text \<open>The dominant-hue loop releases everything it assigns, on every path.\<close>

lemma matsLoop_hue_noMats: "matsLoop_hue lib hsv hp cfg minArea cs noMats = noMats"
  by (induction cs)
    (auto simp: Let_def catchCleanup_hue_noMats catchCleanup_hue_assigned cleanup_hue_assigned
       split: sum.splits)

lemma finallyThen_clean: "clean m \<Longrightarrow> finallyThen finallyInner m logs b = (logs, Inr b)"
  by (simp add: finallyThen_def finally_clean)

lemma finallyThen_hue_noMats: "finallyThen finallyInner_hue noMats logs b = (logs, Inr b)"
  by (simp add: finallyThen_def finally_hue_clean clean_noMats)

lemma finallyThen_afterMatch:
  "finallyThen finallyInner afterMatch logs b = (logs, Inl bindingError)"
  by (simp add: finallyThen_def finally_afterMatch)

subsection \<open>What \<open>scanFrame\<close> returns\<close>

text \<open>
  The overlap and the deviation version: \<open>false\<close> when no candidate passes both
  checks; when one does, the \<open>BindingError\<close> of the second \<open>lowL.delete()\<close>.
\<close>

lemma scanFrame_some:
  "scanFrame (Some lib) f p d =
    (case scanTry_iou lib f p d of
       (logs, Inl err, m) \<Rightarrow> (logs @ [ConsoleError ''scanFrame Error'' err], Inr False)
     | (logs, Inr detected, m) \<Rightarrow>
         (logs, if detected then Inl bindingError else Inr False))"
proof (cases "extracted lib f (dark (bounds p))")
  case None
  then show ?thesis
    by (auto simp: scanFrame_def scanTry_iou_def extracted_def Let_def finallyThen_clean
        clean_noMats split: sum.splits)
next
  case (Some a)
  obtain hsv cs where a: "a = (hsv, cs)" by (cases a)
  let ?er = "projectTemplate (normalizedBox (spatial p)) (mat_cols lib f) (mat_rows lib f)"
  from Some a have T: "scanTry_iou lib f p d =
      (fst (scanLoop_iou lib hsv p ?er d cs), Inr (snd (scanLoop_iou lib hsv p ?er d cs)),
       matsLoop_iou lib hsv p ?er cs noMats)"
    by (auto simp: scanTry_iou_def extracted_def Let_def split: sum.splits)
  show ?thesis
  proof (cases "snd (scanLoop_iou lib hsv p ?er d cs)")
    case True
    then have "matsLoop_iou lib hsv p ?er cs noMats = afterMatch"
      by (rule matsLoop_iou_detected)
    with True T show ?thesis by (simp add: scanFrame_def finallyThen_afterMatch)
  next
    case False
    then have "clean (matsLoop_iou lib hsv p ?er cs noMats)"
      using clean_noMats by (rule matsLoop_iou_clean)
    with False T show ?thesis by (simp add: scanFrame_def finallyThen_clean)
  qed
qed

lemma scanFrame_dev_some:
  "scanFrame_dev (Some lib) f p =
    (case scanTry_dev lib f p of
       (logs, Inl err, m) \<Rightarrow> (logs @ [ConsoleError ''scanFrame Error'' err], Inr False)
     | (logs, Inr detected, m) \<Rightarrow>
         (logs, if detected then Inl bindingError else Inr False))"
proof (cases "extracted lib f (dark (bounds p))")
  case None
  then show ?thesis
    by (auto simp: scanFrame_dev_def scanTry_dev_def extracted_def Let_def finallyThen_clean
        clean_noMats split: sum.splits)
next
  case (Some a)
  obtain hsv cs where a: "a = (hsv, cs)" by (cases a)
  let ?sc = "mat_cols lib f" and ?sr = "mat_rows lib f"
  from Some a have T: "scanTry_dev lib f p =
      (fst (scanLoop_dev lib ?sc ?sr hsv p cs), Inr (snd (scanLoop_dev lib ?sc ?sr hsv p cs)),
       matsLoop_dev lib ?sc ?sr hsv p cs noMats)"
    by (auto simp: scanTry_dev_def extracted_def Let_def split: sum.splits)
  show ?thesis
  proof (cases "snd (scanLoop_dev lib ?sc ?sr hsv p cs)")
    case True
    then have "matsLoop_dev lib ?sc ?sr hsv p cs noMats = afterMatch"
      by (rule matsLoop_dev_detected)
    with True T show ?thesis by (simp add: scanFrame_dev_def finallyThen_afterMatch)
  next
    case False
    then have "clean (matsLoop_dev lib ?sc ?sr hsv p cs noMats)"
      using clean_noMats by (rule matsLoop_dev_clean)
    with False T show ?thesis by (simp add: scanFrame_dev_def finallyThen_clean)
  qed
qed

lemma scanFrame_hue_some:
  "scanFrame_hue (Some lib) f hp cfg =
    (case scanTry_hue lib f hp cfg of
       (logs, Inl err, m) \<Rightarrow> (logs @ [ConsoleError ''scanFrame Error:'' err], Inr False)
     | (logs, Inr detected, m) \<Rightarrow> (logs, Inr detected))"
  by (auto simp: scanFrame_hue_def scanTry_hue_def Let_def matsLoop_hue_noMats
      finallyThen_hue_noMats split: sum.splits)

lemma scanFrame_result:
  "snd (scanFrame cv f p d) =
    (case cv of None \<Rightarrow> Inr False
     | Some lib \<Rightarrow>
        (case extracted lib f (dark (bounds p)) of None \<Rightarrow> Inr False
         | Some (hsv, cs) \<Rightarrow>
            if list_ex (passes_iou lib hsv p
                 (projectTemplate (normalizedBox (spatial p)) (mat_cols lib f) (mat_rows lib f))) cs
            then Inl bindingError else Inr False))"
proof (cases cv)
  case None
  then show ?thesis by (simp add: scanFrame_def)
next
  case (Some lib)
  then show ?thesis
    by (auto simp: scanFrame_some scanTry_iou_def extracted_def Let_def scanLoop_iou_detects
        split: sum.splits)
qed

lemma scanFrame_dev_result:
  "snd (scanFrame_dev cv f p) =
    (case cv of None \<Rightarrow> Inr False
     | Some lib \<Rightarrow>
        (case extracted lib f (dark (bounds p)) of None \<Rightarrow> Inr False
         | Some (hsv, cs) \<Rightarrow>
            if list_ex (passes_dev lib (mat_cols lib f) (mat_rows lib f) hsv p) cs
            then Inl bindingError else Inr False))"
proof (cases cv)
  case None
  then show ?thesis by (simp add: scanFrame_dev_def)
next
  case (Some lib)
  then show ?thesis
    by (auto simp: scanFrame_dev_some scanTry_dev_def extracted_def Let_def scanLoop_dev_detects
        split: sum.splits)
qed

lemma scanFrame_hue_returns: "\<exists>b. snd (scanFrame_hue cv f hp cfg) = Inr b"
proof (cases cv)
  case None
  then show ?thesis by (auto simp: scanFrame_hue_def)
next
  case (Some lib)
  then show ?thesis
    by (auto simp: scanFrame_hue_some split: prod.splits sum.splits)
qed

lemma scanFrame_frame_error:
  "extracted lib f (dark (bounds p)) = None \<Longrightarrow>
    \<exists>e. scanFrame (Some lib) f p d = ([ConsoleError ''scanFrame Error'' e], Inr False)"
  by (auto simp: scanFrame_some scanTry_iou_def extracted_def Let_def split: sum.splits)

lemma scanFrame_dev_frame_error:
  "extracted lib f (dark (bounds p)) = None \<Longrightarrow>
    \<exists>e. scanFrame_dev (Some lib) f p = ([ConsoleError ''scanFrame Error'' e], Inr False)"
  by (auto simp: scanFrame_dev_some scanTry_dev_def extracted_def Let_def split: sum.splits)

lemma scanFrame_hue_frame_error:
  "extracted lib f (hsvBounds hp) = None \<Longrightarrow>
    \<exists>e. scanFrame_hue (Some lib) f hp cfg = ([ConsoleError ''scanFrame Error:'' e], Inr False)"
  by (auto simp: scanFrame_hue_some scanTry_hue_def extracted_def Let_def split: sum.splits)

lemma contentVerified_fractions:
  assumes "0 < rect_width r" "0 < rect_height r"
  shows "contentVerified lib hsv p r \<longleftrightarrow>
    (\<exists>l w. matching lib hsv r (light (bounds p)) = Some l
         \<and> matching lib hsv r (white (bounds p)) = Some w
         \<and> fraction l r > 1 / 100 \<and> fraction w r > 1 / 100)"
proof -
  have A: "rect_width r * rect_height r \<noteq> 0" using assms by simp
  show ?thesis
    using A
    by (auto simp: contentVerified_def triadRatios_def matching_def triadRule_def fraction_def
        js_gt_def Let_def split: sum.splits)
qed

lemmas js_defs = js_max_def js_min_def js_sub_def js_le_def js_gt_def js_ge_def js_inf_def
lemmas fixture_defs = stubCv_def menuPicture_def menuBlob_def menuProfile_def mkRect_def
  crowdedPicture_def farBlob_def dimBlob_def sparseBlob_def sparsePicture_def sparseHueProfile_def
  blankPicture_def fixedBounds_def whiteBounds_def brokenCv_def cropFailCv_def
  edgeBlob_def edgePicture_def edgeProfile_def rimBlob_def rimPicture_def rimProfile_def
  farPicture_def
lemmas lock_defs = overlapLock_def calculateIoU_def projectTemplate_def rectNum_def
  deviationLock_def deviations_def
lemmas scan_defs = scanFrame_some scanTry_iou_def lock_defs fl_defs
  triadRatios_def triadRule_def withLogs_def
  scanFrame_dev_some scanTry_dev_def
  scanFrame_hue_some scanTry_hue_def geometricFilter_def whiteDensity_def defaultScanConfig_def

subsection \<open>Failures inside \<open>scanFrame\<close>\<close>

text \<open>
  Without the collaborator every version returns \<open>false\<close> at once and nothing reaches
  the caller.  This refutes claim C2 as stated (a missing collaborator reported to the
  caller as a failure).
\<close>

theorem scanFrame_without_cv_is_false:
  "scanFrame (None :: (picture, picture, blob) cvlib option) menuPicture menuProfile True
      = ([], Inr False)
   \<and> scanFrame_dev (None :: (picture, picture, blob) cvlib option) menuPicture menuProfile
      = ([], Inr False)
   \<and> scanFrame_hue (None :: (picture, picture, blob) cvlib option) sparsePicture sparseHueProfile
        defaultScanConfig = ([], Inr False)"
  by (simp add: scanFrame_def scanFrame_dev_def scanFrame_hue_def)

text \<open>
  Claim C2, as amended.  The dominant-hue version returns a boolean for every
  collaborator state, frame and profile: it never raises.  In every version: without
  the collaborator the call returns \<open>false\<close> at once, with no console output; when a
  frame-level step (color conversion, segmentation, contour extraction) throws, the
  call logs one \<open>console.error\<close> and returns \<open>false\<close>; when the content check of one
  candidate throws, the loop logs one \<open>console.warn\<close> and goes on with the next
  candidate.  In the overlap and the deviation version a call in which no candidate
  passes both checks returns \<open>false\<close>, whatever was thrown inside the content checks.
  (What these two versions do when a candidate passes is stated in the next
  subsection.)
\<close>

theorem scanFrame_failure_handling:
  "(\<exists>b. snd (scanFrame_hue cv f hp cfg) = Inr b)
   \<and> (cv = None \<longrightarrow> scanFrame cv f p d = ([], Inr False)
        \<and> scanFrame_dev cv f p = ([], Inr False)
        \<and> scanFrame_hue cv f hp cfg = ([], Inr False))
   \<and> (cv = Some lib \<and> extracted lib f (dark (bounds p)) = None
        \<longrightarrow> (\<exists>e. scanFrame cv f p d = ([ConsoleError ''scanFrame Error'' e], Inr False))
          \<and> (\<exists>e. scanFrame_dev cv f p = ([ConsoleError ''scanFrame Error'' e], Inr False)))
   \<and> (cv = Some lib \<and> extracted lib f (hsvBounds hp) = None
        \<longrightarrow> (\<exists>e. scanFrame_hue cv f hp cfg = ([ConsoleError ''scanFrame Error:'' e], Inr False)))
   \<and> (cv = Some lib \<and> extracted lib f (dark (bounds p)) = Some (hsv, cs)
        \<and> \<not> list_ex (passes_iou lib hsv p
               (projectTemplate (normalizedBox (spatial p)) (mat_cols lib f) (mat_rows lib f))) cs
        \<longrightarrow> snd (scanFrame cv f p d) = Inr False)
   \<and> (cv = Some lib \<and> extracted lib f (dark (bounds p)) = Some (hsv, cs)
        \<and> \<not> list_ex (passes_dev lib (mat_cols lib f) (mat_rows lib f) hsv p) cs
        \<longrightarrow> snd (scanFrame_dev cv f p) = Inr False)
   \<and> (overlapLock er (cv_boundingRect lib c)
        \<and> triadRatios lib hsv p (cv_boundingRect lib c) = Inl err
        \<longrightarrow> scanLoop_iou lib hsv p er False (c # rest) =
              withLogs [ConsoleWarn ''ROI Check Error'' (Some err)]
                (scanLoop_iou lib hsv p er False rest))
   \<and> (geometricFilter hp minArea (cv_contourArea lib c) (cv_boundingRect lib c)
        \<and> whiteDensity lib hsv (cv_boundingRect lib c) (cv_contourArea lib c) = Inl err
        \<longrightarrow> scanLoop_hue lib hsv hp cfg minArea (c # rest) =
              withLogs [ConsoleWarn ''Error during ROI check'' (Some err)]
                (scanLoop_hue lib hsv hp cfg minArea rest))"
proof (intro conjI impI)
  show "\<exists>b. snd (scanFrame_hue cv f hp cfg) = Inr b" by (rule scanFrame_hue_returns)
  show "scanFrame cv f p d = ([], Inr False)" if "cv = None"
    using that by (simp add: scanFrame_def)
  show "scanFrame_dev cv f p = ([], Inr False)" if "cv = None"
    using that by (simp add: scanFrame_dev_def)
  show "scanFrame_hue cv f hp cfg = ([], Inr False)" if "cv = None"
    using that by (simp add: scanFrame_hue_def)
  show "\<exists>e. scanFrame cv f p d = ([ConsoleError ''scanFrame Error'' e], Inr False)"
    if "cv = Some lib \<and> extracted lib f (dark (bounds p)) = None"
    using that scanFrame_frame_error[of lib f p d] by simp
  show "\<exists>e. scanFrame_dev cv f p = ([ConsoleError ''scanFrame Error'' e], Inr False)"
    if "cv = Some lib \<and> extracted lib f (dark (bounds p)) = None"
    using that scanFrame_dev_frame_error[of lib f p] by simp
  show "\<exists>e. scanFrame_hue cv f hp cfg = ([ConsoleError ''scanFrame Error:'' e], Inr False)"
    if "cv = Some lib \<and> extracted lib f (hsvBounds hp) = None"
    using that scanFrame_hue_frame_error[of lib f hp cfg] by simp
  show "snd (scanFrame cv f p d) = Inr False"
    if "cv = Some lib \<and> extracted lib f (dark (bounds p)) = Some (hsv, cs)
        \<and> \<not> list_ex (passes_iou lib hsv p
               (projectTemplate (normalizedBox (spatial p)) (mat_cols lib f) (mat_rows lib f))) cs"
    using that by (simp add: scanFrame_result)
  show "snd (scanFrame_dev cv f p) = Inr False"
    if "cv = Some lib \<and> extracted lib f (dark (bounds p)) = Some (hsv, cs)
        \<and> \<not> list_ex (passes_dev lib (mat_cols lib f) (mat_rows lib f) hsv p) cs"
    using that by (simp add: scanFrame_dev_result)
  show "scanLoop_iou lib hsv p er False (c # rest) =
              withLogs [ConsoleWarn ''ROI Check Error'' (Some err)]
                (scanLoop_iou lib hsv p er False rest)"
    if "overlapLock er (cv_boundingRect lib c)
        \<and> triadRatios lib hsv p (cv_boundingRect lib c) = Inl err"
    using that by (simp add: Let_def)
  show "scanLoop_hue lib hsv hp cfg minArea (c # rest) =
              withLogs [ConsoleWarn ''Error during ROI check'' (Some err)]
                (scanLoop_hue lib hsv hp cfg minArea rest)"
    if "geometricFilter hp minArea (cv_contourArea lib c) (cv_boundingRect lib c)
        \<and> whiteDensity lib hsv (cv_boundingRect lib c) (cv_contourArea lib c) = Inl err"
    using that by (simp add: Let_def)
qed

lemma menuBlob_passes_iou:
  "passes_iou stubCv crowdedPicture menuProfile
     (projectTemplate (normalizedBox (spatial menuProfile)) 100 100) menuBlob"
  by (simp add: passes_iou_def contentVerified_def scan_defs js_defs fixture_defs Let_def)

lemma menuBlob_passes_dev:
  "passes_dev stubCv 100 100 crowdedPicture menuProfile menuBlob"
  by (simp add: passes_dev_def contentVerified_def scan_defs js_defs fixture_defs Let_def)

lemma farBlob_fails:
  "\<not> passes_iou stubCv hsv menuProfile
     (projectTemplate (normalizedBox (spatial menuProfile)) 100 100) farBlob"
  "\<not> passes_dev stubCv 100 100 hsv menuProfile farBlob"
  by (simp_all add: passes_iou_def passes_dev_def lock_defs fl_defs js_defs fixture_defs Let_def)

lemma light_value_channel:
  "lower (getHsvRange MENU_LIGHT \<lparr>tol_h = 10, tol_s = 50, tol_v = 50\<rparr>) ! 2 = 89"
  by (simp add: getHsvRange_def MENU_LIGHT_def Let_def)

lemma light_not_white:
  "getHsvRange MENU_LIGHT \<lparr>tol_h = 10, tol_s = 50, tol_v = 50\<rparr>
     \<noteq> \<lparr>lower = [0, 0, 180, 0], upper = [180, 60, 255, 255]\<rparr>"
  using light_value_channel by auto

theorem scanFrame_failure_handling_witness:
  "(\<exists>e. scanFrame (Some brokenCv) menuPicture menuProfile True
          = ([ConsoleError ''scanFrame Error'' e], Inr False))
   \<and> (\<exists>e. scanFrame_dev (Some brokenCv) menuPicture menuProfile
          = ([ConsoleError ''scanFrame Error'' e], Inr False))
   \<and> (\<exists>e. scanFrame_hue (Some brokenCv) menuPicture sparseHueProfile defaultScanConfig
          = ([ConsoleError ''scanFrame Error:'' e], Inr False))
   \<and> snd (scanFrame (Some stubCv) farPicture menuProfile True) = Inr False
   \<and> snd (scanFrame_dev (Some stubCv) farPicture menuProfile) = Inr False
   \<and> scanLoop_iou cropFailCv crowdedPicture menuProfile
        (projectTemplate (normalizedBox (spatial menuProfile)) 100 100) False [dimBlob, menuBlob]
      = withLogs [ConsoleWarn ''ROI Check Error'' (Some (JsError ''bad crop''))]
          (scanLoop_iou cropFailCv crowdedPicture menuProfile
            (projectTemplate (normalizedBox (spatial menuProfile)) 100 100) False [menuBlob])
   \<and> scanLoop_hue cropFailCv crowdedPicture sparseHueProfile defaultScanConfig (Fin 300)
        [dimBlob, sparseBlob]
      = withLogs [ConsoleWarn ''Error during ROI check'' (Some (JsError ''bad crop''))]
          (scanLoop_hue cropFailCv crowdedPicture sparseHueProfile defaultScanConfig (Fin 300)
            [sparseBlob])"
proof -
  note T = scanFrame_failure_handling [of "Some brokenCv" menuPicture sparseHueProfile
      defaultScanConfig menuProfile True brokenCv]
  note N = scanFrame_failure_handling [where cv = "Some stubCv" and lib = stubCv
      and f = farPicture and p = menuProfile and d = True and hsv = farPicture
      and cs = "[farBlob]"]
  note U = scanFrame_failure_handling [where lib = cropFailCv and hsv = crowdedPicture
      and p = menuProfile and c = dimBlob and rest = "[menuBlob]" and err = "JsError ''bad crop''"
      and er = "projectTemplate (normalizedBox (spatial menuProfile)) 100 100"]
  note V = scanFrame_failure_handling [where lib = cropFailCv and hsv = crowdedPicture
      and hp = sparseHueProfile and cfg = defaultScanConfig and minArea = "Fin 300"
      and c = dimBlob and rest = "[sparseBlob]" and err = "JsError ''bad crop''"]
  have E: "extracted brokenCv menuPicture (dark (bounds menuProfile)) = None"
    "extracted brokenCv menuPicture (hsvBounds sparseHueProfile) = None"
    by (simp_all add: extracted_def brokenCv_def stubCv_def)
  have X: "extracted stubCv farPicture (dark (bounds menuProfile)) = Some (farPicture, [farBlob])"
    by (simp add: extracted_def stubCv_def farPicture_def)
  have M: "mat_cols stubCv farPicture = 100" "mat_rows stubCv farPicture = 100"
    by (simp_all add: stubCv_def farPicture_def)
  have F: "\<not> list_ex (passes_iou stubCv farPicture menuProfile
      (projectTemplate (normalizedBox (spatial menuProfile))
         (mat_cols stubCv farPicture) (mat_rows stubCv farPicture))) [farBlob]"
    "\<not> list_ex (passes_dev stubCv (mat_cols stubCv farPicture) (mat_rows stubCv farPicture)
         farPicture menuProfile) [farBlob]"
    using farBlob_fails[of farPicture] by (simp_all add: M)
  have L: "overlapLock (projectTemplate (normalizedBox (spatial menuProfile)) 100 100)
            (cv_boundingRect cropFailCv dimBlob)"
    by (simp add: lock_defs fl_defs js_defs fixture_defs Let_def)
  have R: "triadRatios cropFailCv crowdedPicture menuProfile (cv_boundingRect cropFailCv dimBlob)
            = Inl (JsError ''bad crop'')"
    by (simp add: triadRatios_def fixture_defs Let_def)
  have G: "geometricFilter sparseHueProfile (Fin 300) (cv_contourArea cropFailCv dimBlob)
            (cv_boundingRect cropFailCv dimBlob)"
    by (simp add: geometricFilter_def js_defs fixture_defs Let_def)
  have W: "whiteDensity cropFailCv crowdedPicture (cv_boundingRect cropFailCv dimBlob)
            (cv_contourArea cropFailCv dimBlob) = Inl (JsError ''bad crop'')"
    by (simp add: whiteDensity_def fixture_defs Let_def)
  from T E have A: "(\<exists>e. scanFrame (Some brokenCv) menuPicture menuProfile True
          = ([ConsoleError ''scanFrame Error'' e], Inr False))
   \<and> (\<exists>e. scanFrame_dev (Some brokenCv) menuPicture menuProfile
          = ([ConsoleError ''scanFrame Error'' e], Inr False))
   \<and> (\<exists>e. scanFrame_hue (Some brokenCv) menuPicture sparseHueProfile defaultScanConfig
          = ([ConsoleError ''scanFrame Error:'' e], Inr False))" by blast
  from N X F have B: "snd (scanFrame (Some stubCv) farPicture menuProfile True) = Inr False
   \<and> snd (scanFrame_dev (Some stubCv) farPicture menuProfile) = Inr False" by blast
  from U L R have C: "scanLoop_iou cropFailCv crowdedPicture menuProfile
        (projectTemplate (normalizedBox (spatial menuProfile)) 100 100) False [dimBlob, menuBlob]
      = withLogs [ConsoleWarn ''ROI Check Error'' (Some (JsError ''bad crop''))]
          (scanLoop_iou cropFailCv crowdedPicture menuProfile
            (projectTemplate (normalizedBox (spatial menuProfile)) 100 100) False [menuBlob])"
    by blast
  from V G W have D: "scanLoop_hue cropFailCv crowdedPicture sparseHueProfile defaultScanConfig
        (Fin 300) [dimBlob, sparseBlob]
      = withLogs [ConsoleWarn ''Error during ROI check'' (Some (JsError ''bad crop''))]
          (scanLoop_hue cropFailCv crowdedPicture sparseHueProfile defaultScanConfig (Fin 300)
            [sparseBlob])"
    by blast
  from A B C D show ?thesis by blast
qed

subsection \<open>The first candidate that passes\<close>

text \<open>
  Claim C3.  In the overlap and in the deviation version the candidate loop takes the
  contours in the order the extraction yields them and sets \<open>detected\<close> exactly when
  some candidate passes both the spatial filter and the content verification; the
  first such candidate ends the loop, so what follows it in the list changes neither
  the flag nor the console output.  When no candidate passes, \<open>scanFrame\<close> returns
  \<open>false\<close>.  When one passes, \<open>scanFrame\<close> does not return \<open>true\<close>: the match branch
  deletes \<open>lowL\<close>, \<open>highL\<close>, \<open>lowW\<close> and \<open>highW\<close> and leaves the variables set, the
  \<open>finally\<close> block deletes them again, and the \<open>BindingError\<close> of that second delete
  leaves the function.  No call of these two versions returns \<open>true\<close>.
\<close>

theorem scanFrame_raises_on_match:
  "snd (scanFrame cv f p d) =
      (case cv of None \<Rightarrow> Inr False
       | Some lib \<Rightarrow>
          (case extracted lib f (dark (bounds p)) of None \<Rightarrow> Inr False
           | Some (hsv, cs) \<Rightarrow>
              if list_ex (passes_iou lib hsv p
                   (projectTemplate (normalizedBox (spatial p)) (mat_cols lib f) (mat_rows lib f)))
                   cs
              then Inl bindingError else Inr False))
   \<and> snd (scanFrame_dev cv f p) =
      (case cv of None \<Rightarrow> Inr False
       | Some lib \<Rightarrow>
          (case extracted lib f (dark (bounds p)) of None \<Rightarrow> Inr False
           | Some (hsv, cs) \<Rightarrow>
              if list_ex (passes_dev lib (mat_cols lib f) (mat_rows lib f) hsv p) cs
              then Inl bindingError else Inr False))
   \<and> snd (scanFrame cv f p d) \<noteq> Inr True
   \<and> snd (scanFrame_dev cv f p) \<noteq> Inr True
   \<and> snd (scanLoop_iou lib' hsv' p er d cs') = list_ex (passes_iou lib' hsv' p er) cs'
   \<and> snd (scanLoop_dev lib' sc sr hsv' p cs') = list_ex (passes_dev lib' sc sr hsv' p) cs'
   \<and> (passes_iou lib' hsv' p er c
        \<longrightarrow> scanLoop_iou lib' hsv' p er d (pre @ c # post) = scanLoop_iou lib' hsv' p er d (pre @ [c]))
   \<and> (passes_dev lib' sc sr hsv' p c
        \<longrightarrow> scanLoop_dev lib' sc sr hsv' p (pre @ c # post)
            = scanLoop_dev lib' sc sr hsv' p (pre @ [c]))"
proof (intro conjI impI)
  show "snd (scanFrame cv f p d) =
      (case cv of None \<Rightarrow> Inr False
       | Some lib \<Rightarrow>
          (case extracted lib f (dark (bounds p)) of None \<Rightarrow> Inr False
           | Some (hsv, cs) \<Rightarrow>
              if list_ex (passes_iou lib hsv p
                   (projectTemplate (normalizedBox (spatial p)) (mat_cols lib f) (mat_rows lib f)))
                   cs
              then Inl bindingError else Inr False))"
    by (rule scanFrame_result)
  show "snd (scanFrame_dev cv f p) =
      (case cv of None \<Rightarrow> Inr False
       | Some lib \<Rightarrow>
          (case extracted lib f (dark (bounds p)) of None \<Rightarrow> Inr False
           | Some (hsv, cs) \<Rightarrow>
              if list_ex (passes_dev lib (mat_cols lib f) (mat_rows lib f) hsv p) cs
              then Inl bindingError else Inr False))"
    by (rule scanFrame_dev_result)
  show "snd (scanFrame cv f p d) \<noteq> Inr True"
    by (simp add: scanFrame_result split: option.splits prod.splits)
  show "snd (scanFrame_dev cv f p) \<noteq> Inr True"
    by (simp add: scanFrame_dev_result split: option.splits prod.splits)
  show "snd (scanLoop_iou lib' hsv' p er d cs') = list_ex (passes_iou lib' hsv' p er) cs'"
    by (rule scanLoop_iou_detects)
  show "snd (scanLoop_dev lib' sc sr hsv' p cs') = list_ex (passes_dev lib' sc sr hsv' p) cs'"
    by (rule scanLoop_dev_detects)
  show "scanLoop_iou lib' hsv' p er d (pre @ c # post) = scanLoop_iou lib' hsv' p er d (pre @ [c])"
    if "passes_iou lib' hsv' p er c" using that by (rule scanLoop_iou_stops)
  show "scanLoop_dev lib' sc sr hsv' p (pre @ c # post) = scanLoop_dev lib' sc sr hsv' p (pre @ [c])"
    if "passes_dev lib' sc sr hsv' p c" using that by (rule scanLoop_dev_stops)
qed

theorem scanFrame_raises_on_match_witness:
  "snd (scanFrame (Some stubCv) menuPicture menuProfile False) = Inl bindingError
   \<and> snd (scanFrame_dev (Some stubCv) menuPicture menuProfile) = Inl bindingError
   \<and> snd (scanFrame (Some stubCv) crowdedPicture menuProfile False) = Inl bindingError
   \<and> snd (scanFrame_dev (Some stubCv) crowdedPicture menuProfile) = Inl bindingError
   \<and> snd (scanFrame (Some stubCv) farPicture menuProfile False) = Inr False
   \<and> snd (scanLoop_iou stubCv crowdedPicture menuProfile
        (projectTemplate (normalizedBox (spatial menuProfile)) 100 100) False
        [farBlob, dimBlob, menuBlob, farBlob])
   \<and> scanLoop_iou stubCv crowdedPicture menuProfile
        (projectTemplate (normalizedBox (spatial menuProfile)) 100 100) True
        ([farBlob, dimBlob] @ menuBlob # [farBlob])
      = scanLoop_iou stubCv crowdedPicture menuProfile
        (projectTemplate (normalizedBox (spatial menuProfile)) 100 100) True
        ([farBlob, dimBlob] @ [menuBlob])
   \<and> scanLoop_dev stubCv 100 100 crowdedPicture menuProfile ([farBlob, dimBlob] @ menuBlob # [farBlob])
      = scanLoop_dev stubCv 100 100 crowdedPicture menuProfile ([farBlob, dimBlob] @ [menuBlob])"
proof -
  have P: "passes_iou stubCv menuPicture menuProfile
     (projectTemplate (normalizedBox (spatial menuProfile)) 100 100) menuBlob"
    "passes_dev stubCv 100 100 menuPicture menuProfile menuBlob"
    by (simp_all add: passes_iou_def passes_dev_def contentVerified_def scan_defs js_defs
        fixture_defs Let_def)
  have X: "extracted stubCv menuPicture (dark (bounds menuProfile)) = Some (menuPicture, [menuBlob])"
    "extracted stubCv crowdedPicture (dark (bounds menuProfile))
      = Some (crowdedPicture, [farBlob, dimBlob, menuBlob, farBlob])"
    "extracted stubCv farPicture (dark (bounds menuProfile)) = Some (farPicture, [farBlob])"
    by (simp_all add: extracted_def stubCv_def menuPicture_def crowdedPicture_def farPicture_def)
  have M: "mat_cols stubCv menuPicture = 100" "mat_rows stubCv menuPicture = 100"
    "mat_cols stubCv crowdedPicture = 100" "mat_rows stubCv crowdedPicture = 100"
    "mat_cols stubCv farPicture = 100" "mat_rows stubCv farPicture = 100"
    by (simp_all add: stubCv_def menuPicture_def crowdedPicture_def farPicture_def)
  note T1 = scanFrame_raises_on_match [where cv = "Some stubCv" and f = menuPicture
      and p = menuProfile and d = False]
  have A: "snd (scanFrame (Some stubCv) menuPicture menuProfile False) = Inl bindingError"
    using T1[THEN conjunct1] P by (simp add: X M)
  have B: "snd (scanFrame_dev (Some stubCv) menuPicture menuProfile) = Inl bindingError"
    using T1[THEN conjunct2, THEN conjunct1] P by (simp add: X M)
  note T2 = scanFrame_raises_on_match [where cv = "Some stubCv" and f = crowdedPicture
      and p = menuProfile and d = False and lib' = stubCv and hsv' = crowdedPicture
      and er = "projectTemplate (normalizedBox (spatial menuProfile)) 100 100"
      and cs' = "[farBlob, dimBlob, menuBlob, farBlob]"]
  have C: "snd (scanFrame (Some stubCv) crowdedPicture menuProfile False) = Inl bindingError"
    using T2[THEN conjunct1] menuBlob_passes_iou by (simp add: X M)
  have D: "snd (scanFrame_dev (Some stubCv) crowdedPicture menuProfile) = Inl bindingError"
    using T2[THEN conjunct2, THEN conjunct1] menuBlob_passes_dev by (simp add: X M)
  note T3 = scanFrame_raises_on_match [where cv = "Some stubCv" and f = farPicture
      and p = menuProfile and d = False]
  have E: "snd (scanFrame (Some stubCv) farPicture menuProfile False) = Inr False"
    using T3[THEN conjunct1] farBlob_fails[of farPicture] by (simp add: X M)
  have F: "snd (scanLoop_iou stubCv crowdedPicture menuProfile
        (projectTemplate (normalizedBox (spatial menuProfile)) 100 100) False
        [farBlob, dimBlob, menuBlob, farBlob])"
    using T2 menuBlob_passes_iou by simp
  note T4 = scanFrame_raises_on_match [where cv = "Some stubCv" and f = crowdedPicture
      and lib' = stubCv and hsv' = crowdedPicture and cs' = "[]"
      and p = menuProfile and c = menuBlob and pre = "[farBlob, dimBlob]"
      and post = "[farBlob]" and sc = 100 and sr = 100 and d = True
      and er = "projectTemplate (normalizedBox (spatial menuProfile)) 100 100"]
  have G: "scanLoop_iou stubCv crowdedPicture menuProfile
        (projectTemplate (normalizedBox (spatial menuProfile)) 100 100) True
        ([farBlob, dimBlob] @ menuBlob # [farBlob])
      = scanLoop_iou stubCv crowdedPicture menuProfile
        (projectTemplate (normalizedBox (spatial menuProfile)) 100 100) True
        ([farBlob, dimBlob] @ [menuBlob])"
    using T4 menuBlob_passes_iou by blast
  have H: "scanLoop_dev stubCv 100 100 crowdedPicture menuProfile
        ([farBlob, dimBlob] @ menuBlob # [farBlob])
      = scanLoop_dev stubCv 100 100 crowdedPicture menuProfile ([farBlob, dimBlob] @ [menuBlob])"
    using T4 menuBlob_passes_dev by blast
  from A B C D E F G H show ?thesis by blast
qed

subsection \<open>The content check\<close>

text \<open>
  The dominant-hue version with its default configuration: a candidate that passes
  the geometric filter and whose white pixels make up 3 percent of the region is
  rejected.  This refutes claim C4 as stated (a floor of 1 percent) for that version.
\<close>

theorem hue_content_check_rejects_three_percent:
  "geometricFilter sparseHueProfile (Fin 300) (cv_contourArea stubCv sparseBlob)
      (cv_boundingRect stubCv sparseBlob)
   \<and> whiteDensity stubCv sparsePicture (cv_boundingRect stubCv sparseBlob)
        (cv_contourArea stubCv sparseBlob) = Inr (Fin (3 / 100))
   \<and> fraction 18 (cv_boundingRect stubCv sparseBlob) = 3 / 100
   \<and> scanFrame_hue (Some stubCv) sparsePicture sparseHueProfile defaultScanConfig
        = ([], Inr False)"
  by (simp add: scan_defs js_defs fixture_defs fraction_def Let_def)

text \<open>
  Claim C4, as amended.  In the overlap and deviation versions the triad check of a
  region of positive area accepts exactly when both named ranges of the profile, light
  and white, could be counted and each count, divided by the area of the bounding box,
  strictly exceeds 1 percent; a spatially accepted candidate that fails the check is
  rejected and the evaluation continues with the next candidate.  In the dominant-hue
  version a candidate that passed the geometric filter is accepted exactly when the
  count of the hard-coded white range, divided by the contour's area, strictly exceeds
  \<open>config.matchingThreshold\<close> (5 percent by default); otherwise the evaluation
  continues with the next candidate.
\<close>

theorem content_check_floor:
  "(0 < rect_width r \<and> 0 < rect_height r
      \<longrightarrow> (contentVerified lib hsv p r \<longleftrightarrow>
            (\<exists>l w. matching lib hsv r (light (bounds p)) = Some l
                 \<and> matching lib hsv r (white (bounds p)) = Some w
                 \<and> fraction l r > 1 / 100 \<and> fraction w r > 1 / 100)))
   \<and> (overlapLock er (cv_boundingRect lib c)
      \<longrightarrow> snd (scanLoop_iou lib hsv p er d (c # rest)) =
            (contentVerified lib hsv p (cv_boundingRect lib c)
              \<or> snd (scanLoop_iou lib hsv p er d rest)))
   \<and> (deviationLock (deviations (normalizedBox (spatial p)) sc sr (cv_boundingRect lib c))
      \<longrightarrow> snd (scanLoop_dev lib sc sr hsv p (c # rest)) =
            (contentVerified lib hsv p (cv_boundingRect lib c)
              \<or> snd (scanLoop_dev lib sc sr hsv p rest)))
   \<and> (geometricFilter hp minArea (cv_contourArea lib c) (cv_boundingRect lib c)
      \<longrightarrow> snd (scanLoop_hue lib hsv hp cfg minArea (c # rest)) =
            ((case whiteDensity lib hsv (cv_boundingRect lib c) (cv_contourArea lib c) of
                Inl e \<Rightarrow> False
              | Inr density \<Rightarrow> js_gt density (Fin (matchingThreshold cfg)))
              \<or> snd (scanLoop_hue lib hsv hp cfg minArea rest)))"
proof (intro conjI impI)
  show "contentVerified lib hsv p r \<longleftrightarrow>
            (\<exists>l w. matching lib hsv r (light (bounds p)) = Some l
                 \<and> matching lib hsv r (white (bounds p)) = Some w
                 \<and> fraction l r > 1 / 100 \<and> fraction w r > 1 / 100)"
    if "0 < rect_width r \<and> 0 < rect_height r"
    using that contentVerified_fractions[of r lib hsv p] by simp
  show "snd (scanLoop_iou lib hsv p er d (c # rest)) =
            (contentVerified lib hsv p (cv_boundingRect lib c)
              \<or> snd (scanLoop_iou lib hsv p er d rest))"
    if "overlapLock er (cv_boundingRect lib c)"
    using that by (auto simp: contentVerified_def withLogs_def Let_def split: sum.splits)
  show "snd (scanLoop_dev lib sc sr hsv p (c # rest)) =
            (contentVerified lib hsv p (cv_boundingRect lib c)
              \<or> snd (scanLoop_dev lib sc sr hsv p rest))"
    if "deviationLock (deviations (normalizedBox (spatial p)) sc sr (cv_boundingRect lib c))"
    using that by (auto simp: contentVerified_def withLogs_def Let_def split: sum.splits)
  show "snd (scanLoop_hue lib hsv hp cfg minArea (c # rest)) =
            ((case whiteDensity lib hsv (cv_boundingRect lib c) (cv_contourArea lib c) of
                Inl e \<Rightarrow> False
              | Inr density \<Rightarrow> js_gt density (Fin (matchingThreshold cfg)))
              \<or> snd (scanLoop_hue lib hsv hp cfg minArea rest))"
    if "geometricFilter hp minArea (cv_contourArea lib c) (cv_boundingRect lib c)"
    using that by (auto simp: withLogs_def Let_def split: sum.splits)
qed

theorem content_check_floor_witness:
  "contentVerified stubCv crowdedPicture menuProfile (mkRect 10 10 30 20)
   \<and> \<not> contentVerified stubCv crowdedPicture menuProfile (mkRect 12 10 30 20)
   \<and> snd (scanLoop_iou stubCv crowdedPicture menuProfile
        (projectTemplate (normalizedBox (spatial menuProfile)) 100 100) False [dimBlob, menuBlob])
   \<and> snd (scanLoop_dev stubCv 100 100 crowdedPicture menuProfile [dimBlob, menuBlob])
   \<and> \<not> snd (scanLoop_hue stubCv sparsePicture sparseHueProfile defaultScanConfig (Fin 300)
        [sparseBlob])"
proof -
  have M: "matching stubCv crowdedPicture (mkRect 10 10 30 20) (light (bounds menuProfile)) = Some 60"
    "matching stubCv crowdedPicture (mkRect 10 10 30 20) (white (bounds menuProfile)) = Some 30"
    "matching stubCv crowdedPicture (mkRect 12 10 30 20) (light (bounds menuProfile)) = Some 0"
    by (simp_all add: matching_def fixture_defs light_not_white)
  have F: "fraction 60 (mkRect 10 10 30 20) = 1 / 10" "fraction 30 (mkRect 10 10 30 20) = 1 / 20"
    "fraction 0 (mkRect 12 10 30 20) = 0"
    by (simp_all add: fraction_def mkRect_def)
  have P: "0 < rect_width (mkRect 10 10 30 20) \<and> 0 < rect_height (mkRect 10 10 30 20)"
    "0 < rect_width (mkRect 12 10 30 20) \<and> 0 < rect_height (mkRect 12 10 30 20)"
    by (simp_all add: mkRect_def)
  note T1 = content_check_floor [where r = "mkRect 10 10 30 20" and lib = stubCv and hsv = crowdedPicture
      and p = menuProfile and c = dimBlob and rest = "[menuBlob]" and d = False and sc = 100
      and sr = 100 and er = "projectTemplate (normalizedBox (spatial menuProfile)) 100 100"]
  have A: "contentVerified stubCv crowdedPicture menuProfile (mkRect 10 10 30 20)"
    using T1[THEN conjunct1] P(1) M F by simp
  note T2 = content_check_floor [where r = "mkRect 12 10 30 20" and lib = stubCv and hsv = crowdedPicture
      and p = menuProfile]
  have B: "\<not> contentVerified stubCv crowdedPicture menuProfile (mkRect 12 10 30 20)"
    using T2[THEN conjunct1] P(2) M F by simp
  have L: "overlapLock (projectTemplate (normalizedBox (spatial menuProfile)) 100 100)
             (cv_boundingRect stubCv dimBlob)"
    "deviationLock (deviations (normalizedBox (spatial menuProfile)) 100 100
             (cv_boundingRect stubCv dimBlob))"
    by (simp_all add: scan_defs js_defs fixture_defs Let_def)
  have N: "snd (scanLoop_iou stubCv crowdedPicture menuProfile
        (projectTemplate (normalizedBox (spatial menuProfile)) 100 100) False [menuBlob])"
    "snd (scanLoop_dev stubCv 100 100 crowdedPicture menuProfile [menuBlob])"
    by (simp_all add: scan_defs js_defs fixture_defs Let_def)
  have C: "snd (scanLoop_iou stubCv crowdedPicture menuProfile
        (projectTemplate (normalizedBox (spatial menuProfile)) 100 100) False [dimBlob, menuBlob])"
    using T1[THEN conjunct2, THEN conjunct1] L(1) N(1) by simp
  have D: "snd (scanLoop_dev stubCv 100 100 crowdedPicture menuProfile [dimBlob, menuBlob])"
    using T1[THEN conjunct2, THEN conjunct2, THEN conjunct1] L(2) N(2) by simp
  note T3 = content_check_floor [where lib = stubCv and hsv = sparsePicture and hp = sparseHueProfile
      and cfg = defaultScanConfig and minArea = "Fin 300" and c = sparseBlob and rest = "[]"]
  have G: "geometricFilter sparseHueProfile (Fin 300) (cv_contourArea stubCv sparseBlob)
      (cv_boundingRect stubCv sparseBlob)"
    by (simp add: scan_defs js_defs fixture_defs Let_def)
  have W: "whiteDensity stubCv sparsePicture (cv_boundingRect stubCv sparseBlob)
        (cv_contourArea stubCv sparseBlob) = Inr (Fin (3 / 100))"
    by (simp add: scan_defs js_defs fixture_defs Let_def)
  have E: "\<not> snd (scanLoop_hue stubCv sparsePicture sparseHueProfile defaultScanConfig (Fin 300)
        [sparseBlob])"
    using T3[THEN conjunct2, THEN conjunct2, THEN conjunct2] G W
    by (simp add: js_gt_def defaultScanConfig_def)
  from A B C D E show ?thesis by blast
qed

subsection \<open>The boundary of the spatial filter\<close>

lemma binary64_threshold: "binary64 0.15 = Fin (5404319552844595 / 36028797018963968)"
  by (simp add: fl_defs)

text \<open>
  The deviation version computes each deviation in binary64.  A candidate at (45,45)
  of size 45 x 45 in a 100 x 100 frame, against the box (0.3, 0.3, 0.3, 0.3), is off
  by exactly 0.15 on every axis.  The program computes
  \<open>0.45 - 0.3 = 0.15000000000000002\<close>, which exceeds the literal \<open>0.15\<close>, and rejects
  the candidate, although its content verifies.  This refutes claim C5 as stated for
  the deviation policy.
\<close>

theorem deviation_lock_rejects_exact_boundary:
  "\<bar>45 / 100 - 3 / 10\<bar> = (15 / 100 :: real)
   \<and> deviations (normalizedBox (spatial edgeProfile)) 100 100 (cv_boundingRect stubCv edgeBlob)
      = [Fin (1351079888211149 / 9007199254740992), Fin (1351079888211149 / 9007199254740992),
         Fin (1351079888211149 / 9007199254740992), Fin (1351079888211149 / 9007199254740992)]
   \<and> binary64 0.15 = Fin (5404319552844595 / 36028797018963968)
   \<and> \<not> deviationLock
        (deviations (normalizedBox (spatial edgeProfile)) 100 100 (cv_boundingRect stubCv edgeBlob))
   \<and> contentVerified stubCv edgePicture edgeProfile (cv_boundingRect stubCv edgeBlob)
   \<and> scanLoop_dev stubCv 100 100 edgePicture edgeProfile [edgeBlob] = ([], False)
   \<and> scanFrame_dev (Some stubCv) edgePicture edgeProfile = ([], Inr False)"
proof -
  have D: "deviations (normalizedBox (spatial edgeProfile)) 100 100 (cv_boundingRect stubCv edgeBlob)
      = [Fin (1351079888211149 / 9007199254740992), Fin (1351079888211149 / 9007199254740992),
         Fin (1351079888211149 / 9007199254740992), Fin (1351079888211149 / 9007199254740992)]"
    by (simp add: lock_defs fl_defs js_defs fixture_defs Let_def)
  have B: "binary64 0.15 = Fin (5404319552844595 / 36028797018963968)"
    by (rule binary64_threshold)
  have L: "\<not> deviationLock
        (deviations (normalizedBox (spatial edgeProfile)) 100 100 (cv_boundingRect stubCv edgeBlob))"
    unfolding D deviationLock_def B by (simp add: js_gt_def)
  have C: "contentVerified stubCv edgePicture edgeProfile (cv_boundingRect stubCv edgeBlob)"
    by (simp add: contentVerified_def triadRatios_def triadRule_def js_defs fixture_defs Let_def)
  have S: "scanLoop_dev stubCv 100 100 edgePicture edgeProfile [edgeBlob] = ([], False)"
    using L by simp
  have X: "cv_toHsv stubCv edgePicture = Inr edgePicture"
    "cv_segment stubCv edgePicture (dark (bounds edgeProfile)) = Inr [edgeBlob]"
    "mat_cols stubCv edgePicture = 100" "mat_rows stubCv edgePicture = 100"
    by (simp_all add: stubCv_def edgePicture_def)
  have F: "scanFrame_dev (Some stubCv) edgePicture edgeProfile = ([], Inr False)"
    by (simp add: scanFrame_dev_some scanTry_dev_def X S
        del: scanLoop_dev.simps matsLoop_dev.simps)
  from D B L C S F show ?thesis by simp
qed

text \<open>
  Claim C5, as amended.  Both comparisons are inclusive, on the values the program
  computes.  Overlap policy: a candidate is rejected exactly when its Intersection
  over Union with the projected template is below 0.3, so a candidate at exactly 0.3
  is accepted.  Deviation policy: a candidate is rejected exactly when one of the four
  deviations, as computed in binary64, exceeds the binary64 value of the literal
  \<open>0.15\<close>; a candidate whose four computed deviations equal that value is accepted.
  A candidate that the filter rejects is skipped: the loop goes on with the next one.
\<close>

theorem spatial_lock_boundary:
  "(calculateIoU (rectNum r) er = Fin v \<longrightarrow> (overlapLock er r \<longleftrightarrow> 3 / 10 \<le> v))
   \<and> (\<not> overlapLock er (cv_boundingRect lib c)
        \<longrightarrow> scanLoop_iou lib hsv p er d (c # rest) = scanLoop_iou lib hsv p er d rest)
   \<and> binary64 0.15 = Fin (5404319552844595 / 36028797018963968)
   \<and> (deviations t sc sr r = [Fin x, Fin y, Fin w, Fin h]
        \<longrightarrow> (deviationLock (deviations t sc sr r)
              \<longleftrightarrow> x \<le> 5404319552844595 / 36028797018963968
                \<and> y \<le> 5404319552844595 / 36028797018963968
                \<and> w \<le> 5404319552844595 / 36028797018963968
                \<and> h \<le> 5404319552844595 / 36028797018963968))
   \<and> (deviations t sc sr r = [binary64 0.15, binary64 0.15, binary64 0.15, binary64 0.15]
        \<longrightarrow> deviationLock (deviations t sc sr r))
   \<and> (\<not> deviationLock (deviations (normalizedBox (spatial p)) sc sr (cv_boundingRect lib c))
        \<longrightarrow> scanLoop_dev lib sc sr hsv p (c # rest) = scanLoop_dev lib sc sr hsv p rest)"
proof (intro conjI impI)
  show "overlapLock er r \<longleftrightarrow> 3 / 10 \<le> v" if "calculateIoU (rectNum r) er = Fin v"
    using that by (auto simp: overlapLock_def)
  show "scanLoop_iou lib hsv p er d (c # rest) = scanLoop_iou lib hsv p er d rest"
    if "\<not> overlapLock er (cv_boundingRect lib c)"
    using that by (simp add: Let_def)
  show "binary64 0.15 = Fin (5404319552844595 / 36028797018963968)"
    by (rule binary64_threshold)
  show "deviationLock (deviations t sc sr r)
      \<longleftrightarrow> x \<le> 5404319552844595 / 36028797018963968
        \<and> y \<le> 5404319552844595 / 36028797018963968
        \<and> w \<le> 5404319552844595 / 36028797018963968
        \<and> h \<le> 5404319552844595 / 36028797018963968"
    if H: "deviations t sc sr r = [Fin x, Fin y, Fin w, Fin h]"
    unfolding H deviationLock_def binary64_threshold by (auto simp: js_gt_def)
  show "deviationLock (deviations t sc sr r)"
    if H: "deviations t sc sr r = [binary64 0.15, binary64 0.15, binary64 0.15, binary64 0.15]"
    unfolding H deviationLock_def binary64_threshold by (simp add: js_gt_def)
  show "scanLoop_dev lib sc sr hsv p (c # rest) = scanLoop_dev lib sc sr hsv p rest"
    if "\<not> deviationLock (deviations (normalizedBox (spatial p)) sc sr (cv_boundingRect lib c))"
    using that by (simp add: Let_def)
qed

theorem spatial_lock_boundary_witness:
  "calculateIoU (rectNum (mkRect 0 0 3 10))
      (projectTemplate \<lparr>nb_x = Fin 0, nb_y = Fin 0, nb_w = Fin 1, nb_h = Fin 1\<rparr> 10 10)
     = Fin (3 / 10)
   \<and> overlapLock (projectTemplate \<lparr>nb_x = Fin 0, nb_y = Fin 0, nb_w = Fin 1, nb_h = Fin 1\<rparr> 10 10)
       (mkRect 0 0 3 10)
   \<and> deviations (normalizedBox (spatial rimProfile)) 100 100 (cv_boundingRect stubCv rimBlob)
     = [binary64 0.15, binary64 0.15, binary64 0.15, binary64 0.15]
   \<and> deviationLock
        (deviations (normalizedBox (spatial rimProfile)) 100 100 (cv_boundingRect stubCv rimBlob))
   \<and> snd (scanLoop_dev stubCv 100 100 rimPicture rimProfile [rimBlob])
   \<and> scanLoop_iou stubCv farPicture menuProfile
        (projectTemplate (normalizedBox (spatial menuProfile)) 100 100) False [farBlob, menuBlob]
      = scanLoop_iou stubCv farPicture menuProfile
        (projectTemplate (normalizedBox (spatial menuProfile)) 100 100) False [menuBlob]
   \<and> scanLoop_dev stubCv 100 100 farPicture menuProfile [farBlob, menuBlob]
      = scanLoop_dev stubCv 100 100 farPicture menuProfile [menuBlob]"
proof -
  have I: "calculateIoU (rectNum (mkRect 0 0 3 10))
      (projectTemplate \<lparr>nb_x = Fin 0, nb_y = Fin 0, nb_w = Fin 1, nb_h = Fin 1\<rparr> 10 10)
     = Fin (3 / 10)"
    by (simp add: lock_defs fl_defs js_defs mkRect_def Let_def)
  have D: "deviations (normalizedBox (spatial rimProfile)) 100 100 (cv_boundingRect stubCv rimBlob)
     = [binary64 0.15, binary64 0.15, binary64 0.15, binary64 0.15]"
    unfolding binary64_threshold by (simp add: lock_defs fl_defs js_defs fixture_defs Let_def)
  note T = spatial_lock_boundary [where r = "mkRect 0 0 3 10" and v = "3 / 10"
      and er = "projectTemplate \<lparr>nb_x = Fin 0, nb_y = Fin 0, nb_w = Fin 1, nb_h = Fin 1\<rparr> 10 10"]
  have A: "overlapLock (projectTemplate \<lparr>nb_x = Fin 0, nb_y = Fin 0, nb_w = Fin 1, nb_h = Fin 1\<rparr> 10 10)
       (mkRect 0 0 3 10)"
    using T[THEN conjunct1] I by simp
  note U = spatial_lock_boundary [where r = "cv_boundingRect stubCv rimBlob"
      and t = "normalizedBox (spatial rimProfile)" and sc = 100 and sr = 100]
  have B: "deviationLock
        (deviations (normalizedBox (spatial rimProfile)) 100 100 (cv_boundingRect stubCv rimBlob))"
    using U[THEN conjunct2, THEN conjunct2, THEN conjunct2, THEN conjunct2, THEN conjunct1] D
    by (rule mp)
  have C: "contentVerified stubCv rimPicture rimProfile (cv_boundingRect stubCv rimBlob)"
    by (simp add: contentVerified_def triadRatios_def triadRule_def js_defs fixture_defs Let_def)
  have E: "snd (scanLoop_dev stubCv 100 100 rimPicture rimProfile [rimBlob])"
    unfolding scanLoop_dev_detects passes_dev_def using B C by simp
  have F: "\<not> overlapLock (projectTemplate (normalizedBox (spatial menuProfile)) 100 100)
            (cv_boundingRect stubCv farBlob)"
    "\<not> deviationLock (deviations (normalizedBox (spatial menuProfile)) 100 100
            (cv_boundingRect stubCv farBlob))"
    by (simp_all add: lock_defs fl_defs js_defs fixture_defs Let_def)
  note V = spatial_lock_boundary [where lib = stubCv and c = farBlob and p = menuProfile
      and hsv = farPicture and d = False and rest = "[menuBlob]" and sc = 100 and sr = 100
      and er = "projectTemplate (normalizedBox (spatial menuProfile)) 100 100"]
  have G: "scanLoop_iou stubCv farPicture menuProfile
        (projectTemplate (normalizedBox (spatial menuProfile)) 100 100) False [farBlob, menuBlob]
      = scanLoop_iou stubCv farPicture menuProfile
        (projectTemplate (normalizedBox (spatial menuProfile)) 100 100) False [menuBlob]"
    using V F(1) by blast
  have H: "scanLoop_dev stubCv 100 100 farPicture menuProfile [farBlob, menuBlob]
      = scanLoop_dev stubCv 100 100 farPicture menuProfile [menuBlob]"
    using V F(2) by blast
  from I A D B E G H show ?thesis by blast
qed

section \<open>Scan orchestration\<close>

lemma setState_fst [simp]: "fst (setState f ses) = f (fst ses)"
  and setState_snd [simp]: "snd (setState f ses) = snd ses @ [f (fst ses)]"
  by (simp_all add: setState_def)

text \<open>The scan of a frame returns \<open>false\<close> or raises.\<close>

lemma scanFrame_false_or_raises:
  "snd (scanFrame cv f p d) = Inr False \<or> snd (scanFrame cv f p d) = Inl bindingError"
  by (simp add: scanFrame_result split: option.splits prod.splits)

lemma appendOnly_snoc:
  "appendOnly tr \<Longrightarrow> tr \<noteq> [] \<Longrightarrow> prefix (detections (last tr)) (detections s)
    \<Longrightarrow> appendOnly (tr @ [s])"
  by (simp add: appendOnly_def successively_append_iff)


subsection \<open>What the loop keeps\<close>

lemma continues_refl: "continues ses ses"
  by (simp add: continues_def)

lemma continues_setState:
  "\<lbrakk>detections (f (fst ses)) = detections (fst ses); status (f (fst ses)) = status (fst ses)\<rbrakk>
    \<Longrightarrow> continues ses (setState f ses)"
  by (simp add: continues_def)

lemma continues_trans:
  assumes "continues a b" "continues b c"
  shows "continues a c"
proof -
  from assms(1) obtain n1 where n1: "snd b = snd a @ n1"
    and l1: "list_all (\<lambda>s. detections s = detections (fst a)) n1"
    by (auto simp: continues_def prefix_def)
  from assms(2) obtain n2 where n2: "snd c = snd b @ n2"
    and l2: "list_all (\<lambda>s. detections s = detections (fst b)) n2"
    by (auto simp: continues_def prefix_def)
  have d: "detections (fst b) = detections (fst a)" "detections (fst c) = detections (fst b)"
    "status (fst b) = status (fst a)" "status (fst c) = status (fst b)"
    using assms by (simp_all add: continues_def)
  have e: "snd c = snd a @ (n1 @ n2)" using n1 n2 by simp
  have l: "list_all (\<lambda>s. detections s = detections (fst a)) (n1 @ n2)"
    using l1 l2 d by simp
  have last: "snd c = snd a \<and> fst c = fst a \<or> snd c \<noteq> [] \<and> last (snd c) = fst c"
  proof (cases "snd c = snd b \<and> fst c = fst b")
    case True
    then show ?thesis using assms(1) by (auto simp: continues_def)
  next
    case False
    then show ?thesis using assms(2) by (auto simp: continues_def)
  qed
  show ?thesis
    unfolding continues_def using d e l last by simp
qed

text \<open>
  A loop that comes to an end has appended no event, since the scan of a frame never
  returns \<open>true\<close>: it leaves \<open>newDetections\<close> as it was, and the session continues the
  one it started with.
\<close>

lemma scanLoop_keeps:
  assumes "scanLoop env p k t ab nd ses = Some r"
  shows "fst (snd (snd r)) = nd \<and> continues ses (snd (snd (snd r)))"
  using assms
proof (induction env p k t ab nd ses r rule: scanLoop.raw_induct[rotated 1, consumes 1])
  case (1 scanLoop env profile k currentTime aborted newDetections ses r)
  show ?case
  proof (cases "js_lt (Fin currentTime) (duration env)")
    case False
    with 1(2) have "r = (None, aborted, newDetections, ses)" by simp
    then show ?thesis by (simp add: continues_refl)
  next
    case lt: True
    show ?thesis
    proof (cases "aborted \<or> abortedAfterSeek env k")
      case True
      with 1(2) lt have "r = (None, True, newDetections, ses)" by (simp split: if_splits)
      then show ?thesis by (simp add: continues_refl)
    next
      case go: False
      show ?thesis
      proof (cases "frameAt env k")
        case (Inl e)
        with 1(2) lt go have "r = (Some e, False, newDetections, ses)" by simp
        then show ?thesis by (simp add: continues_refl)
      next
        case (Inr mat)
        from scanFrame_false_or_raises[of "env_cv env" mat profile True]
        show ?thesis
        proof
          assume b: "snd (scanFrame (env_cv env) mat profile True) = Inr False"
          let ?ses = "setState (\<lambda>prev. prev\<lparr>progress := progressAt currentTime (duration env)\<rparr>) ses"
          from 1(2) lt go Inr b
          have rec: "scanLoop env profile (Suc k) (round53 (currentTime + interval))
                  (abortedAfterYield env k) newDetections ?ses = Some r" by simp
          have IH: "fst (snd (snd r)) = newDetections \<and> continues ?ses (snd (snd (snd r)))"
            by (rule 1(1)[OF rec])
          have "continues ses ?ses" by (rule continues_setState) simp_all
          with IH show ?thesis using continues_trans by blast
        next
          assume b: "snd (scanFrame (env_cv env) mat profile True) = Inl bindingError"
          with 1(2) lt go Inr have "r = (Some bindingError, False, newDetections, ses)" by simp
          then show ?thesis by (simp add: continues_refl)
        qed
      qed
    qed
  qed
qed



subsection \<open>Reaching the end of the timeline\<close>

lemma measure_decreases:
  fixes t dur :: real
  assumes "t < dur"
  shows "nat \<lceil>(dur - (t + interval)) * 2\<rceil> < nat \<lceil>(dur - t) * 2\<rceil>"
proof -
  have "(dur - (t + interval)) * 2 = (dur - t) * 2 - 1" by (simp add: interval_def algebra_simps)
  then have "\<lceil>(dur - (t + interval)) * 2\<rceil> = \<lceil>(dur - t) * 2 - 1\<rceil>" by (rule arg_cong)
  also have "\<dots> = \<lceil>(dur - t) * 2\<rceil> - 1" by (rule ceiling_diff_one)
  finally have "\<lceil>(dur - (t + interval)) * 2\<rceil> = \<lceil>(dur - t) * 2\<rceil> - 1" .
  moreover have "0 < \<lceil>(dur - t) * 2\<rceil>" using assms by simp
  ultimately show ?thesis by simp
qed

text \<open>
  Up to a duration of \<open>2^52\<close> seconds every value of the cursor is a binary64 value, so
  the cursor advances by one half in every iteration.
\<close>

lemma cursor_advances:
  assumes "real k / 2 < dur" "dur \<le> 2 ^ 52"
  shows "round53 (real k / 2 + interval) = real (Suc k) / 2"
proof -
  from assms have "real k < 2 ^ 53" by simp
  then have "k < 2 ^ 53" by (metis of_nat_less_iff of_nat_numeral of_nat_power)
  then have "Suc k \<le> 2 ^ 53" by simp
  then have R: "round53 (real (Suc k) / 2) = real (Suc k) / 2" by (rule round53_half)
  have E: "real k / 2 + interval = real (Suc k) / 2"
    by (simp add: interval_def field_simps)
  show ?thesis unfolding E by (rule R)
qed

text \<open>
  A loop that no cancellation disturbs and whose frames can all be grabbed comes to an
  end without the signal aborted; if the scan of no frame raises, it ends at the end of
  the timeline and leaves the events as they were.
\<close>

lemma scanLoop_exhausts:
  assumes dur: "duration env = Fin dur" and bound: "dur \<le> 2 ^ 52"
    and noabort: "\<forall>k. \<not> abortedAfterSeek env k \<and> \<not> abortedAfterYield env k"
    and frames: "\<forall>k. \<exists>m. frameAt env k = Inr m"
  shows "\<exists>th nd' ses'. scanLoop env p k (real k / 2) False nd ses = Some (th, False, nd', ses')
    \<and> ((\<forall>k m. frameAt env k = Inr m \<longrightarrow> snd (scanFrame (env_cv env) m p True) = Inr False)
          \<longrightarrow> th = None \<and> nd' = nd \<and> detections (fst ses') = detections (fst ses))"
proof (induction "nat \<lceil>(dur - real k / 2) * 2\<rceil>" arbitrary: k nd ses rule: less_induct)
  case less
  let ?t = "real k / 2"
  show ?case
  proof (cases "?t < dur")
    case False
    then show ?thesis by (subst scanLoop.simps) (simp add: dur)
  next
    case lt: True
    obtain mat where mat: "frameAt env k = Inr mat" using frames by blast
    from scanFrame_false_or_raises[of "env_cv env" mat p True]
    show ?thesis
    proof
      assume b: "snd (scanFrame (env_cv env) mat p True) = Inl bindingError"
      have "scanLoop env p k ?t False nd ses = Some (Some bindingError, False, nd, ses)"
        using lt mat b noabort by (subst scanLoop.simps) (simp add: dur)
      moreover have "snd (scanFrame (env_cv env) mat p True) \<noteq> Inr False"
        using b by simp
      then have "\<not> (\<forall>k m. frameAt env k = Inr m
          \<longrightarrow> snd (scanFrame (env_cv env) m p True) = Inr False)"
        using mat by blast
      ultimately show ?thesis by blast
    next
      assume b: "snd (scanFrame (env_cv env) mat p True) = Inr False"
      let ?ses = "setState (\<lambda>prev. prev\<lparr>progress := progressAt ?t (duration env)\<rparr>) ses"
      have next_t: "round53 (?t + interval) = real (Suc k) / 2"
        using lt bound by (rule cursor_advances)
      have "scanLoop env p k ?t False nd ses =
          scanLoop env p (Suc k) (round53 (?t + interval)) False nd ?ses"
        using lt mat b noabort by (subst scanLoop.simps) (simp add: dur)
      then have step: "scanLoop env p k ?t False nd ses =
          scanLoop env p (Suc k) (real (Suc k) / 2) False nd ?ses"
        unfolding next_t .
      have E: "real (Suc k) / 2 = ?t + interval" by (simp add: interval_def field_simps)
      have "nat \<lceil>(dur - real (Suc k) / 2) * 2\<rceil> < nat \<lceil>(dur - ?t) * 2\<rceil>"
        unfolding E using lt by (rule measure_decreases)
      from less[OF this, of nd ?ses]
      obtain th nd' ses' where
        R: "scanLoop env p (Suc k) (real (Suc k) / 2) False nd ?ses = Some (th, False, nd', ses')"
        and Q: "(\<forall>k m. frameAt env k = Inr m \<longrightarrow> snd (scanFrame (env_cv env) m p True) = Inr False)
            \<longrightarrow> th = None \<and> nd' = nd \<and> detections (fst ses') = detections (fst ?ses)"
        by blast
      from Q have "(\<forall>k m. frameAt env k = Inr m
            \<longrightarrow> snd (scanFrame (env_cv env) m p True) = Inr False)
            \<longrightarrow> th = None \<and> nd' = nd \<and> detections (fst ses') = detections (fst ses)"
        by simp
      with step R show ?thesis by simp
    qed
  qed
qed

subsection \<open>Sessions of \<open>processVideo\<close>\<close>

lemma sessionOk_update:
  assumes "sessionOk t nd ses" "detections (f (fst ses)) = detections (fst ses)"
  shows "sessionOk t nd (setState f ses)"
  using assms by (auto simp: sessionOk_def intro!: appendOnly_snoc)



lemma sessionOk_start:
  "sessionOk 0 [] (setState (\<lambda>prev. prev\<lparr>status := calibrating\<rparr>)
                      (setState (\<lambda>prev. resetState) (prev, [])))"
  by (simp add: sessionOk_def resetState_def increasing_def appendOnly_def setState_def)




lemma calibrated_bounds:
  "snd (calibrateReference cv img) = Inr p \<Longrightarrow> bounds p = fixedBounds"
  by (auto simp: calibrateReference_def fixedBounds_def Let_def
      split: option.splits sum.splits prod.splits)




lemmas env_defs = menuVideo_def blankVideo_def cancelledVideo_def idleState_def resetState_def

lemma calibrate_menu: "calibrateReference (Some stubCv) menuPicture = ([], Inr menuProfile)"
  by (simp add: calibrateReference_def calibrateTry_def spatialOf_def fixture_defs Let_def)


lemma scan_blank: "snd (scanFrame (Some stubCv) blankPicture menuProfile True) = Inr False"
proof -
  have X: "extracted stubCv blankPicture (dark (bounds menuProfile)) = Some (blankPicture, [])"
    by (simp add: extracted_def stubCv_def blankPicture_def)
  show ?thesis by (simp add: scanFrame_result X)
qed

lemma colorless_quiet:
  assumes "colorless env lib" "env_cv env = Some lib" "bounds p = fixedBounds"
    and "frameAt env k = Inr m"
  shows "snd (scanFrame (env_cv env) m p True) = Inr False"
proof (cases "extracted lib m (dark fixedBounds)")
  case None
  then show ?thesis using assms by (simp add: scanFrame_result)
next
  case (Some a)
  obtain hsv cs where a: "a = (hsv, cs)" by (cases a)
  with Some assms have "cs = []" unfolding colorless_def by blast
  with Some a assms show ?thesis by (simp add: scanFrame_result)
qed

lemma cursor_values:
  "round53 (1 / 2) = 1 / 2" "round53 1 = 1" "round53 (3 / 2) = 3 / 2" "round53 2 = 2"
  by (simp_all add: fl_defs)

lemma progress_values:
  "progressAt 0 (Fin 2) = Fin 0" "progressAt (1 / 2) (Fin 2) = Fin 25"
  "progressAt 1 (Fin 2) = Fin 50" "progressAt (3 / 2) (Fin 2) = Fin 75"
  by (simp_all add: progressAt_def fl_defs js_defs)

text \<open>
  Claim C7.  When the scan loop leaves because the sampling cursor has reached the
  duration and no cancellation was requested, the session goes to \<open>completed\<close> with
  progress 100 (in the worker-based hook \<open>processNextFrame\<close> does the same).  A run
  that nothing disturbs, over a video of at most \<open>2^52\<close> seconds (beyond, the cursor
  no longer advances), comes to an end: at that point, unless the scan of a frame
  raised, which ends the session in \<open>error\<close>.  If the video lacks the target color
  entirely no scan raises, and the run ends with no Detection Event, status
  \<open>completed\<close> and progress 100.
\<close>

theorem scan_completes_at_end_of_timeline:
  "(undisturbed env lib dur \<and> dur \<le> 2 ^ 52
      \<longrightarrow> (\<exists>st tr. processVideo env prev = Some (st, tr) \<and> \<not> isProcessing st
            \<and> (status st = completed \<and> progress st = Fin 100 \<or> status st = error)
            \<and> (colorless env lib
                 \<longrightarrow> status st = completed \<and> progress st = Fin 100 \<and> detections st = [])))
   \<and> status (fst (finishScan (None, False, nd, ses))) = completed
   \<and> progress (fst (finishScan (None, False, nd, ses))) = Fin 100
   \<and> \<not> isProcessing (fst (finishScan (None, False, nd, ses)))
   \<and> detections (fst (finishScan (None, False, nd, ses))) = detections (fst ses)
   \<and> (\<not> js_lt (Fin t) (duration env)
      \<longrightarrow> map_option finishScan (scanLoop env p k t False nd ses) =
            Some (setState (\<lambda>prev. prev\<lparr>status := completed, progress := Fin 100,
                                        isProcessing := False\<rparr>) ses))
   \<and> (js_ge (Fin t) d
      \<longrightarrow> status (fst (fst (processNextFrame t d ses))) = completed
        \<and> progress (fst (fst (processNextFrame t d ses))) = Fin 100
        \<and> \<not> isProcessing (fst (fst (processNextFrame t d ses)))
        \<and> snd (processNextFrame t d ses) = None)"
proof (intro conjI impI)
  assume UB: "undisturbed env lib dur \<and> dur \<le> 2 ^ 52"
  then have U: "undisturbed env lib dur" and bound: "dur \<le> 2 ^ 52" by simp_all
  from U obtain img src where cv: "env_cv env = Some lib" and img: "imageLoaded env = Inr img"
    and src: "cv_imread lib img = Inr src"
    and flags: "\<not> abortedAfterImage env" "canvasContext env" "videoLoaded env = Inr ()"
      "\<not> abortedAfterVideo env"
    and dur: "duration env = Fin dur"
    and quiet: "\<forall>k. \<not> abortedAfterSeek env k \<and> \<not> abortedAfterYield env k"
    and frames: "\<forall>k. \<exists>m. frameAt env k = Inr m"
    unfolding undisturbed_def by blast
  from calibrateReference_returns[OF src] obtain logs p
    where cal: "calibrateReference (Some lib) img = (logs, Inr p)" by blast
  then have bp: "bounds p = fixedBounds" using calibrated_bounds[of "Some lib" img p] by simp
  let ?ses2 = "setState (\<lambda>prev. prev\<lparr>status := processing\<rparr>)
                 (setState (\<lambda>prev. prev\<lparr>status := calibrating\<rparr>)
                      (setState (\<lambda>prev. resetState) (prev, [])))"
  have "\<exists>th nd' ses'. scanLoop env p 0 0 False [] ?ses2 = Some (th, False, nd', ses')
    \<and> ((\<forall>k m. frameAt env k = Inr m \<longrightarrow> snd (scanFrame (env_cv env) m p True) = Inr False)
          \<longrightarrow> th = None \<and> nd' = [] \<and> detections (fst ses') = detections (fst ?ses2))"
    using scanLoop_exhausts[OF dur bound quiet frames, of p 0 "[]" ?ses2] by simp
  then obtain th nd' ses' where
    L: "scanLoop env p 0 0 False [] ?ses2 = Some (th, False, nd', ses')"
    and Q: "(\<forall>k m. frameAt env k = Inr m \<longrightarrow> snd (scanFrame (env_cv env) m p True) = Inr False)
          \<longrightarrow> th = None \<and> nd' = [] \<and> detections (fst ses') = detections (fst ?ses2)"
    by blast
  have run: "processVideo env prev = Some (finishScan (th, False, nd', ses'))"
    using cv img flags cal L by (simp add: processVideo_def Let_def)
  have idle: "\<not> isProcessing (fst (finishScan (th, False, nd', ses')))"
    by (cases th) (simp_all add: finishScan_def catchError_def)
  have ends: "status (fst (finishScan (th, False, nd', ses'))) = completed
        \<and> progress (fst (finishScan (th, False, nd', ses'))) = Fin 100
      \<or> status (fst (finishScan (th, False, nd', ses'))) = error"
    by (cases th) (simp_all add: finishScan_def catchError_def)
  have none: "status (fst (finishScan (th, False, nd', ses'))) = completed
      \<and> progress (fst (finishScan (th, False, nd', ses'))) = Fin 100
      \<and> detections (fst (finishScan (th, False, nd', ses'))) = []" if C: "colorless env lib"
  proof -
    have "\<forall>k m. frameAt env k = Inr m \<longrightarrow> snd (scanFrame (env_cv env) m p True) = Inr False"
      using colorless_quiet[OF C cv bp] by blast
    with Q have "th = None" "detections (fst ses') = detections (fst ?ses2)" by blast+
    then show ?thesis by (simp add: finishScan_def resetState_def)
  qed
  show "\<exists>st tr. processVideo env prev = Some (st, tr) \<and> \<not> isProcessing st
            \<and> (status st = completed \<and> progress st = Fin 100 \<or> status st = error)
            \<and> (colorless env lib
                 \<longrightarrow> status st = completed \<and> progress st = Fin 100 \<and> detections st = [])"
    using run idle ends none by (metis prod.collapse)
next
  assume "\<not> js_lt (Fin t) (duration env)"
  then show "map_option finishScan (scanLoop env p k t False nd ses) =
            Some (setState (\<lambda>prev. prev\<lparr>status := completed, progress := Fin 100,
                                        isProcessing := False\<rparr>) ses)"
    by (subst scanLoop.simps) (simp add: finishScan_def)
qed (simp_all add: finishScan_def processNextFrame_def)

theorem scan_completes_at_end_of_timeline_witness:
  "\<exists>st tr. processVideo blankVideo idleState = Some (st, tr)
            \<and> status st = completed \<and> progress st = Fin 100 \<and> \<not> isProcessing st
            \<and> detections st = []"
proof -
  have U: "undisturbed blankVideo stubCv 2"
    by (simp add: undisturbed_def env_defs stubCv_def)
  have C: "colorless blankVideo stubCv"
    by (simp add: colorless_def env_defs extracted_def stubCv_def blankPicture_def)
  have B: "(2::real) \<le> 2 ^ 52" by simp
  from scan_completes_at_end_of_timeline[where env = blankVideo and lib = stubCv and dur = 2 and prev = idleState,
      THEN conjunct1] U B C show ?thesis by blast
qed

text \<open>
  Claim C8.  Once \<open>signal.aborted\<close> is observed, at the head of an iteration or right
  after the seek, the loop stops there: it returns the session as it is, so no further
  state update is emitted.  What follows the loop emits nothing either when the signal
  is aborted: neither the transition to \<open>completed\<close> nor the one to \<open>error\<close>.
  Whenever the loop ends with the signal aborted, the status is the one the loop
  started with, the state holds exactly the events collected, and everything that was
  collected or recorded before is still there.  A cancellation observed after the
  reference image was awaited leaves the session in \<open>calibrating\<close>.
\<close>

theorem cancellation_stops_quietly:
  "scanLoop env p k t True nd ses = Some (None, True, nd, ses)
   \<and> (js_lt (Fin t) (duration env) \<and> abortedAfterSeek env k
        \<longrightarrow> scanLoop env p k t False nd ses = Some (None, True, nd, ses))
   \<and> finishScan (th, True, nd, ses) = ses
   \<and> catchError True ses = ses
   \<and> (scanLoop env p k t ab nd ses = Some (th, True, nd', ses') \<and> sessionOk t nd ses
        \<longrightarrow> finishScan (th, True, nd', ses') = ses'
          \<and> status (fst ses') = status (fst ses)
          \<and> detections (fst ses') = nd'
          \<and> prefix nd nd'
          \<and> prefix (snd ses) (snd ses'))
   \<and> (env_cv env = Some lib \<and> abortedAfterImage env
        \<longrightarrow> (\<exists>st tr. processVideo env prev = Some (st, tr) \<and> status st = calibrating
               \<and> detections st = []))"
proof (intro conjI impI)
  show "scanLoop env p k t True nd ses = Some (None, True, nd, ses)"
    by (subst scanLoop.simps) simp
  show "scanLoop env p k t False nd ses = Some (None, True, nd, ses)"
    if "js_lt (Fin t) (duration env) \<and> abortedAfterSeek env k"
    using that by (subst scanLoop.simps) simp
  show "finishScan (th, True, nd, ses) = ses" by (cases th) (simp_all add: finishScan_def catchError_def)
  show "catchError True ses = ses" by (simp add: catchError_def)
next
  assume H: "scanLoop env p k t ab nd ses = Some (th, True, nd', ses') \<and> sessionOk t nd ses"
  show "finishScan (th, True, nd', ses') = ses'"
    by (cases th) (simp_all add: finishScan_def catchError_def)
  from H scanLoop_keeps[of env p k t ab nd ses "(th, True, nd', ses')"]
  have K: "nd' = nd" "continues ses ses'" by simp_all
  then show "status (fst ses') = status (fst ses)" "prefix nd nd'" "prefix (snd ses) (snd ses')"
    by (simp_all add: continues_def)
  from K H show "detections (fst ses') = nd'" by (simp add: continues_def sessionOk_def)
next
  assume H: "env_cv env = Some lib \<and> abortedAfterImage env"
  then show "\<exists>st tr. processVideo env prev = Some (st, tr) \<and> status st = calibrating
               \<and> detections st = []"
    by (cases "imageLoaded env")
      (simp_all add: processVideo_def Let_def catchError_def setState_def resetState_def)
qed

text \<open>
  The cancelled scan of the blank video: two samples are scanned, the third seek
  observes the cancellation, and the session stays in \<open>processing\<close> at 25 percent.
\<close>

lemma cancelled_loop:
  "scanLoop cancelledVideo menuProfile 0 0 False []
      (setState (\<lambda>prev. prev\<lparr>status := processing\<rparr>)
         (setState (\<lambda>prev. prev\<lparr>status := calibrating\<rparr>)
            (setState (\<lambda>prev. resetState) (idleState, []))))
   = Some (None, True, [],
       (\<lparr>isProcessing = True, progress = Fin 25, status = processing, detections = []\<rparr>,
        [\<lparr>isProcessing = True, progress = Fin 0, status = initializing, detections = []\<rparr>,
         \<lparr>isProcessing = True, progress = Fin 0, status = calibrating, detections = []\<rparr>,
         \<lparr>isProcessing = True, progress = Fin 0, status = processing, detections = []\<rparr>,
         \<lparr>isProcessing = True, progress = Fin 0, status = processing, detections = []\<rparr>,
         \<lparr>isProcessing = True, progress = Fin 25, status = processing, detections = []\<rparr>]))"
  by (simp add: scanLoop.simps env_defs scan_blank setState_def progress_values cursor_values
      interval_def)

theorem cancellation_stops_quietly_witness:
  "scanLoop cancelledVideo menuProfile (Suc (Suc 0)) 1 False [] (idleState, [idleState])
     = Some (None, True, [], (idleState, [idleState]))
   \<and> (\<exists>st tr. processVideo cancelledVideo idleState = Some (st, tr)
         \<and> status st = processing \<and> progress st = Fin 25 \<and> isProcessing st
         \<and> detections st = [] \<and> length tr = 5)"
proof -
  let ?ses2 = "setState (\<lambda>prev. prev\<lparr>status := processing\<rparr>)
         (setState (\<lambda>prev. prev\<lparr>status := calibrating\<rparr>)
            (setState (\<lambda>prev. resetState) (idleState, [])))"
  let ?st = "\<lparr>isProcessing = True, progress = Fin 25, status = processing, detections = []\<rparr>"
  obtain tr where L: "scanLoop cancelledVideo menuProfile 0 0 False [] ?ses2
      = Some (None, True, [], (?st, tr))" and N: "length tr = 5"
    using cancelled_loop by simp
  have ok: "sessionOk 0 [] ?ses2"
    using sessionOk_start by (rule sessionOk_update) simp
  have cal: "calibrateReference (env_cv cancelledVideo) menuPicture = ([], Inr menuProfile)"
    using calibrate_menu by (simp add: env_defs)
  have run: "processVideo cancelledVideo idleState = Some (finishScan (None, True, [], (?st, tr)))"
    using L by (simp add: processVideo_def env_defs calibrate_menu Let_def)
  note T = cancellation_stops_quietly [where env = cancelledVideo and p = menuProfile and k = 0
      and t = 0 and ab = False and nd = "[]" and ses = ?ses2 and th = None
      and nd' = "[]" and ses' = "(?st, tr)"]
  from T L ok have F: "finishScan (None, True, [], (?st, tr)) = (?st, tr)"
    by blast
  have A: "\<exists>st tr. processVideo cancelledVideo idleState = Some (st, tr)
         \<and> status st = processing \<and> progress st = Fin 25 \<and> isProcessing st
         \<and> detections st = [] \<and> length tr = 5"
    using run F N by simp
  note U = cancellation_stops_quietly [where env = cancelledVideo and p = menuProfile
      and k = "Suc (Suc 0)" and t = 1 and nd = "[]" and ses = "(idleState, [idleState])"]
  have G: "js_lt (Fin 1) (duration cancelledVideo) \<and> abortedAfterSeek cancelledVideo (Suc (Suc 0))"
    by (simp add: env_defs)
  from U G A show ?thesis by blast
qed




end
